theory Spec2Isabelle
  imports Complex_Main
begin

section \<open>JavaScript values as the client sees them\<close>

text \<open>
  The client (\<^verbatim>\<open>src/client.js\<close>, the version with request identifiers and
  time-outs) handles values produced by \<^verbatim>\<open>JSON.parse\<close> and by object literals.
  A number is an IEEE double: the program only tests it for zero and prints it, so a
  number is kept as an exact rational or one of the two infinities that
  \<^verbatim>\<open>JSON.parse\<close> can return. A string inside a value is a list of code units;
  \<^typ>\<open>char\<close> covers the code units below 256. An object is the list of its own
  properties in enumeration order, with distinct keys.
\<close>

datatype jsnum = Finite rat | PosInfinity | NegInfinity

datatype jsval =
    JUndefined
  | JNull
  | JBool bool
  | JNum jsnum
  | JStr string
  | JArr "jsval list"
  | JObj "(string \<times> jsval) list"

text \<open>\<^verbatim>\<open>!v\<close> is \<open>\<not> truthy v\<close>.\<close>

fun truthy :: "jsval \<Rightarrow> bool" where
  "truthy JUndefined = False"
| "truthy JNull = False"
| "truthy (JBool b) = b"
| "truthy (JNum n) = (n \<noteq> Finite 0)"
| "truthy (JStr s) = (s \<noteq> [])"
| "truthy (JArr xs) = True"
| "truthy (JObj kvs) = True"

definition nullish :: "jsval \<Rightarrow> bool" where
  "nullish v = (v = JUndefined \<or> v = JNull)"

subsection \<open>Errors\<close>

text \<open>
  What the catch blocks read of a thrown error: \<^verbatim>\<open>error.message\<close>,
  \<^verbatim>\<open>error.stack\<close>, and for an error of the HTTP library
  (\<^verbatim>\<open>axios.isAxiosError(error)\<close>) whether it carries a response
  (\<^verbatim>\<open>error.response.status\<close>, \<^verbatim>\<open>error.response.data\<close>), only a request, or
  neither.
\<close>

datatype axios_detail = Responded nat jsval | NoResponse | SetupFailure

datatype error = Error (axiosDetail: "axios_detail option") (message: string) (stack: string)

definition plainError :: "string \<times> string \<Rightarrow> error" where
  "plainError t = Error None (fst t) (snd t)"

subsection \<open>The outbound call\<close>

record http_request =
  url :: string
  body :: jsval
  headers :: "(string \<times> jsval) list"
  timeout :: nat

subsection \<open>Effects: a trace of events, and how a computation ends\<close>

text \<open>
  A computation leaves a trace of what it did to the outside (console calls,
  \<^verbatim>\<open>process.stdout.write\<close>, \<^verbatim>\<open>axios.post\<close>) and ends by returning a value, by
  throwing, or by \<^verbatim>\<open>process.exit(code)\<close>, which ends the process on the spot.
\<close>

datatype event =
    ConsoleLog "jsval list"
  | ConsoleError "jsval list"
  | StdoutWrite string
  | HttpPost http_request

datatype 'a outcome = Returned 'a | Raised error | Exited nat

type_synonym 'a comp = "event list \<times> 'a outcome"

definition retC :: "'a \<Rightarrow> 'a comp" where
  "retC x = ([], Returned x)"

definition raiseC :: "error \<Rightarrow> 'a comp" where
  "raiseC e = ([], Raised e)"

definition process_exit :: "nat \<Rightarrow> 'a comp" where
  "process_exit code = ([], Exited code)"

definition emitC :: "event \<Rightarrow> unit comp" where
  "emitC ev = ([ev], Returned ())"

definition bindC :: "'a comp \<Rightarrow> ('a \<Rightarrow> 'b comp) \<Rightarrow> 'b comp" where
  "bindC m f =
     (case snd m of
        Returned x \<Rightarrow> (fst m @ fst (f x), snd (f x))
      | Raised e \<Rightarrow> (fst m, Raised e)
      | Exited code \<Rightarrow> (fst m, Exited code))"

definition seqC :: "'a comp \<Rightarrow> 'b comp \<Rightarrow> 'b comp" where
  "seqC m k = bindC m (\<lambda>_. k)"

text \<open>\<^verbatim>\<open>try { m } catch (error) { h error }\<close>: an exit is not caught.\<close>

definition tryCatch :: "'a comp \<Rightarrow> (error \<Rightarrow> 'a comp) \<Rightarrow> 'a comp" where
  "tryCatch m h =
     (case snd m of
        Raised e \<Rightarrow> (fst m @ fst (h e), snd (h e))
      | _ \<Rightarrow> m)"

definition liftC :: "error + 'a \<Rightarrow> 'a comp" where
  "liftC r = (case r of Inl e \<Rightarrow> raiseC e | Inr x \<Rightarrow> retC x)"

text \<open>
  \<open>direct_writes\<close> lists the texts that the calls of \<^verbatim>\<open>process.stdout.write\<close>
  were given and \<open>posts\<close> the calls of \<^verbatim>\<open>axios.post\<close>, in order. The first is
  not all of standard output: the lines of \<^verbatim>\<open>console.log\<close> go there too, see
  \<open>standard_output\<close> below.
\<close>

definition direct_writes :: "event list \<Rightarrow> string list" where
  "direct_writes tr = concat (map (\<lambda>ev. case ev of StdoutWrite s \<Rightarrow> [s] | _ \<Rightarrow> []) tr)"

definition posts :: "event list \<Rightarrow> http_request list" where
  "posts tr = concat (map (\<lambda>ev. case ev of HttpPost r \<Rightarrow> [r] | _ \<Rightarrow> []) tr)"

subsection \<open>The world around the process\<close>

text \<open>
  The text read from standard input is a JavaScript string, a list of UTF-16 code units
  (each below 65536); \<open>units\<close> gives the code units of a string of the model.
\<close>

type_synonym code_unit = nat

definition units :: "string \<Rightarrow> code_unit list" where
  "units s = map of_char s"

text \<open>
  Everything the client takes from outside itself: the engine's printing of numbers,
  the texts (message, stack) of the faults it raises and its formatting of console
  arguments other than a single string; \<^verbatim>\<open>JSON.parse\<close>; whether the file
  operations of \<^verbatim>\<open>setupLogging\<close> succeed, so that it replaces the console methods
  by the ones that mirror to the log file (\<open>logMirror\<close>), and what they throw
  otherwise; the path of the log file; what the interactive set-up
  \<^verbatim>\<open>configureClient\<close> does, which is no part of the request protocol and is not
  modelled further; the configuration directory and file; the clock; the identifier that
  \<^verbatim>\<open>uuidv4()\<close> returns; and the answer of \<^verbatim>\<open>axios.post\<close>: \<open>Inr data\<close>
  when the call resolves (a 2xx response, \<open>data\<close> being \<^verbatim>\<open>response.data\<close>),
  \<open>Inl e\<close> when it rejects.
\<close>

record env =
  numberToString :: "jsnum \<Rightarrow> string"
  propertyFault :: "jsval \<Rightarrow> string \<Rightarrow> string \<times> string"
  conversionFault :: "string \<times> string"
  writeFault :: "string \<times> string"
  inspectFormat :: "jsval list \<Rightarrow> string"
  jsonParse :: "code_unit list \<Rightarrow> (string \<times> string) + jsval"
  logMirror :: bool
  loggingFault :: "string \<times> string"
  LOG_PATH :: string
  configureClient :: "unit comp"
  CONFIG_DIR :: string
  CONFIG_PATH :: string
  configDirExists :: bool
  mkdirFault :: "(string \<times> string) option"
  configFile :: "((string \<times> string) + string) option"
  moduleLoadTime :: nat
  startTime :: int
  endTime :: int
  uuidv4 :: string
  axiosPost :: "http_request \<Rightarrow> error + jsval"

subsection \<open>Standard output\<close>

text \<open>
  Two things reach standard output. \<^verbatim>\<open>process.stdout.write(s)\<close> writes \<open>s\<close>.
  \<^verbatim>\<open>console.log\<close>, the original method, which the replacement of
  \<^verbatim>\<open>setupLogging\<close> calls as well, formats its arguments and writes the line with a
  line feed: a single string argument is written as it is, anything else is formatted by
  inspection. \<^verbatim>\<open>console.error\<close> writes to standard error. The process is taken to
  run as a host starts it, with a standard output that is not a terminal, so that the
  \<^verbatim>\<open>readline\<close> interface created when the module is loaded writes nothing.
  \<open>standard_output env tr\<close> lists the texts that the trace \<open>tr\<close> sends to standard
  output, in order.
\<close>

definition line :: "string \<Rightarrow> string" where
  "line s = s @ [CHR 0x0A]"

definition utilFormat :: "env \<Rightarrow> jsval list \<Rightarrow> string" where
  "utilFormat env args = (case args of [JStr s] \<Rightarrow> s | _ \<Rightarrow> inspectFormat env args)"

fun written :: "env \<Rightarrow> event \<Rightarrow> string list" where
  "written env (ConsoleLog args) = [line (utilFormat env args)]"
| "written env (StdoutWrite s) = [s]"
| "written env (ConsoleError args) = []"
| "written env (HttpPost req) = []"

definition standard_output :: "env \<Rightarrow> event list \<Rightarrow> string list" where
  "standard_output env tr = concat (map (written env) tr)"

subsection \<open>Reading a property\<close>

text \<open>
  An array index is a canonical decimal numeral. \<open>getMember v k\<close> is \<^verbatim>\<open>v[k]\<close> for
  a value other than \<^verbatim>\<open>undefined\<close> and \<^verbatim>\<open>null\<close>, for the keys the client reads
  (none of them is a method of a built-in prototype); on those two, reading a property
  throws a TypeError.
\<close>

definition isDigit :: "char \<Rightarrow> bool" where
  "isDigit c = (48 \<le> (of_char c :: nat) \<and> (of_char c :: nat) \<le> 57)"

definition arrayIndex :: "string \<Rightarrow> nat option" where
  "arrayIndex k =
     (if k = [] \<or> \<not> list_all isDigit k \<or> (1 < length k \<and> hd k = CHR ''0'') then None
      else Some (foldl (\<lambda>n c. 10 * n + ((of_char c :: nat) - 48)) 0 k))"

fun getMember :: "jsval \<Rightarrow> string \<Rightarrow> jsval" where
  "getMember (JObj kvs) k = (case map_of kvs k of Some v \<Rightarrow> v | None \<Rightarrow> JUndefined)"
| "getMember (JArr xs) k =
     (if k = ''length'' then JNum (Finite (of_nat (length xs)))
      else case arrayIndex k of
             Some i \<Rightarrow> (if i < length xs then xs ! i else JUndefined)
           | None \<Rightarrow> JUndefined)"
| "getMember (JStr s) k =
     (if k = ''length'' then JNum (Finite (of_nat (length s)))
      else case arrayIndex k of
             Some i \<Rightarrow> (if i < length s then JStr [s ! i] else JUndefined)
           | None \<Rightarrow> JUndefined)"
| "getMember v k = JUndefined"

definition getProp :: "env \<Rightarrow> jsval \<Rightarrow> string \<Rightarrow> jsval comp" where
  "getProp env v k =
     (if nullish v then raiseC (plainError (propertyFault env v k))
      else retC (getMember v k))"

subsection \<open>Conversion to a string\<close>

text \<open>
  A template literal \<^verbatim>\<open>`${v}`\<close> and \<^verbatim>\<open>Array.prototype.join\<close> convert a value to
  a string. An array is joined with commas; \<^verbatim>\<open>join\<close> gives the empty string for
  \<^verbatim>\<open>undefined\<close> and \<^verbatim>\<open>null\<close> elements. A plain object is
  \<^verbatim>\<open>[object Object]\<close>, unless it has an own property \<^verbatim>\<open>toString\<close>: a parsed
  value is never callable, \<^verbatim>\<open>valueOf\<close> then gives back the object or is not
  callable either, and the conversion throws a TypeError.
\<close>

fun toStringJS :: "env \<Rightarrow> jsval \<Rightarrow> error + string"
  and joinJS :: "env \<Rightarrow> string \<Rightarrow> jsval list \<Rightarrow> error + string" where
  "toStringJS env JUndefined = Inr ''undefined''"
| "toStringJS env JNull = Inr ''null''"
| "toStringJS env (JBool b) = Inr (if b then ''true'' else ''false'')"
| "toStringJS env (JNum n) = Inr (numberToString env n)"
| "toStringJS env (JStr s) = Inr s"
| "toStringJS env (JArr xs) = joinJS env '','' xs"
| "toStringJS env (JObj kvs) =
     (if ''toString'' \<in> fst ` set kvs then Inl (plainError (conversionFault env))
      else Inr ''[object Object]'')"
| "joinJS env sep [] = Inr []"
| "joinJS env sep (x # xs) =
     (case (if x = JUndefined \<or> x = JNull then Inr [] else toStringJS env x) of
        Inl e \<Rightarrow> Inl e
      | Inr s \<Rightarrow>
          (case xs of
             [] \<Rightarrow> Inr s
           | _ # _ \<Rightarrow> (case joinJS env sep xs of Inl e \<Rightarrow> Inl e | Inr r \<Rightarrow> Inr (s @ sep @ r))))"

definition renders :: "env \<Rightarrow> jsval \<Rightarrow> bool" where
  "renders env v = (case toStringJS env v of Inl _ \<Rightarrow> False | Inr _ \<Rightarrow> True)"

subsection \<open>The console\<close>

text \<open>
  \<^verbatim>\<open>setupLogging\<close> replaces \<^verbatim>\<open>console.log\<close> and \<^verbatim>\<open>console.error\<close> by
  functions that first build the log line with \<^verbatim>\<open>args.join(' ')\<close> and then call
  the original method. \<open>logMirror\<close> tells whether that replacement is in place; if
  \<^verbatim>\<open>setupLogging\<close> failed, the original methods are called directly and format their
  arguments by inspection, which does not throw. The event records the call of the
  original method.
\<close>

definition console_log :: "env \<Rightarrow> jsval list \<Rightarrow> unit comp" where
  "console_log env args =
     (if logMirror env
      then bindC (liftC (joinJS env '' '' args)) (\<lambda>_. emitC (ConsoleLog args))
      else emitC (ConsoleLog args))"

definition console_error :: "env \<Rightarrow> jsval list \<Rightarrow> unit comp" where
  "console_error env args =
     (if logMirror env
      then bindC (liftC (joinJS env '' '' args)) (\<lambda>_. emitC (ConsoleError args))
      else emitC (ConsoleError args))"

subsection \<open>\<^verbatim>\<open>JSON.stringify\<close> and \<^verbatim>\<open>process.stdout.write\<close>\<close>

definition hexDigit :: "nat \<Rightarrow> char" where
  "hexDigit n = (if n < 10 then char_of (48 + n) else char_of (87 + n))"

definition quoteChar :: "char \<Rightarrow> string" where
  "quoteChar c =
     (if c = CHR 0x22 then [CHR 0x5C, CHR 0x22]
      else if c = CHR 0x5C then [CHR 0x5C, CHR 0x5C]
      else if c = CHR 0x08 then [CHR 0x5C, CHR ''b'']
      else if c = CHR 0x09 then [CHR 0x5C, CHR ''t'']
      else if c = CHR 0x0A then [CHR 0x5C, CHR ''n'']
      else if c = CHR 0x0C then [CHR 0x5C, CHR ''f'']
      else if c = CHR 0x0D then [CHR 0x5C, CHR ''r'']
      else if (of_char c :: nat) < 32
           then [CHR 0x5C, CHR ''u'', CHR ''0'', CHR ''0'',
                 hexDigit ((of_char c :: nat) div 16), hexDigit ((of_char c :: nat) mod 16)]
      else [c])"

definition quoteJSONString :: "string \<Rightarrow> string" where
  "quoteJSONString s = CHR 0x22 # concat (map quoteChar s) @ [CHR 0x22]"

fun joinWith :: "string \<Rightarrow> string list \<Rightarrow> string" where
  "joinWith sep [] = []"
| "joinWith sep [s] = s"
| "joinWith sep (s # t # ss) = s @ sep @ joinWith sep (t # ss)"

text \<open>
  \<open>None\<close> is the result \<^verbatim>\<open>undefined\<close>: a property whose value is
  \<^verbatim>\<open>undefined\<close> is left out of an object, and is \<^verbatim>\<open>null\<close> in an array. A number
  that is not finite is written \<^verbatim>\<open>null\<close>.
\<close>

fun stringifyValue :: "env \<Rightarrow> jsval \<Rightarrow> string option"
  and stringifyMembers :: "env \<Rightarrow> (string \<times> jsval) list \<Rightarrow> string list"
  and stringifyElements :: "env \<Rightarrow> jsval list \<Rightarrow> string list" where
  "stringifyValue env JUndefined = None"
| "stringifyValue env JNull = Some ''null''"
| "stringifyValue env (JBool b) = Some (if b then ''true'' else ''false'')"
| "stringifyValue env (JNum n) =
     Some (case n of Finite q \<Rightarrow> numberToString env n | _ \<Rightarrow> ''null'')"
| "stringifyValue env (JStr s) = Some (quoteJSONString s)"
| "stringifyValue env (JArr xs) = Some (''['' @ joinWith '','' (stringifyElements env xs) @ '']'')"
| "stringifyValue env (JObj kvs) = Some (''{'' @ joinWith '','' (stringifyMembers env kvs) @ ''}'')"
| "stringifyMembers env [] = []"
| "stringifyMembers env ((k, v) # kvs) =
     (case stringifyValue env v of
        None \<Rightarrow> stringifyMembers env kvs
      | Some s \<Rightarrow> (quoteJSONString k @ '':'' @ s) # stringifyMembers env kvs)"
| "stringifyElements env [] = []"
| "stringifyElements env (x # xs) =
     (case stringifyValue env x of None \<Rightarrow> ''null'' | Some s \<Rightarrow> s) # stringifyElements env xs"

definition JSON_stringify :: "env \<Rightarrow> jsval \<Rightarrow> string option" where
  "JSON_stringify env v = stringifyValue env v"

text \<open>\<^verbatim>\<open>process.stdout.write\<close> takes a string and throws on \<^verbatim>\<open>undefined\<close>.\<close>

definition process_stdout_write :: "env \<Rightarrow> string option \<Rightarrow> unit comp" where
  "process_stdout_write env chunk =
     (case chunk of
        Some s \<Rightarrow> emitC (StdoutWrite s)
      | None \<Rightarrow> raiseC (plainError (writeFault env)))"

section \<open>The configuration\<close>

definition colorRed :: string where
  "colorRed = CHR 0x1B # ''[31m''"

definition colorYellow :: string where
  "colorYellow = CHR 0x1B # ''[33m''"

definition colorReset :: string where
  "colorReset = CHR 0x1B # ''[0m''"

text \<open>\<^verbatim>\<open>Date.now()\<close> at the time the module is loaded gives the default client id.\<close>

definition DEFAULT_CONFIG :: "env \<Rightarrow> jsval" where
  "DEFAULT_CONFIG env =
     JObj [(''serverUrl'', JStr ''http://localhost:3000''),
           (''apiKey'', JStr []),
           (''clientId'', JStr (''client-'' @ numberToString env (Finite (of_nat (moduleLoadTime env)))))]"

definition ensureConfigDir :: "env \<Rightarrow> unit comp" where
  "ensureConfigDir env =
     (if \<not> configDirExists env
      then seqC (case mkdirFault env of
                   Some f \<Rightarrow> raiseC (plainError f)
                 | None \<Rightarrow> retC ())
               (console_log env [JStr (''Created config directory: '' @ CONFIG_DIR env)])
      else retC ())"

text \<open>
  \<open>configFile env\<close> is \<open>None\<close> when the file does not exist, \<open>Some (Inl f)\<close> when
  reading it throws, \<open>Some (Inr text)\<close> when it is read, the text being a string of the
  model. A file that does not parse and a file that cannot be read both give a copy of
  the default configuration.
\<close>

definition loadConfig :: "env \<Rightarrow> jsval comp" where
  "loadConfig env =
     seqC (ensureConfigDir env)
       (case configFile env of
          Some readResult \<Rightarrow>
            tryCatch
              (bindC (liftC (case readResult of
                               Inl f \<Rightarrow> Inl (plainError f)
                             | Inr configData \<Rightarrow> Inr configData))
                 (\<lambda>configData.
                    case jsonParse env (units configData) of
                      Inr config \<Rightarrow>
                        seqC (console_log env [JStr ''Successfully loaded configuration''])
                          (retC config)
                    | Inl parseError \<Rightarrow>
                        seqC (console_error env
                                [JStr (colorRed @ ''Error parsing configuration:'' @ colorReset),
                                 JStr (fst parseError)])
                       (seqC (console_error env
                                [JStr (colorYellow @ ''Raw config data:'' @ colorReset),
                                 JStr configData])
                       (seqC (console_log env [JStr ''Using default configuration instead''])
                          (retC (DEFAULT_CONFIG env))))))
              (\<lambda>error.
                 seqC (console_error env
                         [JStr (colorRed @ ''Error loading config:'' @ colorReset),
                          JStr (message error)])
                   (retC (DEFAULT_CONFIG env)))
        | None \<Rightarrow>
            seqC (console_log env [JStr ''No configuration file found, using defaults''])
              (retC (DEFAULT_CONFIG env)))"

section \<open>The five operations\<close>

text \<open>
  \<^verbatim>\<open>axios.post(url, body, { headers, timeout })\<close>: the call is recorded, and its
  promise resolves with the response data or rejects.
\<close>

definition axios_post :: "env \<Rightarrow> http_request \<Rightarrow> jsval comp" where
  "axios_post env req = seqC (emitC (HttpPost req)) (liftC (axiosPost env req))"

definition callToolRequest ::
  "string \<Rightarrow> string \<Rightarrow> jsval \<Rightarrow> jsval \<Rightarrow> string \<Rightarrow> nat \<Rightarrow> http_request" where
  "callToolRequest serverUrlText name args apiKey requestId ms =
     \<lparr>url = serverUrlText @ ''/mcp/call-tool'',
      body = JObj [(''tool'', JObj [(''name'', JStr name), (''args'', args)])],
      headers = [(''x-api-key'', apiKey),
                 (''x-request-id'', JStr requestId),
                 (''Content-Type'', JStr ''application/json'')],
      timeout = ms\<rparr>"

text \<open>
  The five catch blocks differ in their label only: they log the message, for an error
  of the HTTP library the response status and data (or that there was no response, or
  that the request could not be set up), and return the error result.
\<close>

definition logFailure :: "env \<Rightarrow> string \<Rightarrow> error \<Rightarrow> unit comp" where
  "logFailure env label error =
     seqC (console_error env [JStr label, JStr (message error)])
       (case axiosDetail error of
          Some (Responded status data) \<Rightarrow>
            seqC (console_error env [JStr ''Response status:'', JNum (Finite (of_nat status))])
              (console_error env [JStr ''Response data:'', data])
        | Some NoResponse \<Rightarrow> console_error env [JStr ''No response received from server'']
        | Some SetupFailure \<Rightarrow>
            console_error env [JStr ''Error setting up request:'', JStr (message error)]
        | None \<Rightarrow> retC ())"

definition errorResult :: "string \<Rightarrow> string \<Rightarrow> string \<Rightarrow> jsval" where
  "errorResult text code msg =
     JObj [(''content'', JArr [JObj [(''type'', JStr ''text''), (''text'', JStr text)]]),
           (''error'', JObj [(''code'', JStr code), (''message'', JStr msg)])]"

text \<open>
  The five \<^verbatim>\<open>try\<close> blocks begin alike: load the configuration, draw the request
  identifier, write two console lines, and post to
  \<^verbatim>\<open>`${config.serverUrl}/mcp/call-tool`\<close> (the template is evaluated for the
  console and again for the call, with the same result). They differ in the tool name
  and the time-out in milliseconds.
\<close>

definition postCall :: "env \<Rightarrow> string \<Rightarrow> nat \<Rightarrow> jsval \<Rightarrow> jsval comp" where
  "postCall env name ms args =
     bindC (loadConfig env) (\<lambda>config.
     bindC (getProp env config ''serverUrl'') (\<lambda>serverUrl.
     bindC (liftC (toStringJS env serverUrl)) (\<lambda>serverUrlText.
     bindC (console_log env [JStr (''Making request to: '' @ serverUrlText @ ''/mcp/call-tool'')]) (\<lambda>_.
     bindC (console_log env [JStr (''Request ID: '' @ uuidv4 env)]) (\<lambda>_.
     bindC (getProp env config ''apiKey'') (\<lambda>apiKey.
     axios_post env (callToolRequest serverUrlText name args apiKey (uuidv4 env) ms)))))))"

text \<open>
  The lines before \<^verbatim>\<open>try\<close> read \<^verbatim>\<open>args.clientId\<close> (and
  \<^verbatim>\<open>args.config.agentId\<close>, \<^verbatim>\<open>args.message.length\<close>) for the console: what
  they throw leaves the operation.
\<close>

definition logClientId :: "env \<Rightarrow> jsval \<Rightarrow> unit comp" where
  "logClientId env args =
     bindC (getProp env args ''clientId'') (\<lambda>clientId.
     bindC (liftC (toStringJS env clientId)) (\<lambda>clientIdText.
     console_log env [JStr (''Client ID: '' @ clientIdText)]))"

definition logAgentId :: "env \<Rightarrow> jsval \<Rightarrow> unit comp" where
  "logAgentId env args =
     bindC (getProp env args ''config'') (\<lambda>argsConfig.
     bindC (getProp env argsConfig ''agentId'') (\<lambda>agentId.
     bindC (liftC (toStringJS env agentId)) (\<lambda>agentIdText.
     console_log env [JStr (''Agent ID: '' @ agentIdText)])))"

definition logMessageLength :: "env \<Rightarrow> jsval \<Rightarrow> unit comp" where
  "logMessageLength env args =
     bindC (getProp env args ''message'') (\<lambda>msg.
     bindC (getProp env msg ''length'') (\<lambda>msgLength.
     bindC (liftC (toStringJS env msgLength)) (\<lambda>msgLengthText.
     console_log env [JStr (''Message length: '' @ msgLengthText @ '' characters'')])))"

definition authenticateWithAgentForce :: "env \<Rightarrow> jsval \<Rightarrow> jsval comp" where
  "authenticateWithAgentForce env args =
     bindC (console_log env [JStr ''Authenticating with AgentForce'']) (\<lambda>_.
     bindC (logClientId env args) (\<lambda>_.
     bindC (logAgentId env args) (\<lambda>_.
     tryCatch
       (bindC (postCall env ''agentforce_authenticate'' 30000 args) (\<lambda>data.
        bindC (console_log env [JStr ''Authentication successful'']) (\<lambda>_.
        getProp env data ''result'')))
       (\<lambda>error.
        bindC (logFailure env ''Authentication error:'' error) (\<lambda>_.
        retC (errorResult (''Authentication failed: '' @ message error)
                ''authentication_error'' (message error)))))))"

definition createAgentForceSession :: "env \<Rightarrow> jsval \<Rightarrow> jsval comp" where
  "createAgentForceSession env args =
     bindC (console_log env [JStr ''Creating AgentForce session'']) (\<lambda>_.
     bindC (logClientId env args) (\<lambda>_.
     tryCatch
       (bindC (postCall env ''agentforce_create_session'' 60000 args) (\<lambda>data.
        bindC (console_log env [JStr ''Session creation successful'']) (\<lambda>_.
        getProp env data ''result'')))
       (\<lambda>error.
        bindC (logFailure env ''Session creation error:'' error) (\<lambda>_.
        retC (errorResult (''Session creation failed: '' @ message error)
                ''session_creation_error'' (message error))))))"

text \<open>
  After a successful call this operation also reads
  \<^verbatim>\<open>response.data.result.content[0].text\<close> and its length for the console, inside
  the \<^verbatim>\<open>try\<close> block.
\<close>

definition logResponseLength :: "env \<Rightarrow> jsval \<Rightarrow> unit comp" where
  "logResponseLength env data =
     bindC (getProp env data ''result'') (\<lambda>result.
     bindC (getProp env result ''content'') (\<lambda>content.
     bindC (getProp env content ''0'') (\<lambda>first.
     bindC (getProp env first ''text'') (\<lambda>responseText.
     bindC (getProp env responseText ''length'') (\<lambda>responseLength.
     bindC (liftC (toStringJS env responseLength)) (\<lambda>responseLengthText.
     console_log env [JStr (''Response length: '' @ responseLengthText @ '' characters'')]))))))"

definition sendMessageToAgentForce :: "env \<Rightarrow> jsval \<Rightarrow> jsval comp" where
  "sendMessageToAgentForce env args =
     bindC (console_log env [JStr ''Sending message to AgentForce'']) (\<lambda>_.
     bindC (logClientId env args) (\<lambda>_.
     bindC (logMessageLength env args) (\<lambda>_.
     tryCatch
       (bindC (postCall env ''agentforce_send_message'' 300000 args) (\<lambda>data.
        bindC (console_log env
                 [JStr (''Message sending successful, took ''
                        @ numberToString env (Finite (of_int (endTime env - startTime env)))
                        @ ''ms'')]) (\<lambda>_.
        bindC (logResponseLength env data) (\<lambda>_.
        getProp env data ''result''))))
       (\<lambda>error.
        bindC (logFailure env ''Message sending error:'' error) (\<lambda>_.
        retC (errorResult (''Message sending failed: '' @ message error)
                ''message_sending_error'' (message error)))))))"

definition getAgentForceStatus :: "env \<Rightarrow> jsval \<Rightarrow> jsval comp" where
  "getAgentForceStatus env args =
     bindC (console_log env [JStr ''Getting AgentForce status'']) (\<lambda>_.
     bindC (logClientId env args) (\<lambda>_.
     tryCatch
       (bindC (postCall env ''agentforce_get_status'' 10000 args) (\<lambda>data.
        bindC (console_log env [JStr ''Status check successful'']) (\<lambda>_.
        getProp env data ''result'')))
       (\<lambda>error.
        bindC (logFailure env ''Status check error:'' error) (\<lambda>_.
        retC (errorResult (''Status check failed: '' @ message error)
                ''status_check_error'' (message error))))))"

definition resetAgentForceClient :: "env \<Rightarrow> jsval \<Rightarrow> jsval comp" where
  "resetAgentForceClient env args =
     bindC (console_log env [JStr ''Resetting AgentForce client'']) (\<lambda>_.
     bindC (logClientId env args) (\<lambda>_.
     tryCatch
       (bindC (postCall env ''agentforce_reset'' 10000 args) (\<lambda>data.
        bindC (console_log env [JStr ''Reset successful'']) (\<lambda>_.
        getProp env data ''result'')))
       (\<lambda>error.
        bindC (logFailure env ''Reset error:'' error) (\<lambda>_.
        retC (errorResult (''Reset failed: '' @ message error)
                ''reset_error'' (message error))))))"

section \<open>The handler of the request on standard input\<close>

text \<open>
  \<^verbatim>\<open>String.prototype.trim\<close> removes white space and line terminators from both
  ends: tab, line feed, vertical tab, form feed, carriage return, space, no-break space,
  the Unicode space separators, the line and paragraph separators and the byte order
  mark.
\<close>

definition isWhiteSpace :: "code_unit \<Rightarrow> bool" where
  "isWhiteSpace u =
     (u \<in> {0x09, 0x0A, 0x0B, 0x0C, 0x0D, 0x20, 0xA0, 0x1680, 0x2028, 0x2029, 0x202F, 0x205F,
            0x3000, 0xFEFF}
      \<or> (0x2000 \<le> u \<and> u \<le> 0x200A))"

definition trim :: "code_unit list \<Rightarrow> code_unit list" where
  "trim s = rev (dropWhile isWhiteSpace (rev (dropWhile isWhiteSpace s)))"

definition errorResponse :: "string \<Rightarrow> string \<Rightarrow> string \<Rightarrow> jsval" where
  "errorResponse text code msg = JObj [(''result'', errorResult text code msg)]"

text \<open>
  Each rejection of the handler writes a console line, writes the error response to
  standard output and exits with code 1.
\<close>

definition reject :: "env \<Rightarrow> jsval list \<Rightarrow> jsval \<Rightarrow> 'a comp" where
  "reject env consoleArgs response =
     bindC (console_error env consoleArgs) (\<lambda>_.
     bindC (process_stdout_write env (JSON_stringify env response)) (\<lambda>_.
     process_exit 1))"

text \<open>The five names that the \<^verbatim>\<open>switch\<close> on the tool name knows.\<close>

definition operationNames :: "string list" where
  "operationNames = [''agentforce_authenticate'', ''agentforce_create_session'',
     ''agentforce_send_message'', ''agentforce_get_status'', ''agentforce_reset'']"

text \<open>The \<^verbatim>\<open>switch\<close> itself, with its \<^verbatim>\<open>default\<close> branch.\<close>

definition dispatch :: "env \<Rightarrow> jsval \<Rightarrow> jsval \<Rightarrow> jsval comp" where
  "dispatch env name args =
     (if name = JStr ''agentforce_authenticate'' then authenticateWithAgentForce env args
      else if name = JStr ''agentforce_create_session'' then createAgentForceSession env args
      else if name = JStr ''agentforce_send_message'' then sendMessageToAgentForce env args
      else if name = JStr ''agentforce_get_status'' then getAgentForceStatus env args
      else if name = JStr ''agentforce_reset'' then resetAgentForceClient env args
      else bindC (liftC (toStringJS env name)) (\<lambda>nameText.
           reject env [JStr (''Error: Unknown tool: '' @ nameText)]
             (errorResponse (''Error: Unknown tool: '' @ nameText) ''unknown_tool''
                (''Unknown tool: '' @ nameText))))"

text \<open>
  The body of the \<^verbatim>\<open>end\<close> listener, first the statements of its \<^verbatim>\<open>try\<close>
  block. In \<^verbatim>\<open>!request || !request.tool\<close> the property is read only of a truthy
  request.
\<close>

definition parseInput :: "env \<Rightarrow> code_unit list \<Rightarrow> jsval comp" where
  "parseInput env inputData =
     (case jsonParse env inputData of
        Inr request \<Rightarrow> retC request
      | Inl parseError \<Rightarrow>
          reject env [JStr ''Error parsing input JSON:'', JStr (fst parseError)]
            (errorResponse (''Error: Failed to parse input - '' @ fst parseError)
               ''parse_error'' (fst parseError)))"

definition handleRequest :: "env \<Rightarrow> code_unit list \<Rightarrow> unit comp" where
  "handleRequest env inputData =
     bindC (if trim inputData = []
            then bindC (console_error env [JStr ''Error: No input received'']) (\<lambda>_. process_exit 1)
            else retC ()) (\<lambda>_.
     bindC (console_log env
              [JStr (''Received input: ''
                     @ numberToString env (Finite (of_nat (length inputData)))
                     @ '' characters'')]) (\<lambda>_.
     bindC (parseInput env inputData) (\<lambda>request.
     bindC (if \<not> truthy request \<or> \<not> truthy (getMember request ''tool'')
            then reject env [JStr ''Error: Invalid request format - missing tool field'']
                   (errorResponse ''Error: Invalid request format - missing tool field''
                      ''invalid_request'' ''Missing tool field'')
            else retC ()) (\<lambda>_.
     bindC (getProp env (getMember request ''tool'') ''name'') (\<lambda>name.
     bindC (getProp env (getMember request ''tool'') ''args'') (\<lambda>args.
     bindC (liftC (toStringJS env name)) (\<lambda>nameText.
     bindC (console_log env [JStr (''Tool called: '' @ nameText)]) (\<lambda>_.
     bindC (if \<not> truthy args
            then reject env [JStr ''Error: Invalid request format - missing args field'']
                   (errorResponse ''Error: Invalid request format - missing args field''
                      ''invalid_request'' ''Missing args field'')
            else retC ()) (\<lambda>_.
     bindC (dispatch env name args) (\<lambda>result.
     bindC (console_log env [JStr ''Sending response'']) (\<lambda>_.
     bindC (process_stdout_write env (JSON_stringify env (JObj [(''result'', result)]))) (\<lambda>_.
     process_exit 0))))))))))))"

definition onEnd :: "env \<Rightarrow> code_unit list \<Rightarrow> unit comp" where
  "onEnd env inputData =
     tryCatch (handleRequest env inputData)
       (\<lambda>error.
        bindC (console_error env [JStr ''Error processing request:'', JStr (message error)]) (\<lambda>_.
        bindC (console_error env [JStr ''Stack trace:'', JStr (stack error)]) (\<lambda>_.
        bindC (process_stdout_write env
                 (JSON_stringify env
                    (errorResponse (''Error: '' @ message error) ''processing_error''
                       (message error)))) (\<lambda>_.
        process_exit 1))))"

text \<open>
  \<^verbatim>\<open>processStdinRequest\<close> registers two listeners: \<^verbatim>\<open>data\<close> appends each chunk,
  converted to a string, to \<^verbatim>\<open>inputData\<close>, and \<^verbatim>\<open>end\<close> runs the body above on
  what was gathered. Registering the listeners does not throw, so the outer catch block
  of the function stays unused.
\<close>

definition processStdinRequest :: "env \<Rightarrow> code_unit list list \<Rightarrow> unit comp" where
  "processStdinRequest env chunks =
     onEnd env (foldl (\<lambda>inputData chunk. inputData @ chunk) [] chunks)"

section \<open>The process\<close>

text \<open>
  \<^verbatim>\<open>setupLogging\<close> creates the log directory and the log stream, replaces the console
  methods and writes its first line through the new \<^verbatim>\<open>console.log\<close>; if one of the
  file operations throws, nothing has been replaced yet and the catch block reports the
  fault with the original \<^verbatim>\<open>console.error\<close>.
\<close>

definition setupLogging :: "env \<Rightarrow> bool comp" where
  "setupLogging env =
     (if logMirror env
      then seqC (console_log env [JStr (''Logging initialized to '' @ LOG_PATH env)]) (retC True)
      else seqC (console_error env [JStr ''Error setting up logging:'', JStr (fst (loggingFault env))])
             (retC False))"

text \<open>
  \<^verbatim>\<open>main\<close>: \<open>argv\<close> is \<^verbatim>\<open>process.argv.slice(2)\<close>. Without the argument
  \<^verbatim>\<open>configure\<close> the process answers the request on standard input; the listener
  runs when the input has ended.
\<close>

definition main :: "env \<Rightarrow> string list \<Rightarrow> code_unit list list \<Rightarrow> unit comp" where
  "main env argv chunks =
     bindC (setupLogging env) (\<lambda>_.
     if ''configure'' \<in> set argv then configureClient env
     else processStdinRequest env chunks)"

section \<open>Notions used in the proofs\<close>

text \<open>
  A computation is diagnostic when it only talks to the console: it does not call
  \<^verbatim>\<open>process.stdout.write\<close>, posts nothing, does not exit, and what it throws is an
  error of the engine or of the file system, not one of the HTTP library.
\<close>

definition diagnostic :: "'a comp \<Rightarrow> bool" where
  "diagnostic m =
     (direct_writes (fst m) = [] \<and> posts (fst m) = [] \<and> (\<forall>code. snd m \<noteq> Exited code)
      \<and> (\<forall>e. snd m = Raised e \<longrightarrow> axiosDetail e = None))"

text \<open>
  The common shape of the five operations: console lines, then a \<^verbatim>\<open>try\<close> block
  that posts and handles the response, and a catch block that logs the failure and
  returns the error result.
\<close>

definition operationShape ::
  "env \<Rightarrow> unit comp \<Rightarrow> string \<Rightarrow> nat \<Rightarrow> (jsval \<Rightarrow> jsval comp) \<Rightarrow> string \<Rightarrow> string \<Rightarrow> string
     \<Rightarrow> jsval \<Rightarrow> jsval comp" where
  "operationShape env before name ms onResponse label failText code args =
     bindC before (\<lambda>_.
     tryCatch
       (bindC (postCall env name ms args) onResponse)
       (\<lambda>error.
        bindC (logFailure env label error) (\<lambda>_.
        retC (errorResult (failText @ message error) code (message error)))))"

section \<open>Example environments and requests\<close>

text \<open>
  The examples print an integer below \<open>10 ^ 21\<close> in decimal, as the engine does;
  other numbers, which the engine prints in their shortest form, are left as a
  placeholder.
\<close>

function decimal :: "nat \<Rightarrow> string" where
  "decimal n =
     (if n < 10 then [''0123456789'' ! n]
      else decimal (n div 10) @ [''0123456789'' ! (n mod 10)])"
  by pat_completeness auto
termination
  by (relation "measure (\<lambda>n. n)") auto

definition printNumber :: "jsnum \<Rightarrow> string" where
  "printNumber n =
     (case n of
        Finite q \<Rightarrow>
          (if q = of_int \<lfloor>q\<rfloor> \<and> \<bar>q\<bar> < 10 ^ 21
           then (if q < 0 then ''-'' @ decimal (nat (- \<lfloor>q\<rfloor>)) else decimal (nat \<lfloor>q\<rfloor>))
           else ''?'')
      | PosInfinity \<Rightarrow> ''Infinity''
      | NegInfinity \<Rightarrow> ''-Infinity'')"

text \<open>
  A machine on which logging is set up, with no configuration file, whose server refuses
  the connection.
\<close>

definition exampleEnv :: env where
  "exampleEnv =
     \<lparr>numberToString = printNumber,
      propertyFault = (\<lambda>v k. (''Cannot read properties of ''
                                  @ (if v = JNull then ''null'' else ''undefined'')
                                  @ '' (reading '' @ [CHR 0x27] @ k @ [CHR 0x27] @ '')'',
                               ''TypeError'')),
      conversionFault = (''Cannot convert object to primitive value'', ''TypeError''),
      writeFault = (''The chunk argument must be of type string'', ''TypeError''),
      inspectFormat = (\<lambda>args. ''?''),
      jsonParse = (\<lambda>s. Inl (''Unexpected end of JSON input'', ''SyntaxError'')),
      logMirror = True,
      loggingFault = (''EACCES: permission denied, mkdir'', ''Error''),
      LOG_PATH = ''/home/user/.agentforce-reliable-client/logs/client-2023-11-14T22-13-20-000Z.log'',
      configureClient = ([], Returned ()),
      CONFIG_DIR = ''/home/user/.agentforce-reliable-client'',
      CONFIG_PATH = ''/home/user/.agentforce-reliable-client/config.json'',
      configDirExists = True,
      mkdirFault = None,
      configFile = None,
      moduleLoadTime = 1700000000000,
      startTime = 1700000000100,
      endTime = 1700000000350,
      uuidv4 = ''3f2c1d9e-7a4b-4c6d-8e5f-0a1b2c3d4e5f'',
      axiosPost = (\<lambda>req. Inl (Error (Some NoResponse) ''connect ECONNREFUSED 127.0.0.1:3000''
                                 ''AxiosError''))\<rparr>"

text \<open>
  \<open>parsing text value\<close> is the example machine on which \<^verbatim>\<open>JSON.parse\<close> gives
  \<open>value\<close> for the input \<open>text\<close>; \<open>answering reply\<close> changes the server into
  one that answers every call with the body \<open>reply\<close> and a 2xx status, and
  \<open>failing reply\<close> into one that answers with status 500 and the body \<open>reply\<close>.
\<close>

definition parsing :: "code_unit list \<Rightarrow> jsval \<Rightarrow> env" where
  "parsing text v =
     exampleEnv\<lparr>jsonParse :=
       (\<lambda>s. if s = text then Inr v else Inl (''Unexpected end of JSON input'', ''SyntaxError''))\<rparr>"

definition answering :: "jsval \<Rightarrow> env \<Rightarrow> env" where
  "answering reply env = env\<lparr>axiosPost := (\<lambda>req. Inr reply)\<rparr>"

definition failing :: "jsval \<Rightarrow> env \<Rightarrow> env" where
  "failing reply env =
     env\<lparr>axiosPost :=
       (\<lambda>req. Inl (Error (Some (Responded 500 reply)) ''Request failed with status code 500''
                     ''AxiosError''))\<rparr>"

definition okReply :: jsval where
  "okReply =
     JObj [(''result'', JObj [(''content'', JArr [JObj [(''type'', JStr ''text''),
                                                        (''text'', JStr ''ok'')]])])]"

definition clientArgs :: jsval where
  "clientArgs = JObj [(''clientId'', JStr ''c1'')]"

definition toolRequest :: "jsval \<Rightarrow> jsval \<Rightarrow> jsval" where
  "toolRequest name args = JObj [(''tool'', JObj [(''name'', name), (''args'', args)])]"

definition statusInput :: "code_unit list" where
  \<open>statusInput = units ''{"tool":{"name":"agentforce_get_status","args":{"clientId":"c1"}}}''\<close>

definition resetInput :: "code_unit list" where
  \<open>resetInput = units ''{"tool":{"name":"agentforce_reset","args":{"clientId":"c1"}}}''\<close>

definition bogusInput :: "code_unit list" where
  \<open>bogusInput = units ''{"tool":{"name":"bogus_tool","args":{}}}''\<close>

definition noToolInput :: "code_unit list" where
  \<open>noToolInput = units ''{"jsonrpc":"2.0"}''\<close>

definition noArgsInput :: "code_unit list" where
  \<open>noArgsInput = units ''{"tool":{"name":"agentforce_reset"}}''\<close>

definition oddNameInput :: "code_unit list" where
  \<open>oddNameInput = units ''{"tool":{"name":{"toString":1}}}''\<close>

definition nullToolInput :: "code_unit list" where
  \<open>nullToolInput = units ''{"tool":null}''\<close>

definition emptyArgsInput :: "code_unit list" where
  \<open>emptyArgsInput = units ''{"tool":{"name":"agentforce_reset","args":""}}''\<close>

definition oddNameNullArgsInput :: "code_unit list" where
  \<open>oddNameNullArgsInput = units ''{"tool":{"name":[{"toString":0}],"args":null}}''\<close>

definition sendNoMessageInput :: "code_unit list" where
  \<open>sendNoMessageInput = units ''{"tool":{"name":"agentforce_send_message","args":{"clientId":"c1"}}}''\<close>

definition sendFlagInput :: "code_unit list" where
  \<open>sendFlagInput =
     units ''{"tool":{"name":"agentforce_send_message","args":{"clientId":"c1","message":true}}}''\<close>

definition messageArgs :: jsval where
  "messageArgs = JObj [(''clientId'', JStr ''c1''), (''message'', JStr ''hello'')]"

definition emptyReply :: jsval where
  "emptyReply = JObj [(''result'', JObj [(''content'', JArr [])])]"

section \<open>Basic facts about computations\<close>

lemma bindC_Returned: "bindC (tr, Returned x) f = (tr @ fst (f x), snd (f x))"
  by (simp add: bindC_def)

lemma bindC_Raised: "bindC (tr, Raised e) f = (tr, Raised e)"
  by (simp add: bindC_def)

lemma bindC_Exited: "bindC (tr, Exited c) f = (tr, Exited c)"
  by (simp add: bindC_def)

lemma seqC_Returned: "seqC (tr, Returned x) k = (tr @ fst k, snd k)"
  by (simp add: seqC_def bindC_def)

lemma seqC_Raised: "seqC (tr, Raised e) k = (tr, Raised e)"
  by (simp add: seqC_def bindC_def)

lemma seqC_Exited: "seqC (tr, Exited c) k = (tr, Exited c)"
  by (simp add: seqC_def bindC_def)

lemma tryCatch_Returned: "tryCatch (tr, Returned x) h = (tr, Returned x)"
  by (simp add: tryCatch_def)

lemma tryCatch_Raised: "tryCatch (tr, Raised e) h = (tr @ fst (h e), snd (h e))"
  by (simp add: tryCatch_def)

lemma tryCatch_Exited: "tryCatch (tr, Exited c) h = (tr, Exited c)"
  by (simp add: tryCatch_def)

lemmas comp_simps =
  bindC_Returned bindC_Raised bindC_Exited seqC_Returned seqC_Raised seqC_Exited
  tryCatch_Returned tryCatch_Raised tryCatch_Exited
  retC_def raiseC_def process_exit_def emitC_def liftC_def

lemma console_log_text: "console_log env [JStr s] = ([ConsoleLog [JStr s]], Returned ())"
  by (simp add: console_log_def comp_simps)

lemma console_error_text: "console_error env [JStr s] = ([ConsoleError [JStr s]], Returned ())"
  by (simp add: console_error_def comp_simps)

lemma console_error_text2:
  "console_error env [JStr s, JStr t] = ([ConsoleError [JStr s, JStr t]], Returned ())"
  by (simp add: console_error_def comp_simps)

lemma console_error_number:
  "console_error env [JStr s, JNum n] = ([ConsoleError [JStr s, JNum n]], Returned ())"
  by (simp add: console_error_def comp_simps)

text \<open>Every failed conversion to a string is the same TypeError.\<close>

lemma conversion_faults:
  "\<forall>e. toStringJS env v = Inl e \<longrightarrow> e = plainError (conversionFault env)"
  "\<forall>e. joinJS env sep vs = Inl e \<longrightarrow> e = plainError (conversionFault env)"
proof (induction env v and env sep vs rule: toStringJS_joinJS.induct)
  case (9 env sep x xs)
  show ?case
  proof (cases "x = JUndefined \<or> x = JNull")
    case True
    then show ?thesis using 9 by (cases xs) (auto split: sum.splits)
  next
    case False
    then show ?thesis using 9 by (cases xs) (auto split: sum.splits)
  qed
qed (simp_all split: if_splits)

lemma units_Nil [simp]: "units [] = []"
  by (simp add: units_def)

lemma units_Cons [simp]: "units (c # s) = of_char c # units s"
  by (simp add: units_def)

lemma dropWhile_all: "(\<forall>x\<in>set (dropWhile P s). P x) \<longleftrightarrow> (\<forall>x\<in>set s. P x)"
proof
  assume a: "\<forall>x\<in>set (dropWhile P s). P x"
  have "dropWhile P s = []"
  proof (rule ccontr)
    assume n: "dropWhile P s \<noteq> []"
    then have "\<not> P (hd (dropWhile P s))" by (rule hd_dropWhile)
    moreover have "hd (dropWhile P s) \<in> set (dropWhile P s)" using n by simp
    ultimately show False using a by blast
  qed
  then show "\<forall>x\<in>set s. P x" by (simp add: dropWhile_eq_Nil_conv)
next
  assume "\<forall>x\<in>set s. P x"
  then show "\<forall>x\<in>set (dropWhile P s). P x" by (blast dest: set_dropWhileD)
qed

text \<open>The trimmed input is empty exactly when the input is nothing but white space.\<close>

lemma trim_blank: "trim s = [] \<longleftrightarrow> list_all isWhiteSpace s"
  by (simp add: trim_def list_all_iff dropWhile_eq_Nil_conv dropWhile_all)

lemma gathered: "foldl (\<lambda>inputData chunk. inputData @ chunk) acc chunks = acc @ concat chunks"
  by (induction chunks arbitrary: acc) simp_all

section \<open>Diagnostic computations\<close>

lemma direct_writes_append: "direct_writes (a @ b) = direct_writes a @ direct_writes b"
  by (simp add: direct_writes_def)

lemma posts_append: "posts (a @ b) = posts a @ posts b"
  by (simp add: posts_def)

lemma mem_posts: "HttpPost r \<in> set tr \<longleftrightarrow> r \<in> set (posts tr)"
  by (induction tr) (auto simp: posts_def split: event.splits)

lemma fst_bindC:
  "fst (bindC m f) = (case snd m of Returned x \<Rightarrow> fst m @ fst (f x) | _ \<Rightarrow> fst m)"
  by (simp add: bindC_def split: outcome.splits)

lemma snd_bindC:
  "snd (bindC m f) =
     (case snd m of Returned x \<Rightarrow> snd (f x) | Raised e \<Rightarrow> Raised e | Exited c \<Rightarrow> Exited c)"
  by (simp add: bindC_def split: outcome.splits)

lemma bindC_assoc: "bindC (bindC m f) g = bindC m (\<lambda>x. bindC (f x) g)"
  by (simp add: bindC_def split: outcome.splits)

lemma diagnostic_retC: "diagnostic (retC x)"
  by (simp add: diagnostic_def retC_def direct_writes_def posts_def)

lemma diagnostic_plain: "diagnostic (raiseC (plainError f))"
  by (simp add: diagnostic_def raiseC_def direct_writes_def posts_def plainError_def)

lemma diagnostic_bindC:
  assumes "diagnostic m" and "\<And>x. diagnostic (f x)"
  shows "diagnostic (bindC m f)"
  using assms
  by (auto simp: diagnostic_def fst_bindC snd_bindC direct_writes_append posts_append
           split: outcome.splits)

lemma diagnostic_seqC:
  assumes "diagnostic m" and "diagnostic k"
  shows "diagnostic (seqC m k)"
  using assms by (simp add: seqC_def diagnostic_bindC)

lemma diagnostic_tryCatch:
  assumes "diagnostic m" and "\<And>e. diagnostic (h e)"
  shows "diagnostic (tryCatch m h)"
  using assms
  by (auto simp: diagnostic_def tryCatch_def direct_writes_append posts_append
           split: outcome.splits)

lemma diagnostic_toStringJS: "diagnostic (liftC (toStringJS env v))"
proof (cases "toStringJS env v")
  case (Inl e)
  then have "e = plainError (conversionFault env)" using conversion_faults(1) by blast
  then show ?thesis using Inl by (simp add: liftC_def diagnostic_plain)
next
  case (Inr s)
  then show ?thesis by (simp add: liftC_def diagnostic_retC)
qed

lemma diagnostic_joinJS: "diagnostic (liftC (joinJS env sep vs))"
proof (cases "joinJS env sep vs")
  case (Inl e)
  then have "e = plainError (conversionFault env)" using conversion_faults(2) by blast
  then show ?thesis using Inl by (simp add: liftC_def diagnostic_plain)
next
  case (Inr s)
  then show ?thesis by (simp add: liftC_def diagnostic_retC)
qed

lemma diagnostic_getProp: "diagnostic (getProp env v k)"
  by (simp add: getProp_def diagnostic_plain diagnostic_retC)

lemma diagnostic_log_event: "diagnostic (emitC (ConsoleLog args))"
  by (simp add: diagnostic_def emitC_def direct_writes_def posts_def)

lemma diagnostic_error_event: "diagnostic (emitC (ConsoleError args))"
  by (simp add: diagnostic_def emitC_def direct_writes_def posts_def)

lemma diagnostic_console_log: "diagnostic (console_log env args)"
  by (simp add: console_log_def diagnostic_bindC diagnostic_joinJS diagnostic_log_event)

lemma diagnostic_console_error: "diagnostic (console_error env args)"
  by (simp add: console_error_def diagnostic_bindC diagnostic_joinJS diagnostic_error_event)

lemmas diagnostic_intros =
  diagnostic_retC diagnostic_plain diagnostic_bindC diagnostic_seqC diagnostic_tryCatch
  diagnostic_toStringJS diagnostic_getProp diagnostic_console_log diagnostic_console_error

lemma diagnostic_ensureConfigDir: "diagnostic (ensureConfigDir env)"
  by (auto simp: ensureConfigDir_def intro!: diagnostic_intros split: option.splits)

lemma diagnostic_loadConfig: "diagnostic (loadConfig env)"
  unfolding loadConfig_def
  by (auto intro!: diagnostic_intros diagnostic_ensureConfigDir
           simp: liftC_def split: option.splits sum.splits)

lemma diagnostic_logFailure: "diagnostic (logFailure env label e)"
  unfolding logFailure_def
  by (auto intro!: diagnostic_intros split: option.splits axios_detail.splits)

lemma diagnostic_logClientId: "diagnostic (logClientId env args)"
  unfolding logClientId_def by (intro diagnostic_intros)

lemma diagnostic_logAgentId: "diagnostic (logAgentId env args)"
  unfolding logAgentId_def by (intro diagnostic_intros)

lemma diagnostic_logMessageLength: "diagnostic (logMessageLength env args)"
  unfolding logMessageLength_def by (intro diagnostic_intros)

lemma diagnostic_logResponseLength: "diagnostic (logResponseLength env data)"
  unfolding logResponseLength_def by (intro diagnostic_intros)

section \<open>How an operation runs\<close>

lemma diagnostic_cases:
  assumes "diagnostic m"
  obtains (returned) tr x where "m = (tr, Returned x)" "direct_writes tr = []" "posts tr = []"
        | (raised) tr e where "m = (tr, Raised e)" "direct_writes tr = []" "posts tr = []"
                              "axiosDetail e = None"
proof (cases m)
  case (Pair tr out)
  show ?thesis
  proof (cases out)
    case (Returned x)
    then show ?thesis using assms Pair returned by (simp add: diagnostic_def)
  next
    case (Raised e)
    then show ?thesis using assms Pair raised by (simp add: diagnostic_def)
  next
    case (Exited c)
    then show ?thesis using assms Pair by (simp add: diagnostic_def)
  qed
qed

lemma toStringJS_fault: "toStringJS env v = Inl e \<Longrightarrow> e = plainError (conversionFault env)"
  using conversion_faults(1) by blast

lemma toStringJS_fault_plain: "toStringJS env v = Inl e \<Longrightarrow> axiosDetail e = None"
  by (drule toStringJS_fault) (simp add: plainError_def)

lemma direct_writes_simps:
  "direct_writes [] = []"
  "direct_writes (ConsoleLog a # tr) = direct_writes tr"
  "direct_writes (ConsoleError a # tr) = direct_writes tr"
  "direct_writes (HttpPost r # tr) = direct_writes tr"
  "direct_writes (StdoutWrite s # tr) = s # direct_writes tr"
  by (simp_all add: direct_writes_def)

lemma posts_simps:
  "posts [] = []"
  "posts (ConsoleLog a # tr) = posts tr"
  "posts (ConsoleError a # tr) = posts tr"
  "posts (HttpPost r # tr) = r # posts tr"
  "posts (StdoutWrite s # tr) = posts tr"
  by (simp_all add: posts_def)

lemmas trace_simps = direct_writes_simps posts_simps direct_writes_append posts_append

text \<open>What the beginning of a try block does: either it throws before the call, or it posts once.\<close>

lemma postCall_cases:
  obtains (unposted) tr e where
      "postCall env name ms args = (tr, Raised e)" "posts tr = []" "direct_writes tr = []"
      "axiosDetail e = None"
  | (posted) tr config u where
      "snd (loadConfig env) = Returned config" "\<not> nullish config"
      "toStringJS env (getMember config ''serverUrl'') = Inr u"
      "postCall env name ms args =
         (tr @ [HttpPost (callToolRequest u name args (getMember config ''apiKey'') (uuidv4 env) ms)],
          case axiosPost env (callToolRequest u name args (getMember config ''apiKey'') (uuidv4 env) ms) of
            Inl e \<Rightarrow> Raised e | Inr data \<Rightarrow> Returned data)"
      "posts tr = []" "direct_writes tr = []"
  using diagnostic_loadConfig [of env]
proof (cases rule: diagnostic_cases)
  case (raised tr e)
  then have "postCall env name ms args = (tr, Raised e)"
    by (simp add: postCall_def comp_simps)
  then show ?thesis using raised unposted by blast
next
  case (returned tr config)
  show ?thesis
  proof (cases "nullish config")
    case True
    then have "postCall env name ms args = (tr, Raised (plainError (propertyFault env config ''serverUrl'')))"
      using returned by (simp add: postCall_def getProp_def comp_simps)
    then show ?thesis using returned unposted [of tr] by (simp add: plainError_def)
  next
    case False
    show ?thesis
    proof (cases "toStringJS env (getMember config ''serverUrl'')")
      case (Inl e)
      then have "postCall env name ms args = (tr, Raised e)"
        using returned False by (simp add: postCall_def getProp_def comp_simps)
      moreover have "axiosDetail e = None"
        using Inl by (rule toStringJS_fault_plain)
      ultimately show ?thesis using returned unposted by blast
    next
      case (Inr u)
      have "postCall env name ms args =
         ((tr @ [ConsoleLog [JStr (''Making request to: '' @ u @ ''/mcp/call-tool'')],
                ConsoleLog [JStr (''Request ID: '' @ uuidv4 env)]])
            @ [HttpPost (callToolRequest u name args (getMember config ''apiKey'') (uuidv4 env) ms)],
          case axiosPost env (callToolRequest u name args (getMember config ''apiKey'') (uuidv4 env) ms) of
            Inl e \<Rightarrow> Raised e | Inr data \<Rightarrow> Returned data)"
        using returned False Inr
        by (simp add: postCall_def getProp_def axios_post_def console_log_text comp_simps
                 split: sum.splits)
      moreover have "posts (tr @ [ConsoleLog [JStr (''Making request to: '' @ u @ ''/mcp/call-tool'')],
                ConsoleLog [JStr (''Request ID: '' @ uuidv4 env)]]) = []"
        using returned by (simp add: trace_simps)
      moreover have "direct_writes (tr @ [ConsoleLog [JStr (''Making request to: '' @ u @ ''/mcp/call-tool'')],
                ConsoleLog [JStr (''Request ID: '' @ uuidv4 env)]]) = []"
        using returned by (simp add: trace_simps)
      ultimately show ?thesis using posted returned False Inr by (metis snd_conv)
    qed
  qed
qed

lemma join_label_value:
  "joinJS env sep [JStr s, v] =
     (case toStringJS env v of
        Inl e \<Rightarrow> Inl e
      | Inr r \<Rightarrow> Inr (s @ sep @ (if v = JUndefined \<or> v = JNull then [] else r)))"
  by (cases v) (simp_all split: sum.splits)

lemma console_error_value:
  "renders env v \<or> \<not> logMirror env \<Longrightarrow>
   console_error env [JStr s, v] = ([ConsoleError [JStr s, v]], Returned ())"
  by (auto simp: console_error_def renders_def join_label_value comp_simps split: sum.splits)

lemma console_error_unrenderable:
  "\<not> renders env v \<Longrightarrow> logMirror env \<Longrightarrow>
   console_error env [JStr s, v] = ([], Raised (plainError (conversionFault env)))"
  by (auto simp: console_error_def renders_def join_label_value comp_simps
           dest: toStringJS_fault split: sum.splits)

lemma logFailure_plain:
  "axiosDetail e = None \<Longrightarrow>
   logFailure env label e = ([ConsoleError [JStr label, JStr (message e)]], Returned ())"
  by (simp add: logFailure_def console_error_text2 comp_simps)

lemma logFailure_returns:
  assumes "logMirror env \<longrightarrow> (\<forall>status data. axiosDetail e = Some (Responded status data) \<longrightarrow> renders env data)"
  shows "snd (logFailure env label e) = Returned ()"
proof (cases "axiosDetail e")
  case None
  then show ?thesis by (simp add: logFailure_plain)
next
  case (Some d)
  show ?thesis
  proof (cases d)
    case (Responded status data)
    then have "renders env data \<or> \<not> logMirror env" using assms Some by blast
    then show ?thesis using Some Responded
      by (simp add: logFailure_def console_error_text2 console_error_number console_error_value
          comp_simps)
  next
    case NoResponse
    then show ?thesis using Some
      by (simp add: logFailure_def console_error_text2 console_error_text comp_simps)
  next
    case SetupFailure
    then show ?thesis using Some
      by (simp add: logFailure_def console_error_text2 comp_simps)
  qed
qed

lemma logFailure_raises:
  assumes "logMirror env" and "axiosDetail e = Some (Responded status data)"
      and "\<not> renders env data"
  shows "snd (logFailure env label e) = Raised (plainError (conversionFault env))"
  using assms
  by (simp add: logFailure_def console_error_text2 console_error_number
      console_error_unrenderable comp_simps)

lemma operationShape_silent:
  assumes "diagnostic before" and "\<And>d. diagnostic (onResponse d)"
  shows "direct_writes (fst (operationShape env before name ms onResponse label failText code args)) = []
       \<and> (\<forall>c. snd (operationShape env before name ms onResponse label failText code args) \<noteq> Exited c)"
proof -
  let ?H = "\<lambda>error. bindC (logFailure env label error) (\<lambda>_.
              retC (errorResult (failText @ message error) code (message error)))"
  have H: "\<And>e. diagnostic (?H e)"
    by (intro diagnostic_intros diagnostic_logFailure)
  have T: "direct_writes (fst (tryCatch (bindC (postCall env name ms args) onResponse) ?H)) = []
         \<and> (\<forall>c. snd (tryCatch (bindC (postCall env name ms args) onResponse) ?H) \<noteq> Exited c)"
  proof (cases rule: postCall_cases [of env name ms args])
    case (unposted tr e)
    then show ?thesis using H [of e]
      by (simp add: comp_simps diagnostic_def trace_simps)
  next
    case (posted tr config u)
    let ?req = "callToolRequest u name args (getMember config ''apiKey'') (uuidv4 env) ms"
    show ?thesis
    proof (cases "axiosPost env ?req")
      case (Inl e)
      then show ?thesis using posted H [of e]
        by (simp add: comp_simps diagnostic_def trace_simps)
    next
      case (Inr data)
      from assms(2) [of data] show ?thesis
      proof (cases rule: diagnostic_cases)
        case (returned tr' x)
        then show ?thesis using posted Inr
          by (simp add: comp_simps trace_simps)
      next
        case (raised tr' e)
        then show ?thesis using posted Inr H [of e]
          by (simp add: comp_simps diagnostic_def trace_simps)
      qed
    qed
  qed
  from assms(1) show ?thesis
  proof (cases rule: diagnostic_cases)
    case (returned tr x)
    then show ?thesis using T
      by (simp add: operationShape_def comp_simps trace_simps)
  next
    case (raised tr e)
    then show ?thesis by (simp add: operationShape_def comp_simps)
  qed
qed

text \<open>The ways an operation can run.\<close>

lemma operationShape_cases:
  assumes before: "diagnostic before" and onResponse: "\<And>d. diagnostic (onResponse d)"
  obtains
    (escaped) e where
      "snd before = Raised e"
      "snd (operationShape env before name ms onResponse label failText code args) = Raised e"
      "posts (fst (operationShape env before name ms onResponse label failText code args)) = []"
  | (unposted) e where
      "snd before = Returned ()"
      "snd (operationShape env before name ms onResponse label failText code args)
         = Returned (errorResult (failText @ message e) code (message e))"
      "posts (fst (operationShape env before name ms onResponse label failText code args)) = []"
  | (rejected) config u e where
      "snd before = Returned ()"
      "snd (loadConfig env) = Returned config" "\<not> nullish config"
      "toStringJS env (getMember config ''serverUrl'') = Inr u"
      "axiosPost env (callToolRequest u name args (getMember config ''apiKey'') (uuidv4 env) ms) = Inl e"
      "posts (fst (operationShape env before name ms onResponse label failText code args))
         = [callToolRequest u name args (getMember config ''apiKey'') (uuidv4 env) ms]"
      "snd (operationShape env before name ms onResponse label failText code args)
         = (case snd (logFailure env label e) of
              Returned _ \<Rightarrow> Returned (errorResult (failText @ message e) code (message e))
            | Raised e' \<Rightarrow> Raised e'
            | Exited c \<Rightarrow> Exited c)"
  | (responded) config u data where
      "snd before = Returned ()"
      "snd (loadConfig env) = Returned config" "\<not> nullish config"
      "toStringJS env (getMember config ''serverUrl'') = Inr u"
      "axiosPost env (callToolRequest u name args (getMember config ''apiKey'') (uuidv4 env) ms) = Inr data"
      "posts (fst (operationShape env before name ms onResponse label failText code args))
         = [callToolRequest u name args (getMember config ''apiKey'') (uuidv4 env) ms]"
      "snd (operationShape env before name ms onResponse label failText code args)
         = (case snd (onResponse data) of
              Returned r \<Rightarrow> Returned r
            | Raised e' \<Rightarrow> Returned (errorResult (failText @ message e') code (message e'))
            | Exited c \<Rightarrow> Exited c)"
proof -
  let ?G = "operationShape env before name ms onResponse label failText code args"
  let ?H = "\<lambda>error. bindC (logFailure env label error) (\<lambda>_.
              retC (errorResult (failText @ message error) code (message error)))"
  let ?T = "tryCatch (bindC (postCall env name ms args) onResponse) ?H"
  have H: "\<And>e. diagnostic (?H e)"
    by (intro diagnostic_intros diagnostic_logFailure)
  have Hplain: "\<And>e. axiosDetail e = None \<Longrightarrow>
       ?H e = ([ConsoleError [JStr label, JStr (message e)]],
               Returned (errorResult (failText @ message e) code (message e)))"
    by (simp add: logFailure_plain comp_simps)
  have Hsnd: "\<And>e. snd (?H e) = (case snd (logFailure env label e) of
              Returned _ \<Rightarrow> Returned (errorResult (failText @ message e) code (message e))
            | Raised e' \<Rightarrow> Raised e'
            | Exited c \<Rightarrow> Exited c)"
    by (simp add: snd_bindC retC_def split: outcome.splits)
  from before show ?thesis
  proof (cases rule: diagnostic_cases)
    case (raised tr e)
    then have "snd ?G = Raised e" "posts (fst ?G) = []"
      by (simp_all add: operationShape_def comp_simps)
    then show ?thesis using escaped raised by simp
  next
    case (returned tr x)
    then have G: "?G = (tr @ fst ?T, snd ?T)" and b: "snd before = Returned ()"
      by (simp_all add: operationShape_def comp_simps)
    show ?thesis
    proof (cases rule: postCall_cases [of env name ms args])
      case (unposted tr' e)
      then have "?T = (tr' @ [ConsoleError [JStr label, JStr (message e)]],
                       Returned (errorResult (failText @ message e) code (message e)))"
        using Hplain [of e] by (simp add: comp_simps)
      then have "snd ?G = Returned (errorResult (failText @ message e) code (message e))"
          "posts (fst ?G) = []"
        using G returned unposted by (simp_all add: trace_simps)
      then show ?thesis using that(2) b by blast
    next
      case (posted tr' config u)
      let ?req = "callToolRequest u name args (getMember config ''apiKey'') (uuidv4 env) ms"
      show ?thesis
      proof (cases "axiosPost env ?req")
        case (Inl e)
        then have "?T = ((tr' @ [HttpPost ?req]) @ fst (?H e), snd (?H e))"
          using posted by (simp add: bindC_Raised tryCatch_Raised)
        then have "posts (fst ?G) = [?req]" "snd ?G = snd (?H e)"
          using G returned posted H [of e] by (simp_all add: trace_simps diagnostic_def)
        then show ?thesis using that(3) [of config u e] b posted Inl Hsnd [of e] by simp
      next
        case (Inr data)
        from onResponse [of data] show ?thesis
        proof (cases rule: diagnostic_cases)
          case (returned tr2 r)
          then have "?T = ((tr' @ [HttpPost ?req]) @ tr2, Returned r)"
            using posted Inr by (simp add: comp_simps)
          then have "posts (fst ?G) = [?req]" "snd ?G = Returned r"
            using G \<open>posts tr = []\<close> posted returned by (simp_all add: trace_simps)
          then show ?thesis using that(4) [of config u data] b posted Inr returned by simp
        next
          case (raised tr2 e')
          then have "?T = (((tr' @ [HttpPost ?req]) @ tr2) @ [ConsoleError [JStr label, JStr (message e')]],
                       Returned (errorResult (failText @ message e') code (message e')))"
            using posted Inr Hplain [of e'] by (simp add: comp_simps)
          then have "posts (fst ?G) = [?req]"
              "snd ?G = Returned (errorResult (failText @ message e') code (message e'))"
            using G \<open>posts tr = []\<close> posted raised by (simp_all add: trace_simps)
          then show ?thesis using that(4) [of config u data] b posted Inr raised by simp
        qed
      qed
    qed
  qed
qed

lemma authenticate_shape:
  "authenticateWithAgentForce env args =
     operationShape env
       (bindC (console_log env [JStr ''Authenticating with AgentForce'']) (\<lambda>_.
        bindC (logClientId env args) (\<lambda>_. logAgentId env args)))
       ''agentforce_authenticate'' 30000
       (\<lambda>data. bindC (console_log env [JStr ''Authentication successful'']) (\<lambda>_.
                getProp env data ''result''))
       ''Authentication error:'' ''Authentication failed: '' ''authentication_error'' args"
  by (simp add: authenticateWithAgentForce_def operationShape_def bindC_assoc)

lemma create_session_shape:
  "createAgentForceSession env args =
     operationShape env
       (bindC (console_log env [JStr ''Creating AgentForce session'']) (\<lambda>_. logClientId env args))
       ''agentforce_create_session'' 60000
       (\<lambda>data. bindC (console_log env [JStr ''Session creation successful'']) (\<lambda>_.
                getProp env data ''result''))
       ''Session creation error:'' ''Session creation failed: '' ''session_creation_error'' args"
  by (simp add: createAgentForceSession_def operationShape_def bindC_assoc)

lemma send_message_shape:
  "sendMessageToAgentForce env args =
     operationShape env
       (bindC (console_log env [JStr ''Sending message to AgentForce'']) (\<lambda>_.
        bindC (logClientId env args) (\<lambda>_. logMessageLength env args)))
       ''agentforce_send_message'' 300000
       (\<lambda>data. bindC (console_log env
                 [JStr (''Message sending successful, took ''
                        @ numberToString env (Finite (of_int (endTime env - startTime env)))
                        @ ''ms'')]) (\<lambda>_.
               bindC (logResponseLength env data) (\<lambda>_.
               getProp env data ''result'')))
       ''Message sending error:'' ''Message sending failed: '' ''message_sending_error'' args"
  by (simp add: sendMessageToAgentForce_def operationShape_def bindC_assoc)

lemma get_status_shape:
  "getAgentForceStatus env args =
     operationShape env
       (bindC (console_log env [JStr ''Getting AgentForce status'']) (\<lambda>_. logClientId env args))
       ''agentforce_get_status'' 10000
       (\<lambda>data. bindC (console_log env [JStr ''Status check successful'']) (\<lambda>_.
                getProp env data ''result''))
       ''Status check error:'' ''Status check failed: '' ''status_check_error'' args"
  by (simp add: getAgentForceStatus_def operationShape_def bindC_assoc)

lemma reset_shape:
  "resetAgentForceClient env args =
     operationShape env
       (bindC (console_log env [JStr ''Resetting AgentForce client'']) (\<lambda>_. logClientId env args))
       ''agentforce_reset'' 10000
       (\<lambda>data. bindC (console_log env [JStr ''Reset successful'']) (\<lambda>_.
                getProp env data ''result''))
       ''Reset error:'' ''Reset failed: '' ''reset_error'' args"
  by (simp add: resetAgentForceClient_def operationShape_def bindC_assoc)

section \<open>How the listener runs\<close>

lemma stringify_object: "\<exists>s. JSON_stringify env (JObj kvs) = Some s"
  by (simp add: JSON_stringify_def)

lemma write_stringified:
  "process_stdout_write env (Some s) = ([StdoutWrite s], Returned ())"
  by (simp add: process_stdout_write_def emitC_def)

lemma reject_response:
  assumes "console_error env consoleArgs = ([ConsoleError consoleArgs], Returned ())"
      and "JSON_stringify env response = Some s"
  shows "reject env consoleArgs response = ([ConsoleError consoleArgs, StdoutWrite s], Exited 1)"
  using assms by (simp add: reject_def write_stringified comp_simps)

text \<open>The catch block of the listener turns a thrown error into the processing error response.\<close>

lemma onEnd_outcomes:
  "onEnd env inputData =
     (case snd (handleRequest env inputData) of
        Raised e \<Rightarrow>
          (fst (handleRequest env inputData)
             @ [ConsoleError [JStr ''Error processing request:'', JStr (message e)],
                ConsoleError [JStr ''Stack trace:'', JStr (stack e)],
                StdoutWrite (the (JSON_stringify env
                   (errorResponse (''Error: '' @ message e) ''processing_error'' (message e))))],
           Exited 1)
      | _ \<Rightarrow> handleRequest env inputData)"
proof (cases "handleRequest env inputData")
  case (Pair tr out)
  show ?thesis
  proof (cases out)
    case (Raised e)
    obtain s where s: "JSON_stringify env
        (errorResponse (''Error: '' @ message e) ''processing_error'' (message e)) = Some s"
      using stringify_object by (auto simp: errorResponse_def)
    show ?thesis using Pair Raised s
      by (simp add: onEnd_def console_error_text2 write_stringified comp_simps)
  qed (simp_all add: Pair onEnd_def comp_simps)
qed

lemma handle_parse_failure:
  assumes "\<not> list_all isWhiteSpace inputData" and "jsonParse env inputData = Inl (description, trace)"
      and "JSON_stringify env (errorResponse (''Error: Failed to parse input - '' @ description)
               ''parse_error'' description) = Some s"
  shows "handleRequest env inputData =
     ([ConsoleLog [JStr (''Received input: ''
                     @ numberToString env (Finite (of_nat (length inputData)))
                     @ '' characters'')],
       ConsoleError [JStr ''Error parsing input JSON:'', JStr description],
       StdoutWrite s], Exited 1)"
  using assms
  by (simp add: handleRequest_def parseInput_def trim_blank console_log_text
      reject_response [OF console_error_text2] comp_simps)

lemma handle_missing_tool:
  assumes "\<not> list_all isWhiteSpace inputData" and "jsonParse env inputData = Inr request"
      and "\<not> truthy request \<or> \<not> truthy (getMember request ''tool'')"
      and "JSON_stringify env (errorResponse ''Error: Invalid request format - missing tool field''
                      ''invalid_request'' ''Missing tool field'') = Some s"
  shows "handleRequest env inputData =
     ([ConsoleLog [JStr (''Received input: ''
                     @ numberToString env (Finite (of_nat (length inputData)))
                     @ '' characters'')],
       ConsoleError [JStr ''Error: Invalid request format - missing tool field''],
       StdoutWrite s], Exited 1)"
  using assms
  by (simp add: handleRequest_def parseInput_def trim_blank console_log_text
      reject_response [OF console_error_text] comp_simps)

lemma handle_tool:
  assumes "\<not> list_all isWhiteSpace inputData" and "jsonParse env inputData = Inr request"
      and "truthy request" and "truthy (getMember request ''tool'')"
  shows "handleRequest env inputData =
     bindC ([ConsoleLog [JStr (''Received input: ''
                     @ numberToString env (Finite (of_nat (length inputData)))
                     @ '' characters'')]], Returned ()) (\<lambda>_.
     bindC (liftC (toStringJS env (getMember (getMember request ''tool'') ''name''))) (\<lambda>nameText.
     bindC (console_log env [JStr (''Tool called: '' @ nameText)]) (\<lambda>_.
     bindC (if \<not> truthy (getMember (getMember request ''tool'') ''args'')
            then reject env [JStr ''Error: Invalid request format - missing args field'']
                   (errorResponse ''Error: Invalid request format - missing args field''
                      ''invalid_request'' ''Missing args field'')
            else retC ()) (\<lambda>_.
     bindC (dispatch env (getMember (getMember request ''tool'') ''name'')
              (getMember (getMember request ''tool'') ''args'')) (\<lambda>result.
     bindC (console_log env [JStr ''Sending response'']) (\<lambda>_.
     bindC (process_stdout_write env (JSON_stringify env (JObj [(''result'', result)]))) (\<lambda>_.
     process_exit 0)))))))"
proof -
  have "\<not> nullish (getMember request ''tool'')"
    using assms(4) by (auto simp: nullish_def)
  then show ?thesis using assms
    by (simp add: handleRequest_def parseInput_def trim_blank console_log_text getProp_def
        comp_simps)
qed

lemma handle_name_fault:
  assumes "\<not> list_all isWhiteSpace inputData" and "jsonParse env inputData = Inr request"
      and "truthy request" and "truthy (getMember request ''tool'')"
      and "\<not> renders env (getMember (getMember request ''tool'') ''name'')"
  shows "handleRequest env inputData =
     ([ConsoleLog [JStr (''Received input: ''
                     @ numberToString env (Finite (of_nat (length inputData)))
                     @ '' characters'')]], Raised (plainError (conversionFault env)))"
proof -
  obtain e where e: "toStringJS env (getMember (getMember request ''tool'') ''name'') = Inl e"
    using assms(5) by (auto simp: renders_def split: sum.splits)
  then have "e = plainError (conversionFault env)" by (rule toStringJS_fault)
  then show ?thesis using e assms(1-4)
    by (simp add: handle_tool comp_simps)
qed

lemma handle_missing_args:
  assumes "\<not> list_all isWhiteSpace inputData" and "jsonParse env inputData = Inr request"
      and "truthy request" and "truthy (getMember request ''tool'')"
      and "toStringJS env (getMember (getMember request ''tool'') ''name'') = Inr nameText"
      and "\<not> truthy (getMember (getMember request ''tool'') ''args'')"
      and "JSON_stringify env (errorResponse ''Error: Invalid request format - missing args field''
                      ''invalid_request'' ''Missing args field'') = Some s"
  shows "handleRequest env inputData =
     ([ConsoleLog [JStr (''Received input: ''
                     @ numberToString env (Finite (of_nat (length inputData)))
                     @ '' characters'')],
       ConsoleLog [JStr (''Tool called: '' @ nameText)],
       ConsoleError [JStr ''Error: Invalid request format - missing args field''],
       StdoutWrite s], Exited 1)"
  using assms(5-7)
  by (simp add: handle_tool [OF assms(1-4)] console_log_text
      reject_response [OF console_error_text] comp_simps)

lemma handle_dispatch:
  assumes "\<not> list_all isWhiteSpace inputData" and "jsonParse env inputData = Inr request"
      and "truthy request" and "truthy (getMember request ''tool'')"
      and "toStringJS env (getMember (getMember request ''tool'') ''name'') = Inr nameText"
      and "truthy (getMember (getMember request ''tool'') ''args'')"
  shows "handleRequest env inputData =
     bindC ([ConsoleLog [JStr (''Received input: ''
                     @ numberToString env (Finite (of_nat (length inputData)))
                     @ '' characters'')],
             ConsoleLog [JStr (''Tool called: '' @ nameText)]], Returned ()) (\<lambda>_.
     bindC (dispatch env (getMember (getMember request ''tool'') ''name'')
              (getMember (getMember request ''tool'') ''args'')) (\<lambda>result.
     ([ConsoleLog [JStr ''Sending response''],
       StdoutWrite (the (JSON_stringify env (JObj [(''result'', result)])))], Exited 0)))"
proof -
  have w: "\<And>result. process_stdout_write env (JSON_stringify env (JObj [(''result'', result)]))
        = ([StdoutWrite (the (JSON_stringify env (JObj [(''result'', result)])))], Returned ())"
  proof -
    fix result
    obtain s where "JSON_stringify env (JObj [(''result'', result)]) = Some s"
      using stringify_object by blast
    then show "process_stdout_write env (JSON_stringify env (JObj [(''result'', result)]))
        = ([StdoutWrite (the (JSON_stringify env (JObj [(''result'', result)])))], Returned ())"
      by (simp add: write_stringified)
  qed
  show ?thesis using assms(5,6)
    by (simp add: handle_tool [OF assms(1-4)] console_log_text w comp_simps)
qed

section \<open>Consequences for the operations and the listener\<close>

lemma shape_posted:
  assumes "diagnostic before" and "\<And>d. diagnostic (onResponse d)"
      and "HttpPost req \<in> set (fst (operationShape env before name ms onResponse label failText code args))"
  shows "\<exists>config u. snd (loadConfig env) = Returned config \<and> \<not> nullish config
           \<and> toStringJS env (getMember config ''serverUrl'') = Inr u
           \<and> req = callToolRequest u name args (getMember config ''apiKey'') (uuidv4 env) ms
           \<and> posts (fst (operationShape env before name ms onResponse label failText code args)) = [req]"
  using assms(1,2)
proof (cases rule: operationShape_cases [of before onResponse env name ms label failText code args])
  case (escaped e)
  then show ?thesis using assms(3) by (simp add: mem_posts)
next
  case (unposted e)
  then show ?thesis using assms(3) by (simp add: mem_posts)
next
  case (rejected config u e)
  then show ?thesis using assms(3) by (auto simp: mem_posts)
next
  case (responded config u data)
  then show ?thesis using assms(3) by (auto simp: mem_posts)
qed

lemma shape_rejected:
  assumes "diagnostic before" and "\<And>d. diagnostic (onResponse d)"
      and "HttpPost req \<in> set (fst (operationShape env before name ms onResponse label failText code args))"
      and "axiosPost env req = Inl e"
      and "logMirror env \<longrightarrow> (\<forall>status data. axiosDetail e = Some (Responded status data) \<longrightarrow> renders env data)"
  shows "snd (operationShape env before name ms onResponse label failText code args)
           = Returned (errorResult (failText @ message e) code (message e))"
  using assms(1,2)
proof (cases rule: operationShape_cases [of before onResponse env name ms label failText code args])
  case (escaped e)
  then show ?thesis using assms(3) by (simp add: mem_posts)
next
  case (unposted e)
  then show ?thesis using assms(3) by (simp add: mem_posts)
next
  case (rejected config u e')
  then have "req = callToolRequest u name args (getMember config ''apiKey'') (uuidv4 env) ms"
    using assms(3) by (simp add: mem_posts)
  then have "e' = e" using rejected assms(4) by simp
  then show ?thesis using rejected logFailure_returns [OF assms(5), of label] by simp
next
  case (responded config u data)
  then have "req = callToolRequest u name args (getMember config ''apiKey'') (uuidv4 env) ms"
    using assms(3) by (simp add: mem_posts)
  then show ?thesis using responded assms(4) by simp
qed

lemma shape_responded:
  assumes "diagnostic before" and "\<And>d. diagnostic (onResponse d)"
      and "HttpPost req \<in> set (fst (operationShape env before name ms onResponse label failText code args))"
      and "axiosPost env req = Inr data"
      and "snd (onResponse data) = Returned r"
  shows "snd (operationShape env before name ms onResponse label failText code args) = Returned r"
  using assms(1,2)
proof (cases rule: operationShape_cases [of before onResponse env name ms label failText code args])
  case (escaped e)
  then show ?thesis using assms(3) by (simp add: mem_posts)
next
  case (unposted e)
  then show ?thesis using assms(3) by (simp add: mem_posts)
next
  case (rejected config u e')
  then have "req = callToolRequest u name args (getMember config ''apiKey'') (uuidv4 env) ms"
    using assms(3) by (simp add: mem_posts)
  then show ?thesis using rejected assms(4) by simp
next
  case (responded config u data')
  then have "req = callToolRequest u name args (getMember config ''apiKey'') (uuidv4 env) ms"
    using assms(3) by (simp add: mem_posts)
  then have "data' = data" using responded assms(4) by simp
  then show ?thesis using responded assms(5) by simp
qed

lemma diagnostic_before_simple:
  "diagnostic (bindC (console_log env [JStr t]) (\<lambda>_. logClientId env args))"
  by (intro diagnostic_intros diagnostic_logClientId)

lemma diagnostic_before_authenticate:
  "diagnostic (bindC (console_log env [JStr t]) (\<lambda>_.
        bindC (logClientId env args) (\<lambda>_. logAgentId env args)))"
  by (intro diagnostic_intros diagnostic_logClientId diagnostic_logAgentId)

lemma diagnostic_before_send:
  "diagnostic (bindC (console_log env [JStr t]) (\<lambda>_.
        bindC (logClientId env args) (\<lambda>_. logMessageLength env args)))"
  by (intro diagnostic_intros diagnostic_logClientId diagnostic_logMessageLength)

lemma diagnostic_onResponse_simple:
  "diagnostic (bindC (console_log env [JStr t]) (\<lambda>_. getProp env data ''result''))"
  by (intro diagnostic_intros)

lemma diagnostic_onResponse_send:
  "diagnostic (bindC (console_log env [JStr t]) (\<lambda>_.
               bindC (logResponseLength env data) (\<lambda>_.
               getProp env data ''result'')))"
  by (intro diagnostic_intros diagnostic_logResponseLength)

lemmas operation_shapes =
  authenticate_shape create_session_shape send_message_shape get_status_shape reset_shape

lemmas operation_diagnostics =
  diagnostic_before_simple diagnostic_before_authenticate diagnostic_before_send
  diagnostic_onResponse_simple diagnostic_onResponse_send

lemma dispatch_known:
  "dispatch env (JStr ''agentforce_authenticate'') args = authenticateWithAgentForce env args"
  "dispatch env (JStr ''agentforce_create_session'') args = createAgentForceSession env args"
  "dispatch env (JStr ''agentforce_send_message'') args = sendMessageToAgentForce env args"
  "dispatch env (JStr ''agentforce_get_status'') args = getAgentForceStatus env args"
  "dispatch env (JStr ''agentforce_reset'') args = resetAgentForceClient env args"
  by (simp_all add: dispatch_def)

lemma dispatch_silent:
  assumes "name \<in> set operationNames"
  shows "direct_writes (fst (dispatch env (JStr name) args)) = []
       \<and> (\<forall>c. snd (dispatch env (JStr name) args) \<noteq> Exited c)"
proof -
  consider "name = ''agentforce_authenticate''" | "name = ''agentforce_create_session''"
    | "name = ''agentforce_send_message''" | "name = ''agentforce_get_status''"
    | "name = ''agentforce_reset''"
    using assms by (auto simp: operationNames_def)
  then show ?thesis
  proof cases
    case 1
    then show ?thesis
      by (simp only: dispatch_known operation_shapes)
         (rule operationShape_silent; rule operation_diagnostics)
  next
    case 2
    then show ?thesis
      by (simp only: dispatch_known operation_shapes)
         (rule operationShape_silent; rule operation_diagnostics)
  next
    case 3
    then show ?thesis
      by (simp only: dispatch_known operation_shapes)
         (rule operationShape_silent; rule operation_diagnostics)
  next
    case 4
    then show ?thesis
      by (simp only: dispatch_known operation_shapes)
         (rule operationShape_silent; rule operation_diagnostics)
  next
    case 5
    then show ?thesis
      by (simp only: dispatch_known operation_shapes)
         (rule operationShape_silent; rule operation_diagnostics)
  qed
qed

lemma truthy_member: "truthy (getMember v k) \<Longrightarrow> truthy v"
  by (cases v) (auto split: if_splits option.splits)

lemma truthy_not_nullish: "truthy v \<Longrightarrow> \<not> nullish v"
  by (auto simp: nullish_def)

lemma member_not_nullish: "getMember v k \<noteq> JUndefined \<Longrightarrow> \<not> nullish v"
  by (auto simp: nullish_def)

lemma renders_text: "renders env (JStr s)"
  by (simp add: renders_def)

lemma rendersE: "renders env v \<Longrightarrow> \<exists>s. toStringJS env v = Inr s"
  by (auto simp: renders_def split: sum.splits)

lemma response_stringified:
  "\<exists>s. JSON_stringify env (errorResponse text code msg) = Some s"
  using stringify_object by (simp add: errorResponse_def)

lemma missing_tool_run:
  assumes "\<not> list_all isWhiteSpace (concat chunks)"
      and "jsonParse env (concat chunks) = Inr request"
      and "\<not> truthy (getMember request ''tool'')"
  shows "map Some (direct_writes (fst (processStdinRequest env chunks)))
           = [JSON_stringify env
                (errorResponse ''Error: Invalid request format - missing tool field''
                   ''invalid_request'' ''Missing tool field'')]
       \<and> snd (processStdinRequest env chunks) = Exited 1
       \<and> posts (fst (processStdinRequest env chunks)) = []"
proof -
  obtain s where s: "JSON_stringify env
      (errorResponse ''Error: Invalid request format - missing tool field''
         ''invalid_request'' ''Missing tool field'') = Some s"
    using response_stringified by blast
  have "\<not> truthy request \<or> \<not> truthy (getMember request ''tool'')"
    using assms(3) by simp
  from handle_missing_tool [OF assms(1,2) this s] s show ?thesis
    by (simp add: processStdinRequest_def gathered onEnd_outcomes trace_simps)
qed

lemma missing_args_run:
  assumes "\<not> list_all isWhiteSpace (concat chunks)"
      and "jsonParse env (concat chunks) = Inr request"
      and "truthy (getMember request ''tool'')"
      and "renders env (getMember (getMember request ''tool'') ''name'')"
      and "\<not> truthy (getMember (getMember request ''tool'') ''args'')"
  shows "map Some (direct_writes (fst (processStdinRequest env chunks)))
           = [JSON_stringify env
                (errorResponse ''Error: Invalid request format - missing args field''
                   ''invalid_request'' ''Missing args field'')]
       \<and> snd (processStdinRequest env chunks) = Exited 1
       \<and> posts (fst (processStdinRequest env chunks)) = []"
proof -
  obtain s where s: "JSON_stringify env
      (errorResponse ''Error: Invalid request format - missing args field''
         ''invalid_request'' ''Missing args field'') = Some s"
    using response_stringified by blast
  obtain nameText where
    name: "toStringJS env (getMember (getMember request ''tool'') ''name'') = Inr nameText"
    using rendersE [OF assms(4)] by blast
  from handle_missing_args [OF assms(1,2) truthy_member [OF assms(3)] assms(3) name assms(5) s] s
  show ?thesis
    by (simp add: processStdinRequest_def gathered onEnd_outcomes trace_simps)
qed

text \<open>A fault thrown by the operation reaches the catch block of the listener.\<close>

lemma escaped_fault_run:
  assumes "\<not> list_all isWhiteSpace (concat chunks)"
      and "jsonParse env (concat chunks) = Inr request"
      and "truthy (getMember request ''tool'')"
      and "renders env (getMember (getMember request ''tool'') ''name'')"
      and "truthy (getMember (getMember request ''tool'') ''args'')"
      and "snd (dispatch env (getMember (getMember request ''tool'') ''name'')
                 (getMember (getMember request ''tool'') ''args'')) = Raised e"
      and "direct_writes (fst (dispatch env (getMember (getMember request ''tool'') ''name'')
                 (getMember (getMember request ''tool'') ''args''))) = []"
  shows "map Some (direct_writes (fst (processStdinRequest env chunks)))
           = [JSON_stringify env
                (errorResponse (''Error: '' @ message e) ''processing_error'' (message e))]
       \<and> snd (processStdinRequest env chunks) = Exited 1
       \<and> posts (fst (processStdinRequest env chunks))
           = posts (fst (dispatch env (getMember (getMember request ''tool'') ''name'')
                 (getMember (getMember request ''tool'') ''args'')))"
proof -
  obtain s where s: "JSON_stringify env
      (errorResponse (''Error: '' @ message e) ''processing_error'' (message e)) = Some s"
    using response_stringified by blast
  obtain nameText where
    name: "toStringJS env (getMember (getMember request ''tool'') ''name'') = Inr nameText"
    using rendersE [OF assms(4)] by blast
  obtain tr where d: "dispatch env (getMember (getMember request ''tool'') ''name'')
                 (getMember (getMember request ''tool'') ''args'') = (tr, Raised e)"
    using assms(6)
    by (cases "dispatch env (getMember (getMember request ''tool'') ''name'')
                 (getMember (getMember request ''tool'') ''args'')") simp
  have quiet: "direct_writes tr = []" using assms(7) d by simp
  show ?thesis
    using handle_dispatch [OF assms(1,2) truthy_member [OF assms(3)] assms(3) name assms(5)] d s
      quiet
    by (simp add: processStdinRequest_def gathered onEnd_outcomes comp_simps trace_simps)
qed

lemma name_fault_run:
  assumes "\<not> list_all isWhiteSpace (concat chunks)"
      and "jsonParse env (concat chunks) = Inr request"
      and "truthy (getMember request ''tool'')"
      and "\<not> renders env (getMember (getMember request ''tool'') ''name'')"
  shows "map Some (direct_writes (fst (processStdinRequest env chunks)))
           = [JSON_stringify env
                (errorResponse (''Error: '' @ fst (conversionFault env)) ''processing_error''
                   (fst (conversionFault env)))]
       \<and> snd (processStdinRequest env chunks) = Exited 1"
proof -
  obtain s where s: "JSON_stringify env
      (errorResponse (''Error: '' @ fst (conversionFault env)) ''processing_error''
                   (fst (conversionFault env))) = Some s"
    using response_stringified by blast
  from handle_name_fault [OF assms(1,2) truthy_member [OF assms(3)] assms(3,4)] s
  show ?thesis
    by (simp add: processStdinRequest_def gathered onEnd_outcomes plainError_def trace_simps)
qed

text \<open>What the lines before the try block throw leaves the operation.\<close>

lemma operationShape_escapes:
  assumes "snd before = Raised e"
  shows "snd (operationShape env before name ms onResponse label failText code args) = Raised e"
    and "fst (operationShape env before name ms onResponse label failText code args) = fst before"
  using assms by (simp_all add: operationShape_def snd_bindC fst_bindC)

lemma send_message_escapes:
  assumes "\<not> nullish args" and "nullish (getMember args ''message'')"
  shows "\<exists>e. snd (sendMessageToAgentForce env args) = Raised e
           \<and> posts (fst (sendMessageToAgentForce env args)) = []"
proof -
  let ?before = "bindC (console_log env [JStr ''Sending message to AgentForce'']) (\<lambda>_.
        bindC (logClientId env args) (\<lambda>_. logMessageLength env args))"
  have diag: "diagnostic ?before"
    by (rule diagnostic_before_send)
  have lm: "logMessageLength env args
      = ([], Raised (plainError (propertyFault env (getMember args ''message'') ''length'')))"
    using assms by (simp add: logMessageLength_def getProp_def comp_simps)
  have "\<exists>e. snd ?before = Raised e"
    using diagnostic_logClientId [of env args]
    by (cases rule: diagnostic_cases) (simp_all add: lm console_log_text comp_simps)
  then obtain e where e: "snd ?before = Raised e"
    by blast
  have "posts (fst ?before) = []" using diag by (simp add: diagnostic_def)
  then show ?thesis
    unfolding send_message_shape using operationShape_escapes [OF e] by simp
qed

lemma authenticate_escapes:
  assumes "\<not> nullish args" and "nullish (getMember args ''config'')"
  shows "\<exists>e. snd (authenticateWithAgentForce env args) = Raised e
           \<and> posts (fst (authenticateWithAgentForce env args)) = []"
proof -
  let ?before = "bindC (console_log env [JStr ''Authenticating with AgentForce'']) (\<lambda>_.
        bindC (logClientId env args) (\<lambda>_. logAgentId env args))"
  have diag: "diagnostic ?before"
    by (rule diagnostic_before_authenticate)
  have lm: "logAgentId env args
      = ([], Raised (plainError (propertyFault env (getMember args ''config'') ''agentId'')))"
    using assms by (simp add: logAgentId_def getProp_def comp_simps)
  have "\<exists>e. snd ?before = Raised e"
    using diagnostic_logClientId [of env args]
    by (cases rule: diagnostic_cases) (simp_all add: lm console_log_text comp_simps)
  then obtain e where e: "snd ?before = Raised e"
    by blast
  have "posts (fst ?before) = []" using diag by (simp add: diagnostic_def)
  then show ?thesis
    unfolding authenticate_shape using operationShape_escapes [OF e] by simp
qed

lemma trace_bindC: "set (fst m) \<subseteq> set (fst (bindC m f))"
  by (auto simp: fst_bindC split: outcome.splits)

lemma trace_tryCatch: "set (fst m) \<subseteq> set (fst (tryCatch m h))"
  by (auto simp: tryCatch_def split: outcome.splits)

lemma postCall_run:
  assumes "loadConfig env = (tr, Returned config)" and "\<not> nullish config"
      and "toStringJS env (getMember config ''serverUrl'') = Inr u"
  shows "postCall env name ms args =
         (tr @ [ConsoleLog [JStr (''Making request to: '' @ u @ ''/mcp/call-tool'')],
                ConsoleLog [JStr (''Request ID: '' @ uuidv4 env)],
                HttpPost (callToolRequest u name args (getMember config ''apiKey'') (uuidv4 env) ms)],
          case axiosPost env (callToolRequest u name args (getMember config ''apiKey'') (uuidv4 env) ms) of
            Inl e \<Rightarrow> Raised e | Inr data \<Rightarrow> Returned data)"
  using assms
  by (simp add: postCall_def getProp_def axios_post_def console_log_text comp_simps
           split: sum.splits)

lemma operationShape_posts:
  assumes "snd before = Returned ()"
      and "snd (loadConfig env) = Returned config" and "\<not> nullish config"
      and "toStringJS env (getMember config ''serverUrl'') = Inr u"
  shows "HttpPost (callToolRequest u name args (getMember config ''apiKey'') (uuidv4 env) ms)
           \<in> set (fst (operationShape env before name ms onResponse label failText code args))"
proof -
  obtain tr where lc: "loadConfig env = (tr, Returned config)"
    using assms(2) by (cases "loadConfig env") simp
  let ?req = "callToolRequest u name args (getMember config ''apiKey'') (uuidv4 env) ms"
  let ?H = "\<lambda>error. bindC (logFailure env label error) (\<lambda>_.
              retC (errorResult (failText @ message error) code (message error)))"
  have "HttpPost ?req \<in> set (fst (postCall env name ms args))"
    by (simp add: postCall_run [OF lc assms(3,4)])
  then have "HttpPost ?req \<in> set (fst (tryCatch (bindC (postCall env name ms args) onResponse) ?H))"
    using trace_bindC trace_tryCatch by blast
  moreover have "fst (operationShape env before name ms onResponse label failText code args)
      = fst before @ fst (tryCatch (bindC (postCall env name ms args) onResponse) ?H)"
    using assms(1) by (simp add: operationShape_def fst_bindC)
  ultimately show ?thesis by simp
qed

lemma simple_response:
  assumes "\<not> nullish data"
  shows "snd (bindC (console_log env [JStr t]) (\<lambda>_. getProp env data ''result''))
           = Returned (getMember data ''result'')"
  using assms by (simp add: getProp_def console_log_text comp_simps)

lemma errorResult_literal:
  "errorResult text code msg =
     JObj [(''content'', JArr [JObj [(''type'', JStr ''text''), (''text'', JStr text)]]),
           (''error'', JObj [(''code'', JStr code), (''message'', JStr msg)])]"
  by (simp add: errorResult_def)

lemma simple_shape_responded:
  assumes "diagnostic before"
      and "HttpPost req \<in> set (fst (operationShape env before name ms
              (\<lambda>data. bindC (console_log env [JStr t]) (\<lambda>_. getProp env data ''result''))
              label failText code args))"
      and "axiosPost env req = Inr data" and "\<not> nullish data"
  shows "snd (operationShape env before name ms
              (\<lambda>data. bindC (console_log env [JStr t]) (\<lambda>_. getProp env data ''result''))
              label failText code args) = Returned (getMember data ''result'')"
proof (rule shape_responded [where req = req and data = data])
  show "diagnostic before" by (rule assms(1))
  show "\<And>d. diagnostic (bindC (console_log env [JStr t]) (\<lambda>_. getProp env d ''result''))"
    by (rule diagnostic_onResponse_simple)
  show "HttpPost req \<in> set (fst (operationShape env before name ms
              (\<lambda>data. bindC (console_log env [JStr t]) (\<lambda>_. getProp env data ''result''))
              label failText code args))" by (rule assms(2))
  show "axiosPost env req = Inr data" by (rule assms(3))
  show "snd (bindC (console_log env [JStr t]) (\<lambda>_. getProp env data ''result''))
          = Returned (getMember data ''result'')"
    by (rule simple_response [OF assms(4)])
qed

lemma simple_operation_result:
  assumes "name \<in> {''agentforce_authenticate'', ''agentforce_create_session'',
                    ''agentforce_get_status'', ''agentforce_reset''}"
      and "HttpPost req \<in> set (fst (dispatch env (JStr name) args))"
      and "axiosPost env req = Inr data" and "\<not> nullish data"
  shows "snd (dispatch env (JStr name) args) = Returned (getMember data ''result'')"
proof -
  consider "name = ''agentforce_authenticate''" | "name = ''agentforce_create_session''"
    | "name = ''agentforce_get_status''" | "name = ''agentforce_reset''"
    using assms(1) by auto
  then show ?thesis
  proof cases
    case 1
    show ?thesis
      using assms(2) unfolding 1 dispatch_known authenticate_shape
      by (rule simple_shape_responded [rotated 1, OF _ assms(3,4)]) (rule operation_diagnostics)
  next
    case 2
    show ?thesis
      using assms(2) unfolding 2 dispatch_known create_session_shape
      by (rule simple_shape_responded [rotated 1, OF _ assms(3,4)]) (rule operation_diagnostics)
  next
    case 3
    show ?thesis
      using assms(2) unfolding 3 dispatch_known get_status_shape
      by (rule simple_shape_responded [rotated 1, OF _ assms(3,4)]) (rule operation_diagnostics)
  next
    case 4
    show ?thesis
      using assms(2) unfolding 4 dispatch_known reset_shape
      by (rule simple_shape_responded [rotated 1, OF _ assms(3,4)]) (rule operation_diagnostics)
  qed
qed

lemma dispatch_returned_run:
  assumes "\<not> list_all isWhiteSpace (concat chunks)"
      and "jsonParse env (concat chunks) = Inr request"
      and "truthy (getMember request ''tool'')"
      and "getMember (getMember request ''tool'') ''name'' = JStr name"
      and "name \<in> set operationNames"
      and "truthy (getMember (getMember request ''tool'') ''args'')"
      and "snd (dispatch env (JStr name) (getMember (getMember request ''tool'') ''args''))
             = Returned result"
  shows "map Some (direct_writes (fst (processStdinRequest env chunks)))
           = [JSON_stringify env (JObj [(''result'', result)])]
       \<and> snd (processStdinRequest env chunks) = Exited 0"
proof -
  obtain s where s: "JSON_stringify env (JObj [(''result'', result)]) = Some s"
    using stringify_object by blast
  have name: "toStringJS env (getMember (getMember request ''tool'') ''name'') = Inr name"
    using assms(4) by simp
  obtain tr where d: "dispatch env (JStr name) (getMember (getMember request ''tool'') ''args'')
      = (tr, Returned result)"
    using assms(7) by (cases "dispatch env (JStr name) (getMember (getMember request ''tool'') ''args'')") simp
  have quiet: "direct_writes tr = []"
    using dispatch_silent [OF assms(5), of env "getMember (getMember request ''tool'') ''args''"] d
    by simp
  show ?thesis
    using handle_dispatch [OF assms(1,2) truthy_member [OF assms(3)] assms(3) name assms(6)] d s
      assms(4) quiet
    by (simp add: processStdinRequest_def gathered onEnd_outcomes comp_simps trace_simps)
qed

lemma authenticateWithAgentForce_posted:
  assumes "HttpPost req \<in> set (fst (dispatch env (JStr ''agentforce_authenticate'') args))"
  shows "\<exists>config u. snd (loadConfig env) = Returned config \<and> \<not> nullish config
           \<and> toStringJS env (getMember config ''serverUrl'') = Inr u
           \<and> req = callToolRequest u ''agentforce_authenticate'' args (getMember config ''apiKey'') (uuidv4 env) 30000
           \<and> posts (fst (dispatch env (JStr ''agentforce_authenticate'') args)) = [req]"
  using assms unfolding dispatch_known authenticate_shape
  by (rule shape_posted [rotated 2]) (rule operation_diagnostics)+

lemma createAgentForceSession_posted:
  assumes "HttpPost req \<in> set (fst (dispatch env (JStr ''agentforce_create_session'') args))"
  shows "\<exists>config u. snd (loadConfig env) = Returned config \<and> \<not> nullish config
           \<and> toStringJS env (getMember config ''serverUrl'') = Inr u
           \<and> req = callToolRequest u ''agentforce_create_session'' args (getMember config ''apiKey'') (uuidv4 env) 60000
           \<and> posts (fst (dispatch env (JStr ''agentforce_create_session'') args)) = [req]"
  using assms unfolding dispatch_known create_session_shape
  by (rule shape_posted [rotated 2]) (rule operation_diagnostics)+

lemma sendMessageToAgentForce_posted:
  assumes "HttpPost req \<in> set (fst (dispatch env (JStr ''agentforce_send_message'') args))"
  shows "\<exists>config u. snd (loadConfig env) = Returned config \<and> \<not> nullish config
           \<and> toStringJS env (getMember config ''serverUrl'') = Inr u
           \<and> req = callToolRequest u ''agentforce_send_message'' args (getMember config ''apiKey'') (uuidv4 env) 300000
           \<and> posts (fst (dispatch env (JStr ''agentforce_send_message'') args)) = [req]"
  using assms unfolding dispatch_known send_message_shape
  by (rule shape_posted [rotated 2]) (rule operation_diagnostics)+

lemma getAgentForceStatus_posted:
  assumes "HttpPost req \<in> set (fst (dispatch env (JStr ''agentforce_get_status'') args))"
  shows "\<exists>config u. snd (loadConfig env) = Returned config \<and> \<not> nullish config
           \<and> toStringJS env (getMember config ''serverUrl'') = Inr u
           \<and> req = callToolRequest u ''agentforce_get_status'' args (getMember config ''apiKey'') (uuidv4 env) 10000
           \<and> posts (fst (dispatch env (JStr ''agentforce_get_status'') args)) = [req]"
  using assms unfolding dispatch_known get_status_shape
  by (rule shape_posted [rotated 2]) (rule operation_diagnostics)+

lemma resetAgentForceClient_posted:
  assumes "HttpPost req \<in> set (fst (dispatch env (JStr ''agentforce_reset'') args))"
  shows "\<exists>config u. snd (loadConfig env) = Returned config \<and> \<not> nullish config
           \<and> toStringJS env (getMember config ''serverUrl'') = Inr u
           \<and> req = callToolRequest u ''agentforce_reset'' args (getMember config ''apiKey'') (uuidv4 env) 10000
           \<and> posts (fst (dispatch env (JStr ''agentforce_reset'') args)) = [req]"
  using assms unfolding dispatch_known reset_shape
  by (rule shape_posted [rotated 2]) (rule operation_diagnostics)+

lemma outbound_call_run:
  assumes "(name, ms) \<in> set [(''agentforce_authenticate'', 30000), (''agentforce_create_session'', 60000),
              (''agentforce_send_message'', 300000), (''agentforce_get_status'', 10000),
              (''agentforce_reset'', 10000 :: nat)]"
      and "HttpPost req \<in> set (fst (dispatch env (JStr name) args))"
  shows "\<exists>config serverUrlText.
           snd (loadConfig env) = Returned config \<and> \<not> nullish config
         \<and> toStringJS env (getMember config ''serverUrl'') = Inr serverUrlText
         \<and> req = \<lparr>url = serverUrlText @ ''/mcp/call-tool'',
                  body = JObj [(''tool'', JObj [(''name'', JStr name), (''args'', args)])],
                  headers = [(''x-api-key'', getMember config ''apiKey''),
                             (''x-request-id'', JStr (uuidv4 env)),
                             (''Content-Type'', JStr ''application/json'')],
                  timeout = ms\<rparr>
         \<and> posts (fst (dispatch env (JStr name) args)) = [req]"
proof -
  have "(name = ''agentforce_authenticate'' \<and> ms = 30000)
      \<or> (name = ''agentforce_create_session'' \<and> ms = 60000)
      \<or> (name = ''agentforce_send_message'' \<and> ms = 300000)
      \<or> (name = ''agentforce_get_status'' \<and> ms = 10000)
      \<or> (name = ''agentforce_reset'' \<and> ms = 10000)"
    using assms(1) by simp
  then show ?thesis
  proof (elim disjE conjE)
    assume eq: "name = ''agentforce_authenticate''" "ms = 30000"
    show ?thesis
      using authenticateWithAgentForce_posted [of req env args] assms(2)
      unfolding eq callToolRequest_def by simp
  next
    assume eq: "name = ''agentforce_create_session''" "ms = 60000"
    show ?thesis
      using createAgentForceSession_posted [of req env args] assms(2)
      unfolding eq callToolRequest_def by simp
  next
    assume eq: "name = ''agentforce_send_message''" "ms = 300000"
    show ?thesis
      using sendMessageToAgentForce_posted [of req env args] assms(2)
      unfolding eq callToolRequest_def by simp
  next
    assume eq: "name = ''agentforce_get_status''" "ms = 10000"
    show ?thesis
      using getAgentForceStatus_posted [of req env args] assms(2)
      unfolding eq callToolRequest_def by simp
  next
    assume eq: "name = ''agentforce_reset''" "ms = 10000"
    show ?thesis
      using resetAgentForceClient_posted [of req env args] assms(2)
      unfolding eq callToolRequest_def by simp
  qed
qed

lemma authenticateWithAgentForce_rejected:
  assumes "HttpPost req \<in> set (fst (dispatch env (JStr ''agentforce_authenticate'') args))"
      and "axiosPost env req = Inl e"
      and "logMirror env \<longrightarrow>
             (\<forall>status data. axiosDetail e = Some (Responded status data) \<longrightarrow> renders env data)"
  shows "snd (dispatch env (JStr ''agentforce_authenticate'') args)
           = Returned (errorResult (''Authentication failed: '' @ message e) ''authentication_error'' (message e))"
  using assms(1) unfolding dispatch_known authenticate_shape
  by (rule shape_rejected [rotated 2, OF _ assms(2,3)]) (rule operation_diagnostics)+

lemma createAgentForceSession_rejected:
  assumes "HttpPost req \<in> set (fst (dispatch env (JStr ''agentforce_create_session'') args))"
      and "axiosPost env req = Inl e"
      and "logMirror env \<longrightarrow>
             (\<forall>status data. axiosDetail e = Some (Responded status data) \<longrightarrow> renders env data)"
  shows "snd (dispatch env (JStr ''agentforce_create_session'') args)
           = Returned (errorResult (''Session creation failed: '' @ message e) ''session_creation_error'' (message e))"
  using assms(1) unfolding dispatch_known create_session_shape
  by (rule shape_rejected [rotated 2, OF _ assms(2,3)]) (rule operation_diagnostics)+

lemma sendMessageToAgentForce_rejected:
  assumes "HttpPost req \<in> set (fst (dispatch env (JStr ''agentforce_send_message'') args))"
      and "axiosPost env req = Inl e"
      and "logMirror env \<longrightarrow>
             (\<forall>status data. axiosDetail e = Some (Responded status data) \<longrightarrow> renders env data)"
  shows "snd (dispatch env (JStr ''agentforce_send_message'') args)
           = Returned (errorResult (''Message sending failed: '' @ message e) ''message_sending_error'' (message e))"
  using assms(1) unfolding dispatch_known send_message_shape
  by (rule shape_rejected [rotated 2, OF _ assms(2,3)]) (rule operation_diagnostics)+

lemma getAgentForceStatus_rejected:
  assumes "HttpPost req \<in> set (fst (dispatch env (JStr ''agentforce_get_status'') args))"
      and "axiosPost env req = Inl e"
      and "logMirror env \<longrightarrow>
             (\<forall>status data. axiosDetail e = Some (Responded status data) \<longrightarrow> renders env data)"
  shows "snd (dispatch env (JStr ''agentforce_get_status'') args)
           = Returned (errorResult (''Status check failed: '' @ message e) ''status_check_error'' (message e))"
  using assms(1) unfolding dispatch_known get_status_shape
  by (rule shape_rejected [rotated 2, OF _ assms(2,3)]) (rule operation_diagnostics)+

lemma resetAgentForceClient_rejected:
  assumes "HttpPost req \<in> set (fst (dispatch env (JStr ''agentforce_reset'') args))"
      and "axiosPost env req = Inl e"
      and "logMirror env \<longrightarrow>
             (\<forall>status data. axiosDetail e = Some (Responded status data) \<longrightarrow> renders env data)"
  shows "snd (dispatch env (JStr ''agentforce_reset'') args)
           = Returned (errorResult (''Reset failed: '' @ message e) ''reset_error'' (message e))"
  using assms(1) unfolding dispatch_known reset_shape
  by (rule shape_rejected [rotated 2, OF _ assms(2,3)]) (rule operation_diagnostics)+

lemma failure_result_run:
  assumes "(name, label, code) \<in> set
             [(''agentforce_authenticate'', ''Authentication'', ''authentication_error''),
              (''agentforce_create_session'', ''Session creation'', ''session_creation_error''),
              (''agentforce_send_message'', ''Message sending'', ''message_sending_error''),
              (''agentforce_get_status'', ''Status check'', ''status_check_error''),
              (''agentforce_reset'', ''Reset'', ''reset_error'')]"
      and "HttpPost req \<in> set (fst (dispatch env (JStr name) args))"
      and "axiosPost env req = Inl e"
      and "logMirror env \<longrightarrow>
             (\<forall>status data. axiosDetail e = Some (Responded status data) \<longrightarrow> renders env data)"
  shows "snd (dispatch env (JStr name) args)
           = Returned
               (JObj [(''content'',
                         JArr [JObj [(''type'', JStr ''text''),
                                     (''text'', JStr (label @ '' failed: '' @ message e))]]),
                      (''error'', JObj [(''code'', JStr code), (''message'', JStr (message e))])])"
proof -
  have "(name = ''agentforce_authenticate'' \<and> label = ''Authentication'' \<and> code = ''authentication_error'')
      \<or> (name = ''agentforce_create_session'' \<and> label = ''Session creation'' \<and> code = ''session_creation_error'')
      \<or> (name = ''agentforce_send_message'' \<and> label = ''Message sending'' \<and> code = ''message_sending_error'')
      \<or> (name = ''agentforce_get_status'' \<and> label = ''Status check'' \<and> code = ''status_check_error'')
      \<or> (name = ''agentforce_reset'' \<and> label = ''Reset'' \<and> code = ''reset_error'')"
    using assms(1) by simp
  then show ?thesis
  proof (elim disjE conjE)
    assume eq: "name = ''agentforce_authenticate''" "label = ''Authentication''" "code = ''authentication_error''"
    show ?thesis
      using authenticateWithAgentForce_rejected [OF _ assms(3,4), of args] assms(2)
      unfolding eq errorResult_literal by simp
  next
    assume eq: "name = ''agentforce_create_session''" "label = ''Session creation''" "code = ''session_creation_error''"
    show ?thesis
      using createAgentForceSession_rejected [OF _ assms(3,4), of args] assms(2)
      unfolding eq errorResult_literal by simp
  next
    assume eq: "name = ''agentforce_send_message''" "label = ''Message sending''" "code = ''message_sending_error''"
    show ?thesis
      using sendMessageToAgentForce_rejected [OF _ assms(3,4), of args] assms(2)
      unfolding eq errorResult_literal by simp
  next
    assume eq: "name = ''agentforce_get_status''" "label = ''Status check''" "code = ''status_check_error''"
    show ?thesis
      using getAgentForceStatus_rejected [OF _ assms(3,4), of args] assms(2)
      unfolding eq errorResult_literal by simp
  next
    assume eq: "name = ''agentforce_reset''" "label = ''Reset''" "code = ''reset_error''"
    show ?thesis
      using resetAgentForceClient_rejected [OF _ assms(3,4), of args] assms(2)
      unfolding eq errorResult_literal by simp
  qed
qed

lemma diagnostic_fault_run:
  assumes "\<not> list_all isWhiteSpace (concat chunks)"
      and "jsonParse env (concat chunks) = Inr request"
      and "truthy (getMember request ''tool'')"
      and "truthy (getMember (getMember request ''tool'') ''args'')"
      and "(getMember (getMember request ''tool'') ''name'' = JStr ''agentforce_send_message''
              \<and> nullish (getMember (getMember (getMember request ''tool'') ''args'') ''message''))
         \<or> (getMember (getMember request ''tool'') ''name'' = JStr ''agentforce_authenticate''
              \<and> nullish (getMember (getMember (getMember request ''tool'') ''args'') ''config''))"
  shows "\<exists>e. snd (dispatch env (getMember (getMember request ''tool'') ''name'')
                    (getMember (getMember request ''tool'') ''args'')) = Raised e
           \<and> map Some (direct_writes (fst (processStdinRequest env chunks)))
               = [JSON_stringify env
                    (errorResponse (''Error: '' @ message e) ''processing_error'' (message e))]
           \<and> snd (processStdinRequest env chunks) = Exited 1
           \<and> posts (fst (processStdinRequest env chunks)) = []"
proof -
  let ?name = "getMember (getMember request ''tool'') ''name''"
  let ?args = "getMember (getMember request ''tool'') ''args''"
  have args: "\<not> nullish ?args" using assms(4) by (rule truthy_not_nullish)
  obtain n where n: "?name = JStr n" "n \<in> set operationNames"
    using assms(5) by (auto simp: operationNames_def)
  have "\<exists>e. snd (dispatch env ?name ?args) = Raised e \<and> posts (fst (dispatch env ?name ?args)) = []"
    using assms(5) send_message_escapes [OF args, of env] authenticate_escapes [OF args, of env]
    by (auto simp: dispatch_known)
  then obtain e where e: "snd (dispatch env ?name ?args) = Raised e"
      "posts (fst (dispatch env ?name ?args)) = []"
    by blast
  have quiet: "direct_writes (fst (dispatch env ?name ?args)) = []"
    using dispatch_silent [OF n(2), of env ?args] n(1) by simp
  have r: "renders env ?name" using n(1) by (simp add: renders_text)
  from escaped_fault_run [OF assms(1,2,3) r assms(4) e(1) quiet] e
  show ?thesis by auto
qed

section \<open>Unfolding a run on an example\<close>

lemmas example_defs =
  units_def exampleEnv_def parsing_def answering_def failing_def clientArgs_def okReply_def toolRequest_def
  statusInput_def resetInput_def bogusInput_def noToolInput_def noArgsInput_def oddNameInput_def
  nullToolInput_def emptyArgsInput_def oddNameNullArgsInput_def sendNoMessageInput_def
  sendFlagInput_def messageArgs_def emptyReply_def

lemmas operation_defs =
  dispatch_def
  authenticateWithAgentForce_def createAgentForceSession_def sendMessageToAgentForce_def
  getAgentForceStatus_def resetAgentForceClient_def postCall_def logClientId_def logAgentId_def
  logMessageLength_def logResponseLength_def loadConfig_def ensureConfigDir_def
  DEFAULT_CONFIG_def axios_post_def callToolRequest_def logFailure_def errorResult_def
  console_log_def console_error_def getProp_def nullish_def arrayIndex_def isDigit_def
  plainError_def comp_simps

lemmas stringify_defs =
  JSON_stringify_def quoteJSONString_def quoteChar_def hexDigit_def errorResponse_def
  errorResult_def

lemmas listener_defs =
  processStdinRequest_def onEnd_def handleRequest_def parseInput_def reject_def
  process_stdout_write_def trim_def isWhiteSpace_def direct_writes_def posts_def

lemma parsing_parse: "jsonParse (parsing text v) (concat [text]) = Inr v"
  by (simp add: parsing_def)

lemma answering_parse: "jsonParse (answering reply env) = jsonParse env"
  by (simp add: answering_def)

lemma failing_parse: "jsonParse (failing reply env) = jsonParse env"
  by (simp add: failing_def)

lemma toolRequest_members:
  "getMember (toolRequest name args) ''tool'' = JObj [(''name'', name), (''args'', args)]"
  "getMember (getMember (toolRequest name args) ''tool'') ''name'' = name"
  "getMember (getMember (toolRequest name args) ''tool'') ''args'' = args"
  "truthy (getMember (toolRequest name args) ''tool'')"
  by (simp_all add: toolRequest_def)

lemma map_Some_single: "map Some xs = [Some s] \<longleftrightarrow> xs = [s]"
  by (cases xs) auto

lemma dispatch_returned_posts:
  assumes "\<not> list_all isWhiteSpace (concat chunks)"
      and "jsonParse env (concat chunks) = Inr request"
      and "truthy (getMember request ''tool'')"
      and "getMember (getMember request ''tool'') ''name'' = JStr name"
      and "truthy (getMember (getMember request ''tool'') ''args'')"
      and "snd (dispatch env (JStr name) (getMember (getMember request ''tool'') ''args''))
             = Returned result"
  shows "posts (fst (processStdinRequest env chunks))
           = posts (fst (dispatch env (JStr name) (getMember (getMember request ''tool'') ''args'')))"
proof -
  have name: "toStringJS env (getMember (getMember request ''tool'') ''name'') = Inr name"
    using assms(4) by simp
  obtain tr where d: "dispatch env (JStr name) (getMember (getMember request ''tool'') ''args'')
      = (tr, Returned result)"
    using assms(6)
    by (cases "dispatch env (JStr name) (getMember (getMember request ''tool'') ''args'')") simp
  show ?thesis
    using handle_dispatch [OF assms(1,2) truthy_member [OF assms(3)] assms(3) name assms(5)] d
      assms(4)
    by (simp add: processStdinRequest_def gathered onEnd_outcomes comp_simps trace_simps)
qed

section \<open>What reaches standard output\<close>

lemma standard_output_append:
  "standard_output env (a @ b) = standard_output env a @ standard_output env b"
  by (simp add: standard_output_def)

lemma standard_output_simps:
  "standard_output env [] = []"
  "standard_output env (ConsoleLog [JStr s] # tr) = line s # standard_output env tr"
  "standard_output env (ConsoleError a # tr) = standard_output env tr"
  "standard_output env (HttpPost r # tr) = standard_output env tr"
  "standard_output env (StdoutWrite s # tr) = s # standard_output env tr"
  by (simp_all add: standard_output_def utilFormat_def)

lemmas output_simps = standard_output_simps standard_output_append

lemma setupLogging_run:
  "setupLogging env =
     (if logMirror env
      then ([ConsoleLog [JStr (''Logging initialized to '' @ LOG_PATH env)]], Returned True)
      else ([ConsoleError [JStr ''Error setting up logging:'', JStr (fst (loggingFault env))]],
            Returned False))"
  by (simp add: setupLogging_def console_log_text console_error_text2 comp_simps)

lemma setupLogging_output:
  "standard_output env (fst (setupLogging env))
     = (if logMirror env then [line (''Logging initialized to '' @ LOG_PATH env)] else [])"
  by (simp add: setupLogging_run output_simps)

text \<open>Without the argument \<^verbatim>\<open>configure\<close>, the process is the set-up of logging followed by the listener.\<close>

lemma main_run:
  assumes "''configure'' \<notin> set argv"
  shows "main env argv chunks
           = (fst (setupLogging env) @ fst (processStdinRequest env chunks),
              snd (processStdinRequest env chunks))"
  using assms by (simp add: main_def setupLogging_run comp_simps)

lemma blank_input_run:
  assumes "list_all isWhiteSpace (concat chunks)"
  shows "processStdinRequest env chunks = ([ConsoleError [JStr ''Error: No input received'']], Exited 1)"
  using assms
  by (simp add: processStdinRequest_def gathered onEnd_def handleRequest_def trim_blank
      console_error_text comp_simps)

lemma dispatch_returned_trace:
  assumes "\<not> list_all isWhiteSpace (concat chunks)"
      and "jsonParse env (concat chunks) = Inr request"
      and "truthy (getMember request ''tool'')"
      and "getMember (getMember request ''tool'') ''name'' = JStr name"
      and "truthy (getMember (getMember request ''tool'') ''args'')"
      and "dispatch env (JStr name) (getMember (getMember request ''tool'') ''args'')
             = (tr, Returned result)"
      and "JSON_stringify env (JObj [(''result'', result)]) = Some s"
  shows "processStdinRequest env chunks =
     ([ConsoleLog [JStr (''Received input: ''
                     @ numberToString env (Finite (of_nat (length (concat chunks))))
                     @ '' characters'')],
       ConsoleLog [JStr (''Tool called: '' @ name)]]
      @ tr @ [ConsoleLog [JStr ''Sending response''], StdoutWrite s], Exited 0)"
proof -
  have name: "toStringJS env (getMember (getMember request ''tool'') ''name'') = Inr name"
    using assms(4) by simp
  show ?thesis
    using handle_dispatch [OF assms(1,2) truthy_member [OF assms(3)] assms(3) name assms(5)]
      assms(4,6,7)
    by (simp add: processStdinRequest_def gathered onEnd_outcomes comp_simps)
qed

lemma dispatch_raised_trace:
  assumes "\<not> list_all isWhiteSpace (concat chunks)"
      and "jsonParse env (concat chunks) = Inr request"
      and "truthy (getMember request ''tool'')"
      and "getMember (getMember request ''tool'') ''name'' = JStr name"
      and "truthy (getMember (getMember request ''tool'') ''args'')"
      and "dispatch env (JStr name) (getMember (getMember request ''tool'') ''args'')
             = (tr, Raised e)"
      and "JSON_stringify env
             (errorResponse (''Error: '' @ message e) ''processing_error'' (message e)) = Some s"
  shows "processStdinRequest env chunks =
     ([ConsoleLog [JStr (''Received input: ''
                     @ numberToString env (Finite (of_nat (length (concat chunks))))
                     @ '' characters'')],
       ConsoleLog [JStr (''Tool called: '' @ name)]]
      @ tr @ [ConsoleError [JStr ''Error processing request:'', JStr (message e)],
              ConsoleError [JStr ''Stack trace:'', JStr (stack e)],
              StdoutWrite s], Exited 1)"
proof -
  have name: "toStringJS env (getMember (getMember request ''tool'') ''name'') = Inr name"
    using assms(4) by simp
  show ?thesis
    using handle_dispatch [OF assms(1,2) truthy_member [OF assms(3)] assms(3) name assms(5)]
      assms(4,6,7)
    by (simp add: processStdinRequest_def gathered onEnd_outcomes comp_simps)
qed

lemma errorResponse_literal:
  "errorResponse text code msg =
     JObj [(''result'',
            JObj [(''content'', JArr [JObj [(''type'', JStr ''text''), (''text'', JStr text)]]),
                  (''error'', JObj [(''code'', JStr code), (''message'', JStr msg)])])]"
  by (simp add: errorResponse_def errorResult_def)

lemma unknown_tool_trace:
  assumes "\<not> list_all isWhiteSpace (concat chunks)"
      and "jsonParse env (concat chunks) = Inr request"
      and "truthy (getMember request ''tool'')"
      and "getMember (getMember request ''tool'') ''name'' = JStr name"
      and "name \<notin> set operationNames"
      and "truthy (getMember (getMember request ''tool'') ''args'')"
      and "JSON_stringify env
             (errorResponse (''Error: Unknown tool: '' @ name) ''unknown_tool''
                (''Unknown tool: '' @ name)) = Some s"
  shows "processStdinRequest env chunks =
     ([ConsoleLog [JStr (''Received input: ''
                     @ numberToString env (Finite (of_nat (length (concat chunks))))
                     @ '' characters'')],
       ConsoleLog [JStr (''Tool called: '' @ name)],
       ConsoleError [JStr (''Error: Unknown tool: '' @ name)],
       StdoutWrite s], Exited 1)"
proof -
  have name: "toStringJS env (getMember (getMember request ''tool'') ''name'') = Inr name"
    using assms(4) by simp
  have d: "dispatch env (JStr name) (getMember (getMember request ''tool'') ''args'')
      = ([ConsoleError [JStr (''Error: Unknown tool: '' @ name)], StdoutWrite s], Exited 1)"
    using assms(5,7)
    by (simp add: dispatch_def operationNames_def reject_response [OF console_error_text]
        comp_simps)
  show ?thesis
    using handle_dispatch [OF assms(1,2) truthy_member [OF assms(3)] assms(3) name assms(6)] d
      assms(4)
    by (simp add: processStdinRequest_def gathered onEnd_outcomes comp_simps)
qed

lemma parse_failure_trace:
  assumes "\<not> list_all isWhiteSpace (concat chunks)"
      and "jsonParse env (concat chunks) = Inl (description, trace)"
      and "JSON_stringify env (errorResponse (''Error: Failed to parse input - '' @ description)
               ''parse_error'' description) = Some s"
  shows "processStdinRequest env chunks =
     ([ConsoleLog [JStr (''Received input: ''
                     @ numberToString env (Finite (of_nat (length (concat chunks))))
                     @ '' characters'')],
       ConsoleError [JStr ''Error parsing input JSON:'', JStr description],
       StdoutWrite s], Exited 1)"
  using handle_parse_failure [OF assms]
  by (simp add: processStdinRequest_def gathered onEnd_outcomes)

text \<open>The scenario of the specification, on any machine whose configuration can be used.\<close>

lemma status_scenario_run:
  assumes "jsonParse env statusInput
             = Inr (toolRequest (JStr ''agentforce_get_status'') (JObj [(''clientId'', JStr ''c1'')]))"
      and "\<forall>req. axiosPost env req = Inr okReply"
      and "snd (loadConfig env) = Returned config" and "\<not> nullish config"
      and "renders env (getMember config ''serverUrl'')"
  shows \<open>\<exists>tr. dispatch env (JStr ''agentforce_get_status'') (JObj [(''clientId'', JStr ''c1'')])
                = (tr, Returned (getMember okReply ''result''))
            \<and> direct_writes tr = []
            \<and> processStdinRequest env [statusInput]
                = ([ConsoleLog [JStr (''Received input: '' @ numberToString env (Finite 66)
                                      @ '' characters'')],
                    ConsoleLog [JStr ''Tool called: agentforce_get_status'']]
                   @ tr
                   @ [ConsoleLog [JStr ''Sending response''],
                      StdoutWrite ''{"result":{"content":[{"type":"text","text":"ok"}]}}''],
                   Exited 0)\<close>
proof -
  let ?args = "JObj [(''clientId'', JStr ''c1'')]"
  let ?request = "toolRequest (JStr ''agentforce_get_status'') ?args"
  let ?before = "bindC (console_log env [JStr ''Getting AgentForce status'']) (\<lambda>_. logClientId env ?args)"
  obtain u where u: "toStringJS env (getMember config ''serverUrl'') = Inr u"
    using rendersE [OF assms(5)] by blast
  let ?req = "callToolRequest u ''agentforce_get_status'' ?args (getMember config ''apiKey'')
                (uuidv4 env) 10000"
  have h1: "\<not> list_all isWhiteSpace (concat [statusInput])"
    by (simp add: statusInput_def isWhiteSpace_def)
  have h2: "jsonParse env (concat [statusInput]) = Inr ?request"
    using assms(1) by simp
  have h3: "truthy (getMember ?request ''tool'')"
    by (rule toolRequest_members)
  have h4: "getMember (getMember ?request ''tool'') ''name'' = JStr ''agentforce_get_status''"
    by (rule toolRequest_members)
  have h5: "''agentforce_get_status'' \<in> set operationNames"
    by (simp add: operationNames_def)
  have h6: "truthy (getMember (getMember ?request ''tool'') ''args'')"
    by (simp add: toolRequest_def)
  have a: "getMember (getMember ?request ''tool'') ''args'' = ?args"
    by (simp add: toolRequest_def)
  have b: "snd ?before = Returned ()"
    by (simp add: logClientId_def getProp_def nullish_def console_log_text comp_simps)
  have "HttpPost ?req \<in> set (fst (getAgentForceStatus env ?args))"
    unfolding get_status_shape by (rule operationShape_posts [OF b assms(3,4) u])
  then have p: "HttpPost ?req \<in> set (fst (dispatch env (JStr ''agentforce_get_status'') ?args))"
    by (simp only: dispatch_known)
  have n: "\<not> nullish okReply"
    by (simp add: okReply_def nullish_def)
  have r: "snd (dispatch env (JStr ''agentforce_get_status'') ?args)
      = Returned (getMember okReply ''result'')"
    using p assms(2) n by (intro simple_operation_result [where req = ?req]) simp_all
  obtain tr where d: "dispatch env (JStr ''agentforce_get_status'') ?args
      = (tr, Returned (getMember okReply ''result''))"
    using r by (cases "dispatch env (JStr ''agentforce_get_status'') ?args") simp
  have d': "dispatch env (JStr ''agentforce_get_status'')
              (getMember (getMember ?request ''tool'') ''args'')
      = (tr, Returned (getMember okReply ''result''))"
    by (simp only: a d)
  have quiet: "direct_writes tr = []"
    using dispatch_silent [OF h5, of env ?args] d by simp
  have s: \<open>JSON_stringify env (JObj [(''result'', getMember okReply ''result'')])
      = Some ''{"result":{"content":[{"type":"text","text":"ok"}]}}''\<close>
    by (simp add: stringify_defs okReply_def)
  have len: "length (concat [statusInput]) = 66"
    by (simp add: statusInput_def)
  have \<open>processStdinRequest env [statusInput]
                = ([ConsoleLog [JStr (''Received input: '' @ numberToString env (Finite 66)
                                      @ '' characters'')],
                    ConsoleLog [JStr ''Tool called: agentforce_get_status'']]
                   @ tr
                   @ [ConsoleLog [JStr ''Sending response''],
                      StdoutWrite ''{"result":{"content":[{"type":"text","text":"ok"}]}}''],
                   Exited 0)\<close>
    using dispatch_returned_trace [OF h1 h2 h3 h4 h6 d' s] unfolding len by simp
  with d quiet show ?thesis by blast
qed

section \<open>The claims\<close>

text \<open>
  In the statements below, \<open>errorResponse text code msg\<close> is the object
  \<^verbatim>\<open>{ result: { content: [{ type: 'text', text }], error: { code, message: msg } } }\<close>,
  \<open>direct_writes\<close> lists what \<^verbatim>\<open>process.stdout.write\<close> received, \<open>posts\<close> lists
  the calls of \<^verbatim>\<open>axios.post\<close>, and \<open>Exited n\<close> is \<^verbatim>\<open>process.exit(n)\<close>.
  \<open>standard_output\<close> lists all that reaches standard output, the lines of
  \<^verbatim>\<open>console.log\<close> among it; \<open>line s\<close> is \<open>s\<close> followed by a line feed.
  \<open>processStdinRequest\<close> is the run of the listener and \<open>main\<close> the run of the
  process, which sets up logging first.
\<close>

subsection \<open>C1: the response after the dispatcher has returned\<close>

text \<open>
  C1 says that the handler writes exactly one output and that the exit code is 0 exactly
  when the dispatcher result carries no \<^verbatim>\<open>error\<close> field. The listener does not
  look at the result: after the \<^verbatim>\<open>switch\<close> it writes
  \<^verbatim>\<open>JSON.stringify({ result })\<close> and calls \<^verbatim>\<open>process.exit(0)\<close>. And that
  write is not alone on standard output: the \<^verbatim>\<open>console.log\<close> lines of the handler
  and of the operation go there before it.

  C1, as amended: for every valid envelope naming a known operation, once the dispatcher
  has returned a result, the handler calls \<^verbatim>\<open>process.stdout.write\<close> exactly once,
  with \<^verbatim>\<open>JSON.stringify({ result })\<close>, and the process exits with code 0, whether or
  not the result carries an \<^verbatim>\<open>error\<close> field. On standard output that text comes
  last: before it stand the handler's lines \<^verbatim>\<open>Received input: ... characters\<close> and
  \<^verbatim>\<open>Tool called: ...\<close>, the console lines of the operation, which itself calls
  \<^verbatim>\<open>process.stdout.write\<close> never, and the line \<^verbatim>\<open>Sending response\<close>.
\<close>

theorem dispatched_result_response:
  assumes "trim (concat chunks) \<noteq> []"
      and "jsonParse env (concat chunks) = Inr request"
      and "truthy (getMember request ''tool'')"
      and "getMember (getMember request ''tool'') ''name'' = JStr name"
      and "name \<in> set operationNames"
      and "truthy (getMember (getMember request ''tool'') ''args'')"
      and "snd (dispatch env (JStr name) (getMember (getMember request ''tool'') ''args''))
             = Returned result"
  shows "\<exists>s. JSON_stringify env (JObj [(''result'', result)]) = Some s
           \<and> direct_writes (fst (processStdinRequest env chunks)) = [s]
           \<and> direct_writes
                 (fst (dispatch env (JStr name) (getMember (getMember request ''tool'') ''args'')))
               = []
           \<and> standard_output env (fst (processStdinRequest env chunks))
               = [line (''Received input: ''
                        @ numberToString env (Finite (of_nat (length (concat chunks))))
                        @ '' characters''),
                  line (''Tool called: '' @ name)]
                 @ standard_output env
                     (fst (dispatch env (JStr name) (getMember (getMember request ''tool'') ''args'')))
                 @ [line ''Sending response'', s]
           \<and> snd (processStdinRequest env chunks) = Exited 0"
proof -
  let ?args = "getMember (getMember request ''tool'') ''args''"
  have nb: "\<not> list_all isWhiteSpace (concat chunks)"
    using assms(1) by (simp add: trim_blank)
  obtain s where s: "JSON_stringify env (JObj [(''result'', result)]) = Some s"
    using stringify_object by blast
  obtain tr where d: "dispatch env (JStr name) ?args = (tr, Returned result)"
    using assms(7) by (cases "dispatch env (JStr name) ?args") simp
  have quiet: "direct_writes tr = []"
    using dispatch_silent [OF assms(5), of env ?args] d by simp
  have run: "processStdinRequest env chunks =
     ([ConsoleLog [JStr (''Received input: ''
                     @ numberToString env (Finite (of_nat (length (concat chunks))))
                     @ '' characters'')],
       ConsoleLog [JStr (''Tool called: '' @ name)]]
      @ tr @ [ConsoleLog [JStr ''Sending response''], StdoutWrite s], Exited 0)"
    using nb assms(2,3,4,6) d s by (rule dispatch_returned_trace)
  have "direct_writes (fst (processStdinRequest env chunks)) = [s]
      \<and> direct_writes (fst (dispatch env (JStr name) ?args)) = []
      \<and> standard_output env (fst (processStdinRequest env chunks))
               = [line (''Received input: ''
                        @ numberToString env (Finite (of_nat (length (concat chunks))))
                        @ '' characters''),
                  line (''Tool called: '' @ name)]
                 @ standard_output env (fst (dispatch env (JStr name) ?args))
                 @ [line ''Sending response'', s]
      \<and> snd (processStdinRequest env chunks) = Exited 0"
    using quiet by (simp add: run d trace_simps output_simps)
  with s show ?thesis by blast
qed

text \<open>
  A reset request whose server answers: the result is returned and written after nine
  console lines, exit code 0.
\<close>

theorem dispatched_result_response_witness:
  \<open>trim (concat [resetInput]) \<noteq> []
   \<and> jsonParse (answering okReply (parsing resetInput (toolRequest (JStr ''agentforce_reset'') clientArgs)))
        (concat [resetInput]) = Inr (toolRequest (JStr ''agentforce_reset'') clientArgs)
   \<and> ''agentforce_reset'' \<in> set operationNames
   \<and> snd (dispatch (answering okReply (parsing resetInput (toolRequest (JStr ''agentforce_reset'') clientArgs)))
              (JStr ''agentforce_reset'') clientArgs) = Returned (getMember okReply ''result'')
   \<and> direct_writes (fst (processStdinRequest
          (answering okReply (parsing resetInput (toolRequest (JStr ''agentforce_reset'') clientArgs)))
          [resetInput]))
       = [''{"result":{"content":[{"type":"text","text":"ok"}]}}'']
   \<and> standard_output
          (answering okReply (parsing resetInput (toolRequest (JStr ''agentforce_reset'') clientArgs)))
          (fst (processStdinRequest
            (answering okReply (parsing resetInput (toolRequest (JStr ''agentforce_reset'') clientArgs)))
            [resetInput]))
       = [line ''Received input: 61 characters'',
          line ''Tool called: agentforce_reset'',
          line ''Resetting AgentForce client'',
          line ''Client ID: c1'',
          line ''No configuration file found, using defaults'',
          line ''Making request to: http://localhost:3000/mcp/call-tool'',
          line ''Request ID: 3f2c1d9e-7a4b-4c6d-8e5f-0a1b2c3d4e5f'',
          line ''Reset successful'',
          line ''Sending response'',
          ''{"result":{"content":[{"type":"text","text":"ok"}]}}'']
   \<and> snd (processStdinRequest
          (answering okReply (parsing resetInput (toolRequest (JStr ''agentforce_reset'') clientArgs)))
          [resetInput]) = Exited 0\<close>
proof -
  let ?env = "answering okReply (parsing resetInput (toolRequest (JStr ''agentforce_reset'') clientArgs))"
  let ?request = "toolRequest (JStr ''agentforce_reset'') clientArgs"
  have h1: "trim (concat [resetInput]) \<noteq> []"
    by (simp add: trim_blank resetInput_def isWhiteSpace_def)
  have h2: "jsonParse ?env (concat [resetInput]) = Inr ?request"
    by (simp only: answering_parse parsing_parse)
  have h3: "truthy (getMember ?request ''tool'')"
    by (rule toolRequest_members)
  have h4: "getMember (getMember ?request ''tool'') ''name'' = JStr ''agentforce_reset''"
    by (rule toolRequest_members)
  have h5: "''agentforce_reset'' \<in> set operationNames"
    by (simp add: operationNames_def)
  have h6: "truthy (getMember (getMember ?request ''tool'') ''args'')"
    by (simp add: toolRequest_members clientArgs_def)
  have a: "getMember (getMember ?request ''tool'') ''args'' = clientArgs"
    by (rule toolRequest_members)
  have d: "dispatch ?env (JStr ''agentforce_reset'') clientArgs
      = ([ConsoleLog [JStr ''Resetting AgentForce client''],
          ConsoleLog [JStr ''Client ID: c1''],
          ConsoleLog [JStr ''No configuration file found, using defaults''],
          ConsoleLog [JStr ''Making request to: http://localhost:3000/mcp/call-tool''],
          ConsoleLog [JStr ''Request ID: 3f2c1d9e-7a4b-4c6d-8e5f-0a1b2c3d4e5f''],
          HttpPost (callToolRequest ''http://localhost:3000'' ''agentforce_reset'' clientArgs
                      (JStr []) ''3f2c1d9e-7a4b-4c6d-8e5f-0a1b2c3d4e5f'' 10000),
          ConsoleLog [JStr ''Reset successful'']],
         Returned (getMember okReply ''result''))"
    by (simp add: operation_defs example_defs)
  have h7: "snd (dispatch ?env (JStr ''agentforce_reset'')
                       (getMember (getMember ?request ''tool'') ''args''))
             = Returned (getMember okReply ''result'')"
    by (simp only: a d snd_conv)
  have n: "numberToString ?env (Finite (of_nat (length (concat [resetInput])))) = ''61''"
    by (simp add: example_defs printNumber_def decimal.simps)
  have s: \<open>JSON_stringify ?env (JObj [(''result'', getMember okReply ''result'')])
      = Some ''{"result":{"content":[{"type":"text","text":"ok"}]}}''\<close>
    by (simp add: stringify_defs okReply_def)
  from dispatched_result_response [OF h1 h2 h3 h4 h5 h6 h7]
  obtain t where t: "JSON_stringify ?env (JObj [(''result'', getMember okReply ''result'')]) = Some t"
      "direct_writes (fst (processStdinRequest ?env [resetInput])) = [t]"
      "standard_output ?env (fst (processStdinRequest ?env [resetInput]))
         = [line (''Received input: ''
                  @ numberToString ?env (Finite (of_nat (length (concat [resetInput]))))
                  @ '' characters''),
            line (''Tool called: '' @ ''agentforce_reset'')]
           @ standard_output ?env
               (fst (dispatch ?env (JStr ''agentforce_reset'')
                      (getMember (getMember ?request ''tool'') ''args'')))
           @ [line ''Sending response'', t]"
      "snd (processStdinRequest ?env [resetInput]) = Exited 0"
    by blast
  have w: \<open>t = ''{"result":{"content":[{"type":"text","text":"ok"}]}}''\<close>
    using t(1) s by simp
  have o: "standard_output ?env (fst (processStdinRequest ?env [resetInput]))
       = [line ''Received input: 61 characters'',
          line ''Tool called: agentforce_reset'',
          line ''Resetting AgentForce client'',
          line ''Client ID: c1'',
          line ''No configuration file found, using defaults'',
          line ''Making request to: http://localhost:3000/mcp/call-tool'',
          line ''Request ID: 3f2c1d9e-7a4b-4c6d-8e5f-0a1b2c3d4e5f'',
          line ''Reset successful'',
          line ''Sending response'',
          t]"
    unfolding t(3) a n d fst_conv by (simp add: output_simps)
  have d2: "snd (dispatch ?env (JStr ''agentforce_reset'') clientArgs)
      = Returned (getMember okReply ''result'')"
    by (simp only: d snd_conv)
  show ?thesis
    using h1 h2 h5 d2 t(2,4) o unfolding w by (intro conjI)
qed

text \<open>
  The claim fails where the server cannot be reached: the dispatcher result carries an
  \<^verbatim>\<open>error\<close> field, it is written after eight console lines, and the exit code
  is 0.
\<close>

theorem exit_zero_with_error_counterexample:
  \<open>snd (dispatch (parsing statusInput (toolRequest (JStr ''agentforce_get_status'') clientArgs))
          (JStr ''agentforce_get_status'') clientArgs)
     = Returned (JObj [(''content'', JArr [JObj [(''type'', JStr ''text''),
                          (''text'', JStr ''Status check failed: connect ECONNREFUSED 127.0.0.1:3000'')]]),
                       (''error'', JObj [(''code'', JStr ''status_check_error''),
                          (''message'', JStr ''connect ECONNREFUSED 127.0.0.1:3000'')])])
   \<and> standard_output
          (parsing statusInput (toolRequest (JStr ''agentforce_get_status'') clientArgs))
          (fst (processStdinRequest
            (parsing statusInput (toolRequest (JStr ''agentforce_get_status'') clientArgs))
            [statusInput]))
     = [''Received input: 66 characters'' @ [CHR 0x0A],
        ''Tool called: agentforce_get_status'' @ [CHR 0x0A],
        ''Getting AgentForce status'' @ [CHR 0x0A],
        ''Client ID: c1'' @ [CHR 0x0A],
        ''No configuration file found, using defaults'' @ [CHR 0x0A],
        ''Making request to: http://localhost:3000/mcp/call-tool'' @ [CHR 0x0A],
        ''Request ID: 3f2c1d9e-7a4b-4c6d-8e5f-0a1b2c3d4e5f'' @ [CHR 0x0A],
        ''Sending response'' @ [CHR 0x0A],
        ''{"result":{"content":[{"type":"text","text":"Status check failed: connect ECONNREFUSED 127.0.0.1:3000"}],"error":{"code":"status_check_error","message":"connect ECONNREFUSED 127.0.0.1:3000"}}}'']
   \<and> snd (processStdinRequest
          (parsing statusInput (toolRequest (JStr ''agentforce_get_status'') clientArgs))
          [statusInput]) = Exited 0\<close>
proof -
  let ?env = "parsing statusInput (toolRequest (JStr ''agentforce_get_status'') clientArgs)"
  let ?request = "toolRequest (JStr ''agentforce_get_status'') clientArgs"
  let ?result = "JObj [(''content'', JArr [JObj [(''type'', JStr ''text''),
                          (''text'', JStr ''Status check failed: connect ECONNREFUSED 127.0.0.1:3000'')]]),
                       (''error'', JObj [(''code'', JStr ''status_check_error''),
                          (''message'', JStr ''connect ECONNREFUSED 127.0.0.1:3000'')])]"
  have h1: "\<not> list_all isWhiteSpace (concat [statusInput])"
    by (simp add: statusInput_def isWhiteSpace_def)
  have h2: "jsonParse ?env (concat [statusInput]) = Inr ?request"
    by (rule parsing_parse)
  have h3: "truthy (getMember ?request ''tool'')"
    by (rule toolRequest_members)
  have h4: "getMember (getMember ?request ''tool'') ''name'' = JStr ''agentforce_get_status''"
    by (rule toolRequest_members)
  have h6: "truthy (getMember (getMember ?request ''tool'') ''args'')"
    by (simp add: toolRequest_members clientArgs_def)
  have a: "getMember (getMember ?request ''tool'') ''args'' = clientArgs"
    by (rule toolRequest_members)
  have d: "dispatch ?env (JStr ''agentforce_get_status'') clientArgs
      = ([ConsoleLog [JStr ''Getting AgentForce status''],
          ConsoleLog [JStr ''Client ID: c1''],
          ConsoleLog [JStr ''No configuration file found, using defaults''],
          ConsoleLog [JStr ''Making request to: http://localhost:3000/mcp/call-tool''],
          ConsoleLog [JStr ''Request ID: 3f2c1d9e-7a4b-4c6d-8e5f-0a1b2c3d4e5f''],
          HttpPost (callToolRequest ''http://localhost:3000'' ''agentforce_get_status'' clientArgs
                      (JStr []) ''3f2c1d9e-7a4b-4c6d-8e5f-0a1b2c3d4e5f'' 10000),
          ConsoleError [JStr ''Status check error:'', JStr ''connect ECONNREFUSED 127.0.0.1:3000''],
          ConsoleError [JStr ''No response received from server'']],
         Returned ?result)"
    by (simp add: operation_defs example_defs)
  have d': "dispatch ?env (JStr ''agentforce_get_status'')
              (getMember (getMember ?request ''tool'') ''args'')
      = ([ConsoleLog [JStr ''Getting AgentForce status''],
          ConsoleLog [JStr ''Client ID: c1''],
          ConsoleLog [JStr ''No configuration file found, using defaults''],
          ConsoleLog [JStr ''Making request to: http://localhost:3000/mcp/call-tool''],
          ConsoleLog [JStr ''Request ID: 3f2c1d9e-7a4b-4c6d-8e5f-0a1b2c3d4e5f''],
          HttpPost (callToolRequest ''http://localhost:3000'' ''agentforce_get_status'' clientArgs
                      (JStr []) ''3f2c1d9e-7a4b-4c6d-8e5f-0a1b2c3d4e5f'' 10000),
          ConsoleError [JStr ''Status check error:'', JStr ''connect ECONNREFUSED 127.0.0.1:3000''],
          ConsoleError [JStr ''No response received from server'']],
         Returned ?result)"
    by (simp only: a d)
  have n: "numberToString ?env (Finite (of_nat (length (concat [statusInput])))) = ''66''"
    by (simp add: example_defs printNumber_def decimal.simps)
  have s: \<open>JSON_stringify ?env (JObj [(''result'', ?result)])
      = Some ''{"result":{"content":[{"type":"text","text":"Status check failed: connect ECONNREFUSED 127.0.0.1:3000"}],"error":{"code":"status_check_error","message":"connect ECONNREFUSED 127.0.0.1:3000"}}}''\<close>
    by (simp add: stringify_defs)
  have run: \<open>processStdinRequest ?env [statusInput] =
     ([ConsoleLog [JStr (''Received input: ''
                     @ numberToString ?env (Finite (of_nat (length (concat [statusInput]))))
                     @ '' characters'')],
       ConsoleLog [JStr (''Tool called: '' @ ''agentforce_get_status'')]]
      @ fst (dispatch ?env (JStr ''agentforce_get_status'')
              (getMember (getMember ?request ''tool'') ''args''))
      @ [ConsoleLog [JStr ''Sending response''],
         StdoutWrite ''{"result":{"content":[{"type":"text","text":"Status check failed: connect ECONNREFUSED 127.0.0.1:3000"}],"error":{"code":"status_check_error","message":"connect ECONNREFUSED 127.0.0.1:3000"}}}''],
      Exited 0)\<close>
    by (rule dispatch_returned_trace [OF h1 h2 h3 h4 h6 _ s]) (simp only: d' fst_conv)
  show ?thesis
    unfolding run n d' d fst_conv snd_conv
    by (simp add: output_simps line_def)
qed

subsection \<open>C2: a successful call\<close>

text \<open>
  C2 says that every operation returns the \<^verbatim>\<open>result\<close> of a 2xx response
  unmodified, and that in the scenario the output of the process is the response text.
  Four operations do return \<^verbatim>\<open>response.data.result\<close> as it is. The process,
  however, sends its \<^verbatim>\<open>console.log\<close> lines to standard output as well, so that the
  response text is the last of eleven texts there. The message operation is left out
  below: alone among the five it reads
  \<^verbatim>\<open>response.data.result.content[0].text.length\<close> for a console line inside its
  \<^verbatim>\<open>try\<close> block, and when that read throws it returns its error result instead of
  the payload.

  C2, as amended: for the operations \<^verbatim>\<open>agentforce_authenticate\<close>,
  \<^verbatim>\<open>agentforce_create_session\<close>, \<^verbatim>\<open>agentforce_get_status\<close> and
  \<^verbatim>\<open>agentforce_reset\<close>, when the backend responds with a 2xx status and a body
  other than \<^verbatim>\<open>null\<close>, the operation returns the \<^verbatim>\<open>result\<close> of the body
  unmodified. In particular, for the input
  \<^verbatim>\<open>{"tool":{"name":"agentforce_get_status","args":{"clientId":"c1"}}}\<close> and the
  backend reply \<^verbatim>\<open>{"result":{"content":[{"type":"text","text":"ok"}]}}\<close>, on a
  machine whose configuration has a server address, the process, started without the
  argument \<^verbatim>\<open>configure\<close>, calls \<^verbatim>\<open>process.stdout.write\<close> once, with
  \<^verbatim>\<open>{"result":{"content":[{"type":"text","text":"ok"}]}}\<close>, and exits with code 0;
  on standard output that text comes last, after the console lines of
  \<^verbatim>\<open>setupLogging\<close>, the handler and the operation.
\<close>

theorem success_returns_result:
  \<open>(\<forall>name req data.
       name \<in> {''agentforce_authenticate'', ''agentforce_create_session'',
                ''agentforce_get_status'', ''agentforce_reset''}
       \<and> HttpPost req \<in> set (fst (dispatch env (JStr name) args))
       \<and> axiosPost env req = Inr data \<and> \<not> nullish data
       \<longrightarrow> snd (dispatch env (JStr name) args) = Returned (getMember data ''result''))
   \<and> (''configure'' \<notin> set argv
       \<and> jsonParse env (units ''{"tool":{"name":"agentforce_get_status","args":{"clientId":"c1"}}}'')
         = Inr (JObj [(''tool'', JObj [(''name'', JStr ''agentforce_get_status''),
                                        (''args'', JObj [(''clientId'', JStr ''c1'')])])])
       \<and> (\<forall>req. axiosPost env req
              = Inr (JObj [(''result'', JObj [(''content'', JArr [JObj [(''type'', JStr ''text''),
                                                                        (''text'', JStr ''ok'')]])])]))
       \<and> snd (loadConfig env) = Returned config \<and> \<not> nullish config
       \<and> renders env (getMember config ''serverUrl'')
       \<longrightarrow> direct_writes (fst (main env argv
               [units ''{"tool":{"name":"agentforce_get_status","args":{"clientId":"c1"}}}'']))
           = [''{"result":{"content":[{"type":"text","text":"ok"}]}}'']
         \<and> standard_output env (fst (main env argv
               [units ''{"tool":{"name":"agentforce_get_status","args":{"clientId":"c1"}}}'']))
           = standard_output env (fst (setupLogging env))
             @ [line (''Received input: '' @ numberToString env (Finite 66) @ '' characters''),
                line ''Tool called: agentforce_get_status'']
             @ standard_output env
                 (fst (dispatch env (JStr ''agentforce_get_status'') (JObj [(''clientId'', JStr ''c1'')])))
             @ [line ''Sending response'',
                ''{"result":{"content":[{"type":"text","text":"ok"}]}}'']
         \<and> snd (main env argv
               [units ''{"tool":{"name":"agentforce_get_status","args":{"clientId":"c1"}}}'']) = Exited 0)\<close>
proof -
  have p1: "\<forall>name req data.
       name \<in> {''agentforce_authenticate'', ''agentforce_create_session'',
                ''agentforce_get_status'', ''agentforce_reset''}
       \<and> HttpPost req \<in> set (fst (dispatch env (JStr name) args))
       \<and> axiosPost env req = Inr data \<and> \<not> nullish data
       \<longrightarrow> snd (dispatch env (JStr name) args) = Returned (getMember data ''result'')"
  proof (intro allI impI)
    fix name req data
    assume a: "name \<in> {''agentforce_authenticate'', ''agentforce_create_session'',
                ''agentforce_get_status'', ''agentforce_reset''}
       \<and> HttpPost req \<in> set (fst (dispatch env (JStr name) args))
       \<and> axiosPost env req = Inr data \<and> \<not> nullish data"
    from a have 1: "name \<in> {''agentforce_authenticate'', ''agentforce_create_session'',
                ''agentforce_get_status'', ''agentforce_reset''}"
      by (rule conjunct1)
    from a have 2: "HttpPost req \<in> set (fst (dispatch env (JStr name) args))"
      by (rule conjunct1 [OF conjunct2])
    from a have 3: "axiosPost env req = Inr data"
      by (rule conjunct1 [OF conjunct2 [OF conjunct2]])
    from a have 4: "\<not> nullish data"
      by (rule conjunct2 [OF conjunct2 [OF conjunct2]])
    from 1 2 3 4 show "snd (dispatch env (JStr name) args) = Returned (getMember data ''result'')"
      by (rule simple_operation_result)
  qed
  have p3: \<open>''configure'' \<notin> set argv
       \<and> jsonParse env (units ''{"tool":{"name":"agentforce_get_status","args":{"clientId":"c1"}}}'')
         = Inr (JObj [(''tool'', JObj [(''name'', JStr ''agentforce_get_status''),
                                        (''args'', JObj [(''clientId'', JStr ''c1'')])])])
       \<and> (\<forall>req. axiosPost env req
              = Inr (JObj [(''result'', JObj [(''content'', JArr [JObj [(''type'', JStr ''text''),
                                                                        (''text'', JStr ''ok'')]])])]))
       \<and> snd (loadConfig env) = Returned config \<and> \<not> nullish config
       \<and> renders env (getMember config ''serverUrl'')
       \<longrightarrow> direct_writes (fst (main env argv
               [units ''{"tool":{"name":"agentforce_get_status","args":{"clientId":"c1"}}}'']))
           = [''{"result":{"content":[{"type":"text","text":"ok"}]}}'']
         \<and> standard_output env (fst (main env argv
               [units ''{"tool":{"name":"agentforce_get_status","args":{"clientId":"c1"}}}'']))
           = standard_output env (fst (setupLogging env))
             @ [line (''Received input: '' @ numberToString env (Finite 66) @ '' characters''),
                line ''Tool called: agentforce_get_status'']
             @ standard_output env
                 (fst (dispatch env (JStr ''agentforce_get_status'') (JObj [(''clientId'', JStr ''c1'')])))
             @ [line ''Sending response'',
                ''{"result":{"content":[{"type":"text","text":"ok"}]}}'']
         \<and> snd (main env argv
               [units ''{"tool":{"name":"agentforce_get_status","args":{"clientId":"c1"}}}'']) = Exited 0\<close>
  proof (rule impI)
    assume a: \<open>''configure'' \<notin> set argv
       \<and> jsonParse env (units ''{"tool":{"name":"agentforce_get_status","args":{"clientId":"c1"}}}'')
         = Inr (JObj [(''tool'', JObj [(''name'', JStr ''agentforce_get_status''),
                                        (''args'', JObj [(''clientId'', JStr ''c1'')])])])
       \<and> (\<forall>req. axiosPost env req
              = Inr (JObj [(''result'', JObj [(''content'', JArr [JObj [(''type'', JStr ''text''),
                                                                        (''text'', JStr ''ok'')]])])]))
       \<and> snd (loadConfig env) = Returned config \<and> \<not> nullish config
       \<and> renders env (getMember config ''serverUrl'')\<close>
    have s: \<open>statusInput = units ''{"tool":{"name":"agentforce_get_status","args":{"clientId":"c1"}}}''\<close>
      by (rule statusInput_def)
    have r: "toolRequest (JStr ''agentforce_get_status'') (JObj [(''clientId'', JStr ''c1'')])
        = JObj [(''tool'', JObj [(''name'', JStr ''agentforce_get_status''),
                                          (''args'', JObj [(''clientId'', JStr ''c1'')])])]"
      by (rule toolRequest_def)
    have o: "okReply = JObj [(''result'', JObj [(''content'', JArr [JObj [(''type'', JStr ''text''),
                                                                          (''text'', JStr ''ok'')]])])]"
      by (rule okReply_def)
    from a have 0: "''configure'' \<notin> set argv"
      by (rule conjunct1)
    from a have 1: "jsonParse env statusInput
               = Inr (toolRequest (JStr ''agentforce_get_status'') (JObj [(''clientId'', JStr ''c1'')]))"
      unfolding s r by (rule conjunct1 [OF conjunct2])
    from a have 2: "\<forall>req. axiosPost env req = Inr okReply"
      unfolding o by (rule conjunct1 [OF conjunct2 [OF conjunct2]])
    from a have 3: "snd (loadConfig env) = Returned config"
      by (rule conjunct1 [OF conjunct2 [OF conjunct2 [OF conjunct2]]])
    from a have 4: "\<not> nullish config"
      by (rule conjunct1 [OF conjunct2 [OF conjunct2 [OF conjunct2 [OF conjunct2]]]])
    from a have 5: "renders env (getMember config ''serverUrl'')"
      by (rule conjunct2 [OF conjunct2 [OF conjunct2 [OF conjunct2 [OF conjunct2]]]])
    from status_scenario_run [OF 1 2 3 4 5]
    obtain tr where tr:
        "dispatch env (JStr ''agentforce_get_status'') (JObj [(''clientId'', JStr ''c1'')])
           = (tr, Returned (getMember okReply ''result''))"
        "direct_writes tr = []"
        \<open>processStdinRequest env [statusInput]
           = ([ConsoleLog [JStr (''Received input: '' @ numberToString env (Finite 66)
                                 @ '' characters'')],
               ConsoleLog [JStr ''Tool called: agentforce_get_status'']]
              @ tr
              @ [ConsoleLog [JStr ''Sending response''],
                 StdoutWrite ''{"result":{"content":[{"type":"text","text":"ok"}]}}''],
              Exited 0)\<close>
      by blast
    have q: "direct_writes (fst (setupLogging env)) = []"
      by (simp add: setupLogging_run trace_simps)
    show \<open>direct_writes (fst (main env argv
               [units ''{"tool":{"name":"agentforce_get_status","args":{"clientId":"c1"}}}'']))
           = [''{"result":{"content":[{"type":"text","text":"ok"}]}}'']
         \<and> standard_output env (fst (main env argv
               [units ''{"tool":{"name":"agentforce_get_status","args":{"clientId":"c1"}}}'']))
           = standard_output env (fst (setupLogging env))
             @ [line (''Received input: '' @ numberToString env (Finite 66) @ '' characters''),
                line ''Tool called: agentforce_get_status'']
             @ standard_output env
                 (fst (dispatch env (JStr ''agentforce_get_status'') (JObj [(''clientId'', JStr ''c1'')])))
             @ [line ''Sending response'',
                ''{"result":{"content":[{"type":"text","text":"ok"}]}}'']
         \<and> snd (main env argv
               [units ''{"tool":{"name":"agentforce_get_status","args":{"clientId":"c1"}}}'']) = Exited 0\<close>
      unfolding s [symmetric] main_run [OF 0] tr(1,3) fst_conv snd_conv
      using tr(2) q by (simp add: trace_simps output_simps)
  qed
  show ?thesis
    by (rule conjI, rule p1, rule p3)
qed

text \<open>
  The scenario on the example machine, which has no configuration file and so takes the
  default server address: eleven texts reach standard output.
\<close>

theorem success_returns_result_witness:
  \<open>HttpPost (callToolRequest ''http://localhost:3000'' ''agentforce_get_status'' clientArgs
               (JStr []) ''3f2c1d9e-7a4b-4c6d-8e5f-0a1b2c3d4e5f'' 10000)
     \<in> set (fst (dispatch
           (answering okReply (parsing statusInput (toolRequest (JStr ''agentforce_get_status'') clientArgs)))
           (JStr ''agentforce_get_status'') clientArgs))
   \<and> snd (dispatch
           (answering okReply (parsing statusInput (toolRequest (JStr ''agentforce_get_status'') clientArgs)))
           (JStr ''agentforce_get_status'') clientArgs) = Returned (getMember okReply ''result'')
   \<and> ''configure'' \<notin> set ([] :: string list)
   \<and> direct_writes (fst (main
           (answering okReply (parsing statusInput (toolRequest (JStr ''agentforce_get_status'') clientArgs)))
           [] [units ''{"tool":{"name":"agentforce_get_status","args":{"clientId":"c1"}}}'']))
       = [''{"result":{"content":[{"type":"text","text":"ok"}]}}'']
   \<and> standard_output
         (answering okReply (parsing statusInput (toolRequest (JStr ''agentforce_get_status'') clientArgs)))
         (fst (main
           (answering okReply (parsing statusInput (toolRequest (JStr ''agentforce_get_status'') clientArgs)))
           [] [units ''{"tool":{"name":"agentforce_get_status","args":{"clientId":"c1"}}}'']))
       = [line ''Logging initialized to /home/user/.agentforce-reliable-client/logs/client-2023-11-14T22-13-20-000Z.log'',
          line ''Received input: 66 characters'',
          line ''Tool called: agentforce_get_status'',
          line ''Getting AgentForce status'',
          line ''Client ID: c1'',
          line ''No configuration file found, using defaults'',
          line ''Making request to: http://localhost:3000/mcp/call-tool'',
          line ''Request ID: 3f2c1d9e-7a4b-4c6d-8e5f-0a1b2c3d4e5f'',
          line ''Status check successful'',
          line ''Sending response'',
          ''{"result":{"content":[{"type":"text","text":"ok"}]}}'']
   \<and> snd (main
           (answering okReply (parsing statusInput (toolRequest (JStr ''agentforce_get_status'') clientArgs)))
           [] [units ''{"tool":{"name":"agentforce_get_status","args":{"clientId":"c1"}}}'']) = Exited 0\<close>
proof -
  let ?env = "answering okReply (parsing statusInput (toolRequest (JStr ''agentforce_get_status'') clientArgs))"
  let ?req = "callToolRequest ''http://localhost:3000'' ''agentforce_get_status'' clientArgs
               (JStr []) ''3f2c1d9e-7a4b-4c6d-8e5f-0a1b2c3d4e5f'' 10000"
  let ?input = \<open>units ''{"tool":{"name":"agentforce_get_status","args":{"clientId":"c1"}}}''\<close>
  have n: "''agentforce_get_status'' \<in> {''agentforce_authenticate'', ''agentforce_create_session'',
                ''agentforce_get_status'', ''agentforce_reset''}"
    by simp
  have d: "dispatch ?env (JStr ''agentforce_get_status'') clientArgs
      = ([ConsoleLog [JStr ''Getting AgentForce status''],
          ConsoleLog [JStr ''Client ID: c1''],
          ConsoleLog [JStr ''No configuration file found, using defaults''],
          ConsoleLog [JStr ''Making request to: http://localhost:3000/mcp/call-tool''],
          ConsoleLog [JStr ''Request ID: 3f2c1d9e-7a4b-4c6d-8e5f-0a1b2c3d4e5f''],
          HttpPost ?req,
          ConsoleLog [JStr ''Status check successful'']],
         Returned (getMember okReply ''result''))"
    by (simp add: operation_defs example_defs)
  have w1: "HttpPost ?req \<in> set (fst (dispatch ?env (JStr ''agentforce_get_status'') clientArgs))"
    by (simp add: d)
  have w2: "axiosPost ?env ?req = Inr okReply"
    by (simp add: answering_def)
  have w3: "\<not> nullish okReply"
    by (simp add: okReply_def nullish_def)
  have s0: "''configure'' \<notin> set ([] :: string list)"
    by simp
  have s1: \<open>jsonParse ?env ?input
         = Inr (JObj [(''tool'', JObj [(''name'', JStr ''agentforce_get_status''),
                                        (''args'', JObj [(''clientId'', JStr ''c1'')])])])\<close>
    by (simp add: answering_def parsing_def statusInput_def toolRequest_def clientArgs_def)
  have s2: "\<forall>req. axiosPost ?env req
              = Inr (JObj [(''result'', JObj [(''content'', JArr [JObj [(''type'', JStr ''text''),
                                                                        (''text'', JStr ''ok'')]])])])"
    by (simp add: answering_def okReply_def)
  have s3: "snd (loadConfig ?env) = Returned (DEFAULT_CONFIG ?env)"
    by (simp add: loadConfig_def ensureConfigDir_def console_log_text comp_simps example_defs)
  have s4: "\<not> nullish (DEFAULT_CONFIG ?env)"
    by (simp add: DEFAULT_CONFIG_def nullish_def)
  have s5: "renders ?env (getMember (DEFAULT_CONFIG ?env) ''serverUrl'')"
    by (simp add: DEFAULT_CONFIG_def renders_def)
  have k: "numberToString ?env (Finite 66) = ''66''"
    by (simp add: example_defs printNumber_def decimal.simps)
  have g: "standard_output ?env (fst (setupLogging ?env))
      = [line ''Logging initialized to /home/user/.agentforce-reliable-client/logs/client-2023-11-14T22-13-20-000Z.log'']"
    by (simp add: setupLogging_output example_defs)
  have c: "clientArgs = JObj [(''clientId'', JStr ''c1'')]"
    by (rule clientArgs_def)
  note t = success_returns_result [of ?env clientArgs "[]" "DEFAULT_CONFIG ?env"]
  have c1: "snd (dispatch ?env (JStr ''agentforce_get_status'') clientArgs)
      = Returned (getMember okReply ''result'')"
    by (rule t [THEN conjunct1, rule_format, OF conjI [OF n conjI [OF w1 conjI [OF w2 w3]]]])
  have c3: \<open>direct_writes (fst (main ?env [] [?input]))
           = [''{"result":{"content":[{"type":"text","text":"ok"}]}}'']
         \<and> standard_output ?env (fst (main ?env [] [?input]))
           = standard_output ?env (fst (setupLogging ?env))
             @ [line (''Received input: '' @ numberToString ?env (Finite 66) @ '' characters''),
                line ''Tool called: agentforce_get_status'']
             @ standard_output ?env
                 (fst (dispatch ?env (JStr ''agentforce_get_status'') (JObj [(''clientId'', JStr ''c1'')])))
             @ [line ''Sending response'',
                ''{"result":{"content":[{"type":"text","text":"ok"}]}}'']
         \<and> snd (main ?env [] [?input]) = Exited 0\<close>
    by (rule t [THEN conjunct2, rule_format,
                OF conjI [OF s0 conjI [OF s1 conjI [OF s2 conjI [OF s3 conjI [OF s4 s5]]]]]])
  have o: \<open>standard_output ?env (fst (main ?env [] [?input]))
       = [line ''Logging initialized to /home/user/.agentforce-reliable-client/logs/client-2023-11-14T22-13-20-000Z.log'',
          line ''Received input: 66 characters'',
          line ''Tool called: agentforce_get_status'',
          line ''Getting AgentForce status'',
          line ''Client ID: c1'',
          line ''No configuration file found, using defaults'',
          line ''Making request to: http://localhost:3000/mcp/call-tool'',
          line ''Request ID: 3f2c1d9e-7a4b-4c6d-8e5f-0a1b2c3d4e5f'',
          line ''Status check successful'',
          line ''Sending response'',
          ''{"result":{"content":[{"type":"text","text":"ok"}]}}'']\<close>
    unfolding c3 [THEN conjunct2, THEN conjunct1] g k c [symmetric] d fst_conv
    by (simp add: output_simps)
  show ?thesis
    by (rule conjI, rule w1, rule conjI, rule c1, rule conjI, rule s0,
        rule conjI, rule c3 [THEN conjunct1], rule conjI, rule o,
        rule c3 [THEN conjunct2, THEN conjunct2])
qed

text \<open>
  The claim fails in both parts. In the scenario, on the example machine (the input
  \<open>statusInput\<close> is the text of the scenario), the text on standard output is not the
  response alone: ten console lines stand before it. And the
  message operation, answered with status 2xx and the body
  \<^verbatim>\<open>{"result":{"content":[]}}\<close>, returns its error result, not the
  \<^verbatim>\<open>result\<close> of the body.
\<close>

theorem scenario_output_counterexample:
  \<open>standard_output
      (answering okReply (parsing statusInput (toolRequest (JStr ''agentforce_get_status'') clientArgs)))
      (fst (main
        (answering okReply (parsing statusInput (toolRequest (JStr ''agentforce_get_status'') clientArgs)))
        [] [statusInput]))
     = [''Logging initialized to /home/user/.agentforce-reliable-client/logs/client-2023-11-14T22-13-20-000Z.log'' @ [CHR 0x0A],
        ''Received input: 66 characters'' @ [CHR 0x0A],
        ''Tool called: agentforce_get_status'' @ [CHR 0x0A],
        ''Getting AgentForce status'' @ [CHR 0x0A],
        ''Client ID: c1'' @ [CHR 0x0A],
        ''No configuration file found, using defaults'' @ [CHR 0x0A],
        ''Making request to: http://localhost:3000/mcp/call-tool'' @ [CHR 0x0A],
        ''Request ID: 3f2c1d9e-7a4b-4c6d-8e5f-0a1b2c3d4e5f'' @ [CHR 0x0A],
        ''Status check successful'' @ [CHR 0x0A],
        ''Sending response'' @ [CHR 0x0A],
        ''{"result":{"content":[{"type":"text","text":"ok"}]}}'']
   \<and> standard_output
      (answering okReply (parsing statusInput (toolRequest (JStr ''agentforce_get_status'') clientArgs)))
      (fst (main
        (answering okReply (parsing statusInput (toolRequest (JStr ''agentforce_get_status'') clientArgs)))
        [] [statusInput]))
     \<noteq> [''{"result":{"content":[{"type":"text","text":"ok"}]}}'']
   \<and> posts (fst (dispatch (answering emptyReply exampleEnv) (JStr ''agentforce_send_message'') messageArgs))
     = [callToolRequest ''http://localhost:3000'' ''agentforce_send_message'' messageArgs
          (JStr []) ''3f2c1d9e-7a4b-4c6d-8e5f-0a1b2c3d4e5f'' 300000]
   \<and> axiosPost (answering emptyReply exampleEnv)
        (callToolRequest ''http://localhost:3000'' ''agentforce_send_message'' messageArgs
          (JStr []) ''3f2c1d9e-7a4b-4c6d-8e5f-0a1b2c3d4e5f'' 300000) = Inr emptyReply
   \<and> getMember emptyReply ''result'' = JObj [(''content'', JArr [])]
   \<and> snd (dispatch (answering emptyReply exampleEnv) (JStr ''agentforce_send_message'') messageArgs)
       = Returned
           (JObj [(''content'',
                     JArr [JObj [(''type'', JStr ''text''),
                                 (''text'', JStr (''Message sending failed: Cannot read properties of undefined (reading ''
                                                  @ [CHR 0x27] @ ''text'' @ [CHR 0x27] @ '')''))]]),
                  (''error'', JObj [(''code'', JStr ''message_sending_error''),
                                    (''message'', JStr (''Cannot read properties of undefined (reading ''
                                                  @ [CHR 0x27] @ ''text'' @ [CHR 0x27] @ '')''))])])\<close>
proof -
  let ?env = "answering okReply (parsing statusInput (toolRequest (JStr ''agentforce_get_status'') clientArgs))"
  let ?request = "toolRequest (JStr ''agentforce_get_status'') clientArgs"
  let ?req = "callToolRequest ''http://localhost:3000'' ''agentforce_get_status'' clientArgs
               (JStr []) ''3f2c1d9e-7a4b-4c6d-8e5f-0a1b2c3d4e5f'' 10000"
  have h0: "''configure'' \<notin> set ([] :: string list)"
    by simp
  have h1: "\<not> list_all isWhiteSpace (concat [statusInput])"
    by (simp add: statusInput_def isWhiteSpace_def)
  have h2: "jsonParse ?env (concat [statusInput]) = Inr ?request"
    by (simp only: answering_parse parsing_parse)
  have h3: "truthy (getMember ?request ''tool'')"
    by (rule toolRequest_members)
  have h4: "getMember (getMember ?request ''tool'') ''name'' = JStr ''agentforce_get_status''"
    by (rule toolRequest_members)
  have h6: "truthy (getMember (getMember ?request ''tool'') ''args'')"
    by (simp add: toolRequest_members clientArgs_def)
  have a: "getMember (getMember ?request ''tool'') ''args'' = clientArgs"
    by (rule toolRequest_members)
  have d: "dispatch ?env (JStr ''agentforce_get_status'') clientArgs
      = ([ConsoleLog [JStr ''Getting AgentForce status''],
          ConsoleLog [JStr ''Client ID: c1''],
          ConsoleLog [JStr ''No configuration file found, using defaults''],
          ConsoleLog [JStr ''Making request to: http://localhost:3000/mcp/call-tool''],
          ConsoleLog [JStr ''Request ID: 3f2c1d9e-7a4b-4c6d-8e5f-0a1b2c3d4e5f''],
          HttpPost ?req,
          ConsoleLog [JStr ''Status check successful'']],
         Returned (getMember okReply ''result''))"
    by (simp add: operation_defs example_defs)
  have d': "dispatch ?env (JStr ''agentforce_get_status'')
              (getMember (getMember ?request ''tool'') ''args'')
      = ([ConsoleLog [JStr ''Getting AgentForce status''],
          ConsoleLog [JStr ''Client ID: c1''],
          ConsoleLog [JStr ''No configuration file found, using defaults''],
          ConsoleLog [JStr ''Making request to: http://localhost:3000/mcp/call-tool''],
          ConsoleLog [JStr ''Request ID: 3f2c1d9e-7a4b-4c6d-8e5f-0a1b2c3d4e5f''],
          HttpPost ?req,
          ConsoleLog [JStr ''Status check successful'']],
         Returned (getMember okReply ''result''))"
    by (simp only: a d)
  have n: "numberToString ?env (Finite (of_nat (length (concat [statusInput])))) = ''66''"
    by (simp add: example_defs printNumber_def decimal.simps)
  have j: \<open>JSON_stringify ?env (JObj [(''result'', getMember okReply ''result'')])
      = Some ''{"result":{"content":[{"type":"text","text":"ok"}]}}''\<close>
    by (simp add: stringify_defs okReply_def)
  have g: "fst (setupLogging ?env)
      = [ConsoleLog [JStr ''Logging initialized to /home/user/.agentforce-reliable-client/logs/client-2023-11-14T22-13-20-000Z.log'']]"
    by (simp add: setupLogging_run example_defs)
  have o: \<open>standard_output ?env (fst (main ?env [] [statusInput]))
     = [''Logging initialized to /home/user/.agentforce-reliable-client/logs/client-2023-11-14T22-13-20-000Z.log'' @ [CHR 0x0A],
        ''Received input: 66 characters'' @ [CHR 0x0A],
        ''Tool called: agentforce_get_status'' @ [CHR 0x0A],
        ''Getting AgentForce status'' @ [CHR 0x0A],
        ''Client ID: c1'' @ [CHR 0x0A],
        ''No configuration file found, using defaults'' @ [CHR 0x0A],
        ''Making request to: http://localhost:3000/mcp/call-tool'' @ [CHR 0x0A],
        ''Request ID: 3f2c1d9e-7a4b-4c6d-8e5f-0a1b2c3d4e5f'' @ [CHR 0x0A],
        ''Status check successful'' @ [CHR 0x0A],
        ''Sending response'' @ [CHR 0x0A],
        ''{"result":{"content":[{"type":"text","text":"ok"}]}}'']\<close>
    unfolding main_run [OF h0] dispatch_returned_trace [OF h1 h2 h3 h4 h6 d' j] g n fst_conv
    by (simp add: output_simps line_def)
  have o': \<open>standard_output ?env (fst (main ?env [] [statusInput]))
     \<noteq> [''{"result":{"content":[{"type":"text","text":"ok"}]}}'']\<close>
    unfolding o by simp
  have m: "posts (fst (dispatch (answering emptyReply exampleEnv) (JStr ''agentforce_send_message'') messageArgs))
     = [callToolRequest ''http://localhost:3000'' ''agentforce_send_message'' messageArgs
          (JStr []) ''3f2c1d9e-7a4b-4c6d-8e5f-0a1b2c3d4e5f'' 300000]
   \<and> axiosPost (answering emptyReply exampleEnv)
        (callToolRequest ''http://localhost:3000'' ''agentforce_send_message'' messageArgs
          (JStr []) ''3f2c1d9e-7a4b-4c6d-8e5f-0a1b2c3d4e5f'' 300000) = Inr emptyReply
   \<and> getMember emptyReply ''result'' = JObj [(''content'', JArr [])]
   \<and> snd (dispatch (answering emptyReply exampleEnv) (JStr ''agentforce_send_message'') messageArgs)
       = Returned
           (JObj [(''content'',
                     JArr [JObj [(''type'', JStr ''text''),
                                 (''text'', JStr (''Message sending failed: Cannot read properties of undefined (reading ''
                                                  @ [CHR 0x27] @ ''text'' @ [CHR 0x27] @ '')''))]]),
                  (''error'', JObj [(''code'', JStr ''message_sending_error''),
                                    (''message'', JStr (''Cannot read properties of undefined (reading ''
                                                  @ [CHR 0x27] @ ''text'' @ [CHR 0x27] @ '')''))])])"
    by (simp add: operation_defs example_defs posts_def)
  show ?thesis
    by (rule conjI, rule o, rule conjI, rule o', rule m)
qed

subsection \<open>C3: a failed call\<close>

text \<open>
  C3. For every operation and every failure of its outbound call (connection refused,
  time-out elapsed, non-2xx response), the operation does not raise: it returns a value
  with exactly one content entry, whose text is the label of the operation followed by
  \<^verbatim>\<open> failed: \<close> and the message of the failure, and an error object with the fixed
  code of the operation and the message of the failure.

  The five catch blocks are written to do so, and each ends under the comment
  \<^verbatim>\<open>Return a properly formatted error result\<close>; lemma \<open>failure_result_run\<close> shows
  that they do whenever the console lines of the catch block can be written. But the line
  \<^verbatim>\<open>console.error('Response data:', error.response.data)\<close> comes first, and the
  \<^verbatim>\<open>console.error\<close> that \<^verbatim>\<open>setupLogging\<close> has installed joins its arguments
  into a log line: for a response body that cannot be converted to a string the join
  throws (lemma \<open>logFailure_raises\<close>), inside the catch block, and the fault leaves the
  operation. The code misses the
  claim there.

  The theorem runs the code at such an input: the status request on the example machine,
  whose server answers with status 500 and the body \<^verbatim>\<open>{"toString":null}\<close>. The call
  is posted and rejected, the operation throws a TypeError instead of returning the
  \<^verbatim>\<open>status_check_error\<close> result, and the listener answers with the
  \<^verbatim>\<open>processing_error\<close> response and exit code 1.
\<close>

theorem failed_call_raises:
  \<open>logMirror (failing (JObj [(''toString'', JNull)])
                (parsing statusInput (toolRequest (JStr ''agentforce_get_status'') clientArgs)))
   \<and> posts (fst (dispatch (failing (JObj [(''toString'', JNull)])
                             (parsing statusInput (toolRequest (JStr ''agentforce_get_status'') clientArgs)))
                   (JStr ''agentforce_get_status'') clientArgs))
       = [callToolRequest ''http://localhost:3000'' ''agentforce_get_status'' clientArgs
            (JStr []) ''3f2c1d9e-7a4b-4c6d-8e5f-0a1b2c3d4e5f'' 10000]
   \<and> axiosPost (failing (JObj [(''toString'', JNull)])
                  (parsing statusInput (toolRequest (JStr ''agentforce_get_status'') clientArgs)))
        (callToolRequest ''http://localhost:3000'' ''agentforce_get_status'' clientArgs
            (JStr []) ''3f2c1d9e-7a4b-4c6d-8e5f-0a1b2c3d4e5f'' 10000)
       = Inl (Error (Some (Responded 500 (JObj [(''toString'', JNull)])))
                ''Request failed with status code 500'' ''AxiosError'')
   \<and> snd (dispatch (failing (JObj [(''toString'', JNull)])
                      (parsing statusInput (toolRequest (JStr ''agentforce_get_status'') clientArgs)))
             (JStr ''agentforce_get_status'') clientArgs)
       = Raised (Error None ''Cannot convert object to primitive value'' ''TypeError'')
   \<and> direct_writes (fst (processStdinRequest
          (failing (JObj [(''toString'', JNull)])
             (parsing statusInput (toolRequest (JStr ''agentforce_get_status'') clientArgs)))
          [statusInput]))
       = [''{"result":{"content":[{"type":"text","text":"Error: Cannot convert object to primitive value"}],"error":{"code":"processing_error","message":"Cannot convert object to primitive value"}}}'']
   \<and> snd (processStdinRequest
          (failing (JObj [(''toString'', JNull)])
             (parsing statusInput (toolRequest (JStr ''agentforce_get_status'') clientArgs)))
          [statusInput]) = Exited 1\<close>
proof -
  let ?env = "failing (JObj [(''toString'', JNull)])
                (parsing statusInput (toolRequest (JStr ''agentforce_get_status'') clientArgs))"
  let ?request = "toolRequest (JStr ''agentforce_get_status'') clientArgs"
  let ?e = "Error None ''Cannot convert object to primitive value'' ''TypeError''"
  have h1: "\<not> list_all isWhiteSpace (concat [statusInput])"
    by (simp add: statusInput_def isWhiteSpace_def)
  have h2: "jsonParse ?env (concat [statusInput]) = Inr ?request"
    by (simp only: failing_parse parsing_parse)
  have h3: "truthy (getMember ?request ''tool'')"
    by (rule toolRequest_members)
  have h4: "getMember (getMember ?request ''tool'') ''name'' = JStr ''agentforce_get_status''"
    by (rule toolRequest_members)
  have h6: "truthy (getMember (getMember ?request ''tool'') ''args'')"
    by (simp add: toolRequest_members clientArgs_def)
  have a: "getMember (getMember ?request ''tool'') ''args'' = clientArgs"
    by (rule toolRequest_members)
  have m: "logMirror ?env"
    by (simp add: example_defs)
  have p: "posts (fst (dispatch ?env (JStr ''agentforce_get_status'') clientArgs))
       = [callToolRequest ''http://localhost:3000'' ''agentforce_get_status'' clientArgs
            (JStr []) ''3f2c1d9e-7a4b-4c6d-8e5f-0a1b2c3d4e5f'' 10000]"
    by (simp add: operation_defs example_defs posts_def)
  have x: "axiosPost ?env
        (callToolRequest ''http://localhost:3000'' ''agentforce_get_status'' clientArgs
            (JStr []) ''3f2c1d9e-7a4b-4c6d-8e5f-0a1b2c3d4e5f'' 10000)
       = Inl (Error (Some (Responded 500 (JObj [(''toString'', JNull)])))
                ''Request failed with status code 500'' ''AxiosError'')"
    by (simp add: failing_def)
  have r: "snd (dispatch ?env (JStr ''agentforce_get_status'') clientArgs) = Raised ?e"
    by (simp add: operation_defs example_defs)
  obtain tr where d: "dispatch ?env (JStr ''agentforce_get_status'') clientArgs = (tr, Raised ?e)"
    using r by (cases "dispatch ?env (JStr ''agentforce_get_status'') clientArgs") simp
  have d': "dispatch ?env (JStr ''agentforce_get_status'')
              (getMember (getMember ?request ''tool'') ''args'') = (tr, Raised ?e)"
    by (simp only: a d)
  have known: "''agentforce_get_status'' \<in> set operationNames"
    by (simp add: operationNames_def)
  have quiet: "direct_writes tr = []"
    using dispatch_silent [OF known, of ?env clientArgs] d by simp
  have s: \<open>JSON_stringify ?env
             (errorResponse (''Error: '' @ message ?e) ''processing_error'' (message ?e))
      = Some ''{"result":{"content":[{"type":"text","text":"Error: Cannot convert object to primitive value"}],"error":{"code":"processing_error","message":"Cannot convert object to primitive value"}}}''\<close>
    by (simp add: stringify_defs)
  have w: \<open>direct_writes (fst (processStdinRequest ?env [statusInput]))
       = [''{"result":{"content":[{"type":"text","text":"Error: Cannot convert object to primitive value"}],"error":{"code":"processing_error","message":"Cannot convert object to primitive value"}}}'']
     \<and> snd (processStdinRequest ?env [statusInput]) = Exited 1\<close>
    using quiet
    by (simp add: dispatch_raised_trace [OF h1 h2 h3 h4 h6 d' s] trace_simps)
  show ?thesis
    using m p x r w by (intro conjI) (erule conjunct1 conjunct2 | assumption)+
qed

subsection \<open>C4: a missing tool or missing arguments\<close>

text \<open>
  C4 says that a request with \<^verbatim>\<open>tool\<close> but without \<^verbatim>\<open>tool.args\<close> is always
  answered with \<^verbatim>\<open>Missing args field\<close>. Between the two checks the listener
  evaluates \<^verbatim>\<open>`Tool called: ${name}`\<close>, and that template throws for a name that
  cannot be converted to a string (an object with a \<^verbatim>\<open>toString\<close> property, or an
  array holding one); the fault goes to the catch block of the listener.

  C4, as amended: for every parsed request, if the \<^verbatim>\<open>tool\<close> field is absent the
  output carries the error code \<^verbatim>\<open>invalid_request\<close> with the message
  \<^verbatim>\<open>Missing tool field\<close>; if \<^verbatim>\<open>tool\<close> is present and truthy,
  \<^verbatim>\<open>tool.args\<close> is absent and \<^verbatim>\<open>tool.name\<close> can be converted to a string
  (as every absent name, string, number and boolean can), the output carries
  \<^verbatim>\<open>invalid_request\<close> with the message \<^verbatim>\<open>Missing args field\<close>. In both
  cases the process exits with code 1 and no call is posted.
\<close>

theorem missing_field_responses:
  assumes "trim (concat chunks) \<noteq> []"
      and "jsonParse env (concat chunks) = Inr request"
  shows "(getMember request ''tool'' = JUndefined \<longrightarrow>
            map Some (direct_writes (fst (processStdinRequest env chunks)))
              = [JSON_stringify env
                   (errorResponse ''Error: Invalid request format - missing tool field''
                      ''invalid_request'' ''Missing tool field'')]
          \<and> snd (processStdinRequest env chunks) = Exited 1
          \<and> posts (fst (processStdinRequest env chunks)) = [])
       \<and> (truthy (getMember request ''tool'')
            \<and> getMember (getMember request ''tool'') ''args'' = JUndefined
            \<and> renders env (getMember (getMember request ''tool'') ''name'') \<longrightarrow>
            map Some (direct_writes (fst (processStdinRequest env chunks)))
              = [JSON_stringify env
                   (errorResponse ''Error: Invalid request format - missing args field''
                      ''invalid_request'' ''Missing args field'')]
          \<and> snd (processStdinRequest env chunks) = Exited 1
          \<and> posts (fst (processStdinRequest env chunks)) = [])"
proof (rule conjI; rule impI)
  have nb: "\<not> list_all isWhiteSpace (concat chunks)"
    using assms(1) by (simp add: trim_blank)
  {
    assume "getMember request ''tool'' = JUndefined"
    then have "\<not> truthy (getMember request ''tool'')" by simp
    from missing_tool_run [OF nb assms(2) this]
    show "map Some (direct_writes (fst (processStdinRequest env chunks)))
                = [JSON_stringify env
                     (errorResponse ''Error: Invalid request format - missing tool field''
                        ''invalid_request'' ''Missing tool field'')]
            \<and> snd (processStdinRequest env chunks) = Exited 1
            \<and> posts (fst (processStdinRequest env chunks)) = []" .
  next
    assume a: "truthy (getMember request ''tool'')
              \<and> getMember (getMember request ''tool'') ''args'' = JUndefined
              \<and> renders env (getMember (getMember request ''tool'') ''name'')"
    then have "\<not> truthy (getMember (getMember request ''tool'') ''args'')" by simp
    with a missing_args_run [OF nb assms(2)]
    show "map Some (direct_writes (fst (processStdinRequest env chunks)))
                = [JSON_stringify env
                     (errorResponse ''Error: Invalid request format - missing args field''
                        ''invalid_request'' ''Missing args field'')]
            \<and> snd (processStdinRequest env chunks) = Exited 1
            \<and> posts (fst (processStdinRequest env chunks)) = []" by blast
  }
qed

text \<open>
  A request without \<^verbatim>\<open>tool\<close>, and a reset request without \<^verbatim>\<open>args\<close>.
\<close>

theorem missing_field_responses_witness:
  "trim (concat [noToolInput]) \<noteq> []
   \<and> jsonParse (parsing noToolInput (JObj [(''jsonrpc'', JStr ''2.0'')])) (concat [noToolInput])
       = Inr (JObj [(''jsonrpc'', JStr ''2.0'')])
   \<and> getMember (JObj [(''jsonrpc'', JStr ''2.0'')]) ''tool'' = JUndefined
   \<and> map Some (direct_writes (fst (processStdinRequest
          (parsing noToolInput (JObj [(''jsonrpc'', JStr ''2.0'')])) [noToolInput])))
       = [JSON_stringify (parsing noToolInput (JObj [(''jsonrpc'', JStr ''2.0'')]))
            (errorResponse ''Error: Invalid request format - missing tool field''
               ''invalid_request'' ''Missing tool field'')]
   \<and> snd (processStdinRequest
          (parsing noToolInput (JObj [(''jsonrpc'', JStr ''2.0'')])) [noToolInput]) = Exited 1
   \<and> trim (concat [noArgsInput]) \<noteq> []
   \<and> jsonParse (parsing noArgsInput (JObj [(''tool'', JObj [(''name'', JStr ''agentforce_reset'')])]))
        (concat [noArgsInput])
       = Inr (JObj [(''tool'', JObj [(''name'', JStr ''agentforce_reset'')])])
   \<and> getMember (getMember (JObj [(''tool'', JObj [(''name'', JStr ''agentforce_reset'')])]) ''tool'')
        ''args'' = JUndefined
   \<and> map Some (direct_writes (fst (processStdinRequest
          (parsing noArgsInput (JObj [(''tool'', JObj [(''name'', JStr ''agentforce_reset'')])]))
          [noArgsInput])))
       = [JSON_stringify
            (parsing noArgsInput (JObj [(''tool'', JObj [(''name'', JStr ''agentforce_reset'')])]))
            (errorResponse ''Error: Invalid request format - missing args field''
               ''invalid_request'' ''Missing args field'')]
   \<and> snd (processStdinRequest
          (parsing noArgsInput (JObj [(''tool'', JObj [(''name'', JStr ''agentforce_reset'')])]))
          [noArgsInput]) = Exited 1"
proof -
  let ?r1 = "JObj [(''jsonrpc'', JStr ''2.0'')]"
  let ?r2 = "JObj [(''tool'', JObj [(''name'', JStr ''agentforce_reset'')])]"
  have a1: "trim (concat [noToolInput]) \<noteq> []"
    by (simp add: trim_blank noToolInput_def isWhiteSpace_def)
  have a2: "jsonParse (parsing noToolInput ?r1) (concat [noToolInput]) = Inr ?r1"
    by (rule parsing_parse)
  have a3: "getMember ?r1 ''tool'' = JUndefined"
    by simp
  have b1: "trim (concat [noArgsInput]) \<noteq> []"
    by (simp add: trim_blank noArgsInput_def isWhiteSpace_def)
  have b2: "jsonParse (parsing noArgsInput ?r2) (concat [noArgsInput]) = Inr ?r2"
    by (rule parsing_parse)
  have b3: "truthy (getMember ?r2 ''tool'')"
       "getMember (getMember ?r2 ''tool'') ''args'' = JUndefined"
       "renders (parsing noArgsInput ?r2) (getMember (getMember ?r2 ''tool'') ''name'')"
    by (simp_all add: renders_def)
  from missing_field_responses [OF a1 a2] missing_field_responses [OF b1 b2] a1 a2 a3 b1 b2 b3
  show ?thesis by simp
qed

text \<open>
  The claim fails for a request whose \<^verbatim>\<open>tool\<close> is present and whose
  \<^verbatim>\<open>tool.args\<close> is absent, when the name is an object with a \<^verbatim>\<open>toString\<close>
  property: the output carries the code \<^verbatim>\<open>processing_error\<close>.
\<close>

theorem missing_args_counterexample:
  \<open>getMember (getMember (JObj [(''tool'', JObj [(''name'', JObj [(''toString'', JNum (Finite 1))])])])
               ''tool'') ''args'' = JUndefined
   \<and> direct_writes (fst (processStdinRequest
          (parsing oddNameInput
             (JObj [(''tool'', JObj [(''name'', JObj [(''toString'', JNum (Finite 1))])])]))
          [oddNameInput]))
     = [''{"result":{"content":[{"type":"text","text":"Error: Cannot convert object to primitive value"}],"error":{"code":"processing_error","message":"Cannot convert object to primitive value"}}}'']
   \<and> snd (processStdinRequest
          (parsing oddNameInput
             (JObj [(''tool'', JObj [(''name'', JObj [(''toString'', JNum (Finite 1))])])]))
          [oddNameInput]) = Exited 1\<close>
proof -
  let ?request = "JObj [(''tool'', JObj [(''name'', JObj [(''toString'', JNum (Finite 1))])])]"
  let ?env = "parsing oddNameInput ?request"
  have h1: "\<not> list_all isWhiteSpace (concat [oddNameInput])"
    by (simp add: oddNameInput_def isWhiteSpace_def)
  have h2: "jsonParse ?env (concat [oddNameInput]) = Inr ?request"
    by (rule parsing_parse)
  have h3: "truthy (getMember ?request ''tool'')"
    by simp
  have h4: "\<not> renders ?env (getMember (getMember ?request ''tool'') ''name'')"
    by (simp add: renders_def)
  have c: "fst (conversionFault ?env) = ''Cannot convert object to primitive value''"
    by (simp add: parsing_def exampleEnv_def)
  have s: \<open>JSON_stringify ?env
       (errorResponse (''Error: '' @ ''Cannot convert object to primitive value'')
          ''processing_error'' ''Cannot convert object to primitive value'')
     = Some ''{"result":{"content":[{"type":"text","text":"Error: Cannot convert object to primitive value"}],"error":{"code":"processing_error","message":"Cannot convert object to primitive value"}}}''\<close>
    by (simp add: stringify_defs)
  from name_fault_run [OF h1 h2 h3 h4] s
  show ?thesis unfolding c by (simp add: map_Some_single)
qed

subsection \<open>C5: an unknown tool name\<close>

text \<open>
  C5. For every valid envelope (a \<^verbatim>\<open>tool\<close> with a string \<^verbatim>\<open>name\<close> and with
  \<^verbatim>\<open>args\<close>) whose name is not one of the five operation names, compared exactly, the
  output carries the error code \<^verbatim>\<open>unknown_tool\<close> with the message
  \<^verbatim>\<open>Unknown tool: \<close> followed by the name, the process exits with code 1, and no call is
  posted. The response is the only text passed to \<^verbatim>\<open>process.stdout.write\<close>; on
  standard output it follows the two console lines of the handler.
\<close>

theorem unknown_tool_response:
  assumes "trim (concat chunks) \<noteq> []"
      and "jsonParse env (concat chunks) = Inr request"
      and "truthy (getMember request ''tool'')"
      and "getMember (getMember request ''tool'') ''name'' = JStr name"
      and "name \<notin> set operationNames"
      and "truthy (getMember (getMember request ''tool'') ''args'')"
  shows "\<exists>s. JSON_stringify env
                (JObj [(''result'',
                        JObj [(''content'',
                               JArr [JObj [(''type'', JStr ''text''),
                                           (''text'', JStr (''Error: Unknown tool: '' @ name))]]),
                              (''error'',
                               JObj [(''code'', JStr ''unknown_tool''),
                                     (''message'', JStr (''Unknown tool: '' @ name))])])])
                = Some s
           \<and> direct_writes (fst (processStdinRequest env chunks)) = [s]
           \<and> standard_output env (fst (processStdinRequest env chunks))
               = [line (''Received input: ''
                        @ numberToString env (Finite (of_nat (length (concat chunks))))
                        @ '' characters''),
                  line (''Tool called: '' @ name),
                  s]
           \<and> snd (processStdinRequest env chunks) = Exited 1
           \<and> posts (fst (processStdinRequest env chunks)) = []"
proof -
  have nb: "\<not> list_all isWhiteSpace (concat chunks)"
    using assms(1) by (simp add: trim_blank)
  obtain s where s: "JSON_stringify env
      (errorResponse (''Error: Unknown tool: '' @ name) ''unknown_tool''
         (''Unknown tool: '' @ name)) = Some s"
    using response_stringified by blast
  have run: "processStdinRequest env chunks =
     ([ConsoleLog [JStr (''Received input: ''
                     @ numberToString env (Finite (of_nat (length (concat chunks))))
                     @ '' characters'')],
       ConsoleLog [JStr (''Tool called: '' @ name)],
       ConsoleError [JStr (''Error: Unknown tool: '' @ name)],
       StdoutWrite s], Exited 1)"
    using nb assms(2-6) s by (rule unknown_tool_trace)
  have "direct_writes (fst (processStdinRequest env chunks)) = [s]
      \<and> standard_output env (fst (processStdinRequest env chunks))
               = [line (''Received input: ''
                        @ numberToString env (Finite (of_nat (length (concat chunks))))
                        @ '' characters''),
                  line (''Tool called: '' @ name),
                  s]
      \<and> snd (processStdinRequest env chunks) = Exited 1
      \<and> posts (fst (processStdinRequest env chunks)) = []"
    by (simp add: run trace_simps output_simps)
  with s show ?thesis unfolding errorResponse_literal by blast
qed

text \<open>The scenario of the specification: the name \<^verbatim>\<open>bogus_tool\<close>.\<close>

theorem unknown_tool_response_witness:
  \<open>trim (concat [bogusInput]) \<noteq> []
   \<and> jsonParse (parsing bogusInput (toolRequest (JStr ''bogus_tool'') (JObj [])))
        (concat [bogusInput]) = Inr (toolRequest (JStr ''bogus_tool'') (JObj []))
   \<and> ''bogus_tool'' \<notin> set operationNames
   \<and> direct_writes (fst (processStdinRequest
          (parsing bogusInput (toolRequest (JStr ''bogus_tool'') (JObj []))) [bogusInput]))
       = [''{"result":{"content":[{"type":"text","text":"Error: Unknown tool: bogus_tool"}],"error":{"code":"unknown_tool","message":"Unknown tool: bogus_tool"}}}'']
   \<and> standard_output (parsing bogusInput (toolRequest (JStr ''bogus_tool'') (JObj [])))
        (fst (processStdinRequest
          (parsing bogusInput (toolRequest (JStr ''bogus_tool'') (JObj []))) [bogusInput]))
       = [line ''Received input: 40 characters'',
          line ''Tool called: bogus_tool'',
          ''{"result":{"content":[{"type":"text","text":"Error: Unknown tool: bogus_tool"}],"error":{"code":"unknown_tool","message":"Unknown tool: bogus_tool"}}}'']
   \<and> snd (processStdinRequest
          (parsing bogusInput (toolRequest (JStr ''bogus_tool'') (JObj []))) [bogusInput]) = Exited 1
   \<and> posts (fst (processStdinRequest
          (parsing bogusInput (toolRequest (JStr ''bogus_tool'') (JObj []))) [bogusInput])) = []\<close>
proof -
  let ?env = "parsing bogusInput (toolRequest (JStr ''bogus_tool'') (JObj []))"
  let ?request = "toolRequest (JStr ''bogus_tool'') (JObj [])"
  have h1: "trim (concat [bogusInput]) \<noteq> []"
    by (simp add: trim_blank bogusInput_def isWhiteSpace_def)
  have h2: "jsonParse ?env (concat [bogusInput]) = Inr ?request"
    by (rule parsing_parse)
  have h3: "truthy (getMember ?request ''tool'')"
    by (rule toolRequest_members)
  have h4: "getMember (getMember ?request ''tool'') ''name'' = JStr ''bogus_tool''"
    by (rule toolRequest_members)
  have h5: "''bogus_tool'' \<notin> set operationNames"
    by (simp add: operationNames_def)
  have h6: "truthy (getMember (getMember ?request ''tool'') ''args'')"
    by (simp add: toolRequest_members)
  have n: "numberToString ?env (Finite (of_nat (length (concat [bogusInput])))) = ''40''"
    by (simp add: example_defs printNumber_def decimal.simps)
  have s: \<open>JSON_stringify ?env
                (JObj [(''result'',
                        JObj [(''content'',
                               JArr [JObj [(''type'', JStr ''text''),
                                           (''text'', JStr (''Error: Unknown tool: '' @ ''bogus_tool''))]]),
                              (''error'',
                               JObj [(''code'', JStr ''unknown_tool''),
                                     (''message'', JStr (''Unknown tool: '' @ ''bogus_tool''))])])])
      = Some ''{"result":{"content":[{"type":"text","text":"Error: Unknown tool: bogus_tool"}],"error":{"code":"unknown_tool","message":"Unknown tool: bogus_tool"}}}''\<close>
    by (simp add: stringify_defs)
  from unknown_tool_response [OF h1 h2 h3 h4 h5 h6]
  obtain t where t: "JSON_stringify ?env
                (JObj [(''result'',
                        JObj [(''content'',
                               JArr [JObj [(''type'', JStr ''text''),
                                           (''text'', JStr (''Error: Unknown tool: '' @ ''bogus_tool''))]]),
                              (''error'',
                               JObj [(''code'', JStr ''unknown_tool''),
                                     (''message'', JStr (''Unknown tool: '' @ ''bogus_tool''))])])])
                = Some t"
      "direct_writes (fst (processStdinRequest ?env [bogusInput])) = [t]"
      "standard_output ?env (fst (processStdinRequest ?env [bogusInput]))
         = [line (''Received input: ''
                  @ numberToString ?env (Finite (of_nat (length (concat [bogusInput]))))
                  @ '' characters''),
            line (''Tool called: '' @ ''bogus_tool''),
            t]"
      "snd (processStdinRequest ?env [bogusInput]) = Exited 1"
      "posts (fst (processStdinRequest ?env [bogusInput])) = []"
    by blast
  have w: \<open>t = ''{"result":{"content":[{"type":"text","text":"Error: Unknown tool: bogus_tool"}],"error":{"code":"unknown_tool","message":"Unknown tool: bogus_tool"}}}''\<close>
    using t(1) s by simp
  have o: "standard_output ?env (fst (processStdinRequest ?env [bogusInput]))
       = [line ''Received input: 40 characters'', line ''Tool called: bogus_tool'', t]"
    unfolding t(3) n by simp
  show ?thesis
    using h1 h2 h5 t(2) o t(4,5) unfolding w by (intro conjI)
qed

subsection \<open>C6: input that does not parse\<close>

text \<open>
  C6. For every input text that is not empty after trimming and fails to parse as JSON,
  the process writes a response with the error code \<^verbatim>\<open>parse_error\<close> and the
  description of the parse failure as the error message, and exits with code 1. The
  response is the only text passed to \<^verbatim>\<open>process.stdout.write\<close>; on standard output
  it follows the console line \<^verbatim>\<open>Received input: ... characters\<close>.
\<close>

theorem parse_failure_response:
  assumes "trim (concat chunks) \<noteq> []"
      and "jsonParse env (concat chunks) = Inl (description, trace)"
  shows "\<exists>s. JSON_stringify env
                (JObj [(''result'',
                        JObj [(''content'',
                               JArr [JObj [(''type'', JStr ''text''),
                                           (''text'', JStr (''Error: Failed to parse input - ''
                                                            @ description))]]),
                              (''error'',
                               JObj [(''code'', JStr ''parse_error''),
                                     (''message'', JStr description)])])])
                = Some s
           \<and> direct_writes (fst (processStdinRequest env chunks)) = [s]
           \<and> standard_output env (fst (processStdinRequest env chunks))
               = [line (''Received input: ''
                        @ numberToString env (Finite (of_nat (length (concat chunks))))
                        @ '' characters''),
                  s]
           \<and> snd (processStdinRequest env chunks) = Exited 1
           \<and> posts (fst (processStdinRequest env chunks)) = []"
proof -
  have nb: "\<not> list_all isWhiteSpace (concat chunks)"
    using assms(1) by (simp add: trim_blank)
  obtain s where s: "JSON_stringify env
      (errorResponse (''Error: Failed to parse input - '' @ description)
         ''parse_error'' description) = Some s"
    using response_stringified by blast
  have run: "processStdinRequest env chunks =
     ([ConsoleLog [JStr (''Received input: ''
                     @ numberToString env (Finite (of_nat (length (concat chunks))))
                     @ '' characters'')],
       ConsoleError [JStr ''Error parsing input JSON:'', JStr description],
       StdoutWrite s], Exited 1)"
    using nb assms(2) s by (rule parse_failure_trace)
  have "direct_writes (fst (processStdinRequest env chunks)) = [s]
      \<and> standard_output env (fst (processStdinRequest env chunks))
               = [line (''Received input: ''
                        @ numberToString env (Finite (of_nat (length (concat chunks))))
                        @ '' characters''),
                  s]
      \<and> snd (processStdinRequest env chunks) = Exited 1
      \<and> posts (fst (processStdinRequest env chunks)) = []"
    by (simp add: run trace_simps output_simps)
  with s show ?thesis unfolding errorResponse_literal by blast
qed

text \<open>An input cut off in the middle, arriving in two chunks, on the example machine.\<close>

theorem parse_failure_response_witness:
  \<open>trim (concat [units ''{"tool":'', units '' {"name"'']) \<noteq> []
   \<and> jsonParse exampleEnv (concat [units ''{"tool":'', units '' {"name"''])
       = Inl (''Unexpected end of JSON input'', ''SyntaxError'')
   \<and> direct_writes (fst (processStdinRequest exampleEnv [units ''{"tool":'', units '' {"name"'']))
       = [''{"result":{"content":[{"type":"text","text":"Error: Failed to parse input - Unexpected end of JSON input"}],"error":{"code":"parse_error","message":"Unexpected end of JSON input"}}}'']
   \<and> standard_output exampleEnv
        (fst (processStdinRequest exampleEnv [units ''{"tool":'', units '' {"name"'']))
       = [line ''Received input: 16 characters'',
          ''{"result":{"content":[{"type":"text","text":"Error: Failed to parse input - Unexpected end of JSON input"}],"error":{"code":"parse_error","message":"Unexpected end of JSON input"}}}'']
   \<and> snd (processStdinRequest exampleEnv [units ''{"tool":'', units '' {"name"'']) = Exited 1
   \<and> posts (fst (processStdinRequest exampleEnv [units ''{"tool":'', units '' {"name"''])) = []\<close>
proof -
  let ?chunks = \<open>[units ''{"tool":'', units '' {"name"'']\<close>
  have h1: "trim (concat ?chunks) \<noteq> []"
    by (simp add: trim_blank isWhiteSpace_def)
  have h2: "jsonParse exampleEnv (concat ?chunks)
       = Inl (''Unexpected end of JSON input'', ''SyntaxError'')"
    by (simp add: exampleEnv_def)
  have n: "numberToString exampleEnv (Finite (of_nat (length (concat ?chunks)))) = ''16''"
    by (simp add: exampleEnv_def printNumber_def decimal.simps)
  have s: \<open>JSON_stringify exampleEnv
                (JObj [(''result'',
                        JObj [(''content'',
                               JArr [JObj [(''type'', JStr ''text''),
                                           (''text'', JStr (''Error: Failed to parse input - ''
                                                            @ ''Unexpected end of JSON input''))]]),
                              (''error'',
                               JObj [(''code'', JStr ''parse_error''),
                                     (''message'', JStr ''Unexpected end of JSON input'')])])])
      = Some ''{"result":{"content":[{"type":"text","text":"Error: Failed to parse input - Unexpected end of JSON input"}],"error":{"code":"parse_error","message":"Unexpected end of JSON input"}}}''\<close>
    by (simp add: stringify_defs)
  from parse_failure_response [OF h1 h2]
  obtain t where t: "JSON_stringify exampleEnv
                (JObj [(''result'',
                        JObj [(''content'',
                               JArr [JObj [(''type'', JStr ''text''),
                                           (''text'', JStr (''Error: Failed to parse input - ''
                                                            @ ''Unexpected end of JSON input''))]]),
                              (''error'',
                               JObj [(''code'', JStr ''parse_error''),
                                     (''message'', JStr ''Unexpected end of JSON input'')])])])
                = Some t"
      "direct_writes (fst (processStdinRequest exampleEnv ?chunks)) = [t]"
      "standard_output exampleEnv (fst (processStdinRequest exampleEnv ?chunks))
         = [line (''Received input: ''
                  @ numberToString exampleEnv (Finite (of_nat (length (concat ?chunks))))
                  @ '' characters''),
            t]"
      "snd (processStdinRequest exampleEnv ?chunks) = Exited 1"
      "posts (fst (processStdinRequest exampleEnv ?chunks)) = []"
    by blast
  have w: \<open>t = ''{"result":{"content":[{"type":"text","text":"Error: Failed to parse input - Unexpected end of JSON input"}],"error":{"code":"parse_error","message":"Unexpected end of JSON input"}}}''\<close>
    using t(1) s by simp
  have o: "standard_output exampleEnv (fst (processStdinRequest exampleEnv ?chunks))
       = [line ''Received input: 16 characters'', t]"
    unfolding t(3) n by simp
  show ?thesis
    using h1 h2 t(2) o t(4,5) unfolding w by (intro conjI)
qed

subsection \<open>C7: blank input\<close>

text \<open>
  C7 says that on blank input the process writes nothing to standard output. The
  listener indeed writes nothing, but \<^verbatim>\<open>main\<close> has called \<^verbatim>\<open>setupLogging\<close>
  before, whose line \<^verbatim>\<open>Logging initialized to ...\<close> goes through
  \<^verbatim>\<open>console.log\<close> to standard output.

  C7, as amended: for every input stream that is empty or consists of white space only,
  the process, started without the argument \<^verbatim>\<open>configure\<close>, exits with code 1 and
  never calls \<^verbatim>\<open>process.stdout.write\<close>: no response is written. The listener's
  only effect is one \<^verbatim>\<open>console.error\<close> line, on standard error. Standard output
  holds the line \<^verbatim>\<open>Logging initialized to \<close> followed by the path of the log file
  when \<^verbatim>\<open>setupLogging\<close> has succeeded, and nothing when it has failed.
\<close>

theorem blank_input_exits_1:
  assumes "''configure'' \<notin> set argv"
      and "list_all isWhiteSpace (concat chunks)"
  shows "snd (main env argv chunks) = Exited 1
       \<and> direct_writes (fst (main env argv chunks)) = []
       \<and> fst (processStdinRequest env chunks) = [ConsoleError [JStr ''Error: No input received'']]
       \<and> standard_output env (fst (main env argv chunks))
           = (if logMirror env then [line (''Logging initialized to '' @ LOG_PATH env)] else [])"
  using assms
  by (simp add: main_run blank_input_run setupLogging_run trace_simps output_simps)

text \<open>
  An input of a space, a line feed and a line separator (U+2028), in two chunks, on the
  example machine.
\<close>

theorem blank_input_exits_1_witness:
  "''configure'' \<notin> set ([] :: string list)
   \<and> list_all isWhiteSpace (concat [[0x20, 0x0A], [0x2028]])
   \<and> snd (main exampleEnv [] [[0x20, 0x0A], [0x2028]]) = Exited 1
   \<and> direct_writes (fst (main exampleEnv [] [[0x20, 0x0A], [0x2028]])) = []
   \<and> standard_output exampleEnv (fst (main exampleEnv [] [[0x20, 0x0A], [0x2028]]))
       = [line ''Logging initialized to /home/user/.agentforce-reliable-client/logs/client-2023-11-14T22-13-20-000Z.log'']"
proof -
  have h1: "''configure'' \<notin> set ([] :: string list)"
    by simp
  have h2: "list_all isWhiteSpace (concat [[0x20, 0x0A], [0x2028]])"
    by (simp add: isWhiteSpace_def)
  have m: "logMirror exampleEnv"
    by (simp add: exampleEnv_def)
  have p: "LOG_PATH exampleEnv
      = ''/home/user/.agentforce-reliable-client/logs/client-2023-11-14T22-13-20-000Z.log''"
    by (simp add: exampleEnv_def)
  from blank_input_exits_1 [OF h1 h2, of exampleEnv] h1 h2 m p
  show ?thesis by simp
qed

text \<open>
  The claim fails on the example machine for the empty input: the process exits with
  code 1, and standard output holds one line.
\<close>

theorem blank_input_output_counterexample:
  "concat ([] :: code_unit list list) = []
   \<and> snd (main exampleEnv [] []) = Exited 1
   \<and> standard_output exampleEnv (fst (main exampleEnv [] []))
       = [''Logging initialized to /home/user/.agentforce-reliable-client/logs/client-2023-11-14T22-13-20-000Z.log''
          @ [CHR 0x0A]]
   \<and> standard_output exampleEnv (fst (main exampleEnv [] [])) \<noteq> []"
  by (simp add: main_run blank_input_run setupLogging_run output_simps line_def exampleEnv_def)

subsection \<open>C8: the outbound call\<close>

text \<open>
  C8. For every operation, the call that is posted goes to the \<^verbatim>\<open>serverUrl\<close> of the
  loaded configuration followed by \<^verbatim>\<open>/mcp/call-tool\<close>, with the body
  \<^verbatim>\<open>{ tool: { name, args } }\<close> whose \<^verbatim>\<open>args\<close> are those of the envelope, with
  the headers \<^verbatim>\<open>x-api-key\<close> (the \<^verbatim>\<open>apiKey\<close> of the configuration),
  \<^verbatim>\<open>x-request-id\<close> (the identifier drawn from \<^verbatim>\<open>uuidv4()\<close> for this call) and
  \<^verbatim>\<open>Content-Type: application/json\<close>, and with the time-out of the operation:
  30 s, 60 s, 300 s, 10 s and 10 s, in milliseconds. It is the only call of the
  operation.
\<close>

theorem outbound_call_shape:
  assumes "(name, ms) \<in> set [(''agentforce_authenticate'', 30000), (''agentforce_create_session'', 60000),
              (''agentforce_send_message'', 300000), (''agentforce_get_status'', 10000),
              (''agentforce_reset'', 10000 :: nat)]"
      and "HttpPost req \<in> set (fst (dispatch env (JStr name) args))"
  shows "\<exists>config serverUrlText.
           snd (loadConfig env) = Returned config \<and> \<not> nullish config
         \<and> toStringJS env (getMember config ''serverUrl'') = Inr serverUrlText
         \<and> req = \<lparr>url = serverUrlText @ ''/mcp/call-tool'',
                  body = JObj [(''tool'', JObj [(''name'', JStr name), (''args'', args)])],
                  headers = [(''x-api-key'', getMember config ''apiKey''),
                             (''x-request-id'', JStr (uuidv4 env)),
                             (''Content-Type'', JStr ''application/json'')],
                  timeout = ms\<rparr>
         \<and> posts (fst (dispatch env (JStr name) args)) = [req]"
  using assms by (rule outbound_call_run)

text \<open>
  On the example machine the status request is posted to the default server address,
  with the empty default key.
\<close>

theorem outbound_call_shape_witness:
  "(''agentforce_get_status'', 10000) \<in> set [(''agentforce_authenticate'', 30000), (''agentforce_create_session'', 60000),
              (''agentforce_send_message'', 300000), (''agentforce_get_status'', 10000),
              (''agentforce_reset'', 10000 :: nat)]
   \<and> HttpPost \<lparr>url = ''http://localhost:3000/mcp/call-tool'',
                 body = JObj [(''tool'', JObj [(''name'', JStr ''agentforce_get_status''),
                                (''args'', clientArgs)])],
                 headers = [(''x-api-key'', JStr []),
                            (''x-request-id'', JStr ''3f2c1d9e-7a4b-4c6d-8e5f-0a1b2c3d4e5f''),
                            (''Content-Type'', JStr ''application/json'')],
                 timeout = 10000\<rparr>
       \<in> set (fst (dispatch exampleEnv (JStr ''agentforce_get_status'') clientArgs))
   \<and> posts (fst (dispatch exampleEnv (JStr ''agentforce_get_status'') clientArgs))
       = [\<lparr>url = ''http://localhost:3000/mcp/call-tool'',
           body = JObj [(''tool'', JObj [(''name'', JStr ''agentforce_get_status''),
                          (''args'', clientArgs)])],
           headers = [(''x-api-key'', JStr []),
                      (''x-request-id'', JStr ''3f2c1d9e-7a4b-4c6d-8e5f-0a1b2c3d4e5f''),
                      (''Content-Type'', JStr ''application/json'')],
           timeout = 10000\<rparr>]"
proof -
  let ?req = "\<lparr>url = ''http://localhost:3000/mcp/call-tool'',
                 body = JObj [(''tool'', JObj [(''name'', JStr ''agentforce_get_status''),
                                (''args'', clientArgs)])],
                 headers = [(''x-api-key'', JStr []),
                            (''x-request-id'', JStr ''3f2c1d9e-7a4b-4c6d-8e5f-0a1b2c3d4e5f''),
                            (''Content-Type'', JStr ''application/json'')],
                 timeout = 10000\<rparr>"
  have h1: "(''agentforce_get_status'', 10000) \<in> set [(''agentforce_authenticate'', 30000), (''agentforce_create_session'', 60000),
              (''agentforce_send_message'', 300000), (''agentforce_get_status'', 10000),
              (''agentforce_reset'', 10000 :: nat)]"
    by simp
  have h2: "HttpPost ?req \<in> set (fst (dispatch exampleEnv (JStr ''agentforce_get_status'') clientArgs))"
    by (simp add: operation_defs exampleEnv_def clientArgs_def)
  from outbound_call_shape [OF h1 h2]
  have "posts (fst (dispatch exampleEnv (JStr ''agentforce_get_status'') clientArgs)) = [?req]"
    by (elim exE conjE)
  with h1 h2 show ?thesis by (intro conjI)
qed

subsection \<open>C9: faults of the console lines before the try block\<close>

text \<open>
  C9 says that the fault arises whenever \<^verbatim>\<open>args\<close> lacks a \<^verbatim>\<open>message\<close> with a
  length property, or lacks a \<^verbatim>\<open>config\<close> object. Reading a property throws only on
  \<^verbatim>\<open>undefined\<close> and \<^verbatim>\<open>null\<close>: for a message that is a boolean or a number,
  \<^verbatim>\<open>args.message.length\<close> is \<^verbatim>\<open>undefined\<close>, nothing is thrown and the call is
  posted.

  C9, as amended: for a valid envelope naming \<^verbatim>\<open>agentforce_send_message\<close> whose
  \<^verbatim>\<open>args.message\<close> is absent or \<^verbatim>\<open>null\<close>, or naming
  \<^verbatim>\<open>agentforce_authenticate\<close> whose \<^verbatim>\<open>args.config\<close> is absent or
  \<^verbatim>\<open>null\<close>, the fault raised by the console lines before the \<^verbatim>\<open>try\<close> block
  leaves the operation, is caught by the listener, and the output carries the error code
  \<^verbatim>\<open>processing_error\<close> with the message of the fault; the process exits with code 1
  and no call is posted.
\<close>

theorem diagnostic_fault_is_processing_error:
  assumes "trim (concat chunks) \<noteq> []"
      and "jsonParse env (concat chunks) = Inr request"
      and "truthy (getMember request ''tool'')"
      and "truthy (getMember (getMember request ''tool'') ''args'')"
      and "(getMember (getMember request ''tool'') ''name'' = JStr ''agentforce_send_message''
              \<and> nullish (getMember (getMember (getMember request ''tool'') ''args'') ''message''))
         \<or> (getMember (getMember request ''tool'') ''name'' = JStr ''agentforce_authenticate''
              \<and> nullish (getMember (getMember (getMember request ''tool'') ''args'') ''config''))"
  shows "\<exists>e. snd (dispatch env (getMember (getMember request ''tool'') ''name'')
                    (getMember (getMember request ''tool'') ''args'')) = Raised e
           \<and> map Some (direct_writes (fst (processStdinRequest env chunks)))
               = [JSON_stringify env
                    (errorResponse (''Error: '' @ message e) ''processing_error'' (message e))]
           \<and> snd (processStdinRequest env chunks) = Exited 1
           \<and> posts (fst (processStdinRequest env chunks)) = []"
proof -
  have "\<not> list_all isWhiteSpace (concat chunks)"
    using assms(1) by (simp add: trim_blank)
  then show ?thesis using assms(2-5) by (rule diagnostic_fault_run)
qed

text \<open>A message request without \<^verbatim>\<open>message\<close>.\<close>

theorem diagnostic_fault_is_processing_error_witness:
  "trim (concat [sendNoMessageInput]) \<noteq> []
   \<and> jsonParse (parsing sendNoMessageInput (toolRequest (JStr ''agentforce_send_message'') clientArgs))
        (concat [sendNoMessageInput])
       = Inr (toolRequest (JStr ''agentforce_send_message'') clientArgs)
   \<and> nullish (getMember clientArgs ''message'')
   \<and> (\<exists>e. snd (dispatch (parsing sendNoMessageInput (toolRequest (JStr ''agentforce_send_message'') clientArgs))
                 (JStr ''agentforce_send_message'') clientArgs) = Raised e
          \<and> map Some (direct_writes (fst (processStdinRequest
                 (parsing sendNoMessageInput (toolRequest (JStr ''agentforce_send_message'') clientArgs))
                 [sendNoMessageInput])))
              = [JSON_stringify
                   (parsing sendNoMessageInput (toolRequest (JStr ''agentforce_send_message'') clientArgs))
                   (errorResponse (''Error: '' @ message e) ''processing_error'' (message e))]
          \<and> snd (processStdinRequest
                 (parsing sendNoMessageInput (toolRequest (JStr ''agentforce_send_message'') clientArgs))
                 [sendNoMessageInput]) = Exited 1
          \<and> posts (fst (processStdinRequest
                 (parsing sendNoMessageInput (toolRequest (JStr ''agentforce_send_message'') clientArgs))
                 [sendNoMessageInput])) = [])"
proof -
  let ?request = "toolRequest (JStr ''agentforce_send_message'') clientArgs"
  let ?env = "parsing sendNoMessageInput ?request"
  have h1: "trim (concat [sendNoMessageInput]) \<noteq> []"
    by (simp add: trim_blank sendNoMessageInput_def isWhiteSpace_def)
  have h2: "jsonParse ?env (concat [sendNoMessageInput]) = Inr ?request"
    by (rule parsing_parse)
  have h3: "truthy (getMember ?request ''tool'')"
    by (rule toolRequest_members)
  have h4: "truthy (getMember (getMember ?request ''tool'') ''args'')"
    by (simp add: toolRequest_def clientArgs_def)
  have n: "nullish (getMember clientArgs ''message'')"
    by (simp add: clientArgs_def nullish_def)
  have h5: "(getMember (getMember ?request ''tool'') ''name'' = JStr ''agentforce_send_message''
              \<and> nullish (getMember (getMember (getMember ?request ''tool'') ''args'') ''message''))
         \<or> (getMember (getMember ?request ''tool'') ''name'' = JStr ''agentforce_authenticate''
              \<and> nullish (getMember (getMember (getMember ?request ''tool'') ''args'') ''config''))"
    using n by (simp add: toolRequest_def)
  from diagnostic_fault_is_processing_error [OF h1 h2 h3 h4 h5] h1 h2 n
  show ?thesis by (simp add: toolRequest_def)
qed

text \<open>
  The claim fails for a message that is \<^verbatim>\<open>true\<close>: it has no length property, yet
  nothing is thrown, the call is posted, and with the server unreachable the output
  carries the code of the operation, with exit code 0.
\<close>

theorem message_without_length_counterexample:
  \<open>getMember (JBool True) ''length'' = JUndefined
   \<and> posts (fst (processStdinRequest
          (parsing sendFlagInput
             (toolRequest (JStr ''agentforce_send_message'')
                (JObj [(''clientId'', JStr ''c1''), (''message'', JBool True)])))
          [sendFlagInput]))
     = [\<lparr>url = ''http://localhost:3000/mcp/call-tool'',
         body = JObj [(''tool'', JObj [(''name'', JStr ''agentforce_send_message''),
                        (''args'', JObj [(''clientId'', JStr ''c1''), (''message'', JBool True)])])],
         headers = [(''x-api-key'', JStr []),
                    (''x-request-id'', JStr ''3f2c1d9e-7a4b-4c6d-8e5f-0a1b2c3d4e5f''),
                    (''Content-Type'', JStr ''application/json'')],
         timeout = 300000\<rparr>]
   \<and> direct_writes (fst (processStdinRequest
          (parsing sendFlagInput
             (toolRequest (JStr ''agentforce_send_message'')
                (JObj [(''clientId'', JStr ''c1''), (''message'', JBool True)])))
          [sendFlagInput]))
     = [''{"result":{"content":[{"type":"text","text":"Message sending failed: connect ECONNREFUSED 127.0.0.1:3000"}],"error":{"code":"message_sending_error","message":"connect ECONNREFUSED 127.0.0.1:3000"}}}'']
   \<and> snd (processStdinRequest
          (parsing sendFlagInput
             (toolRequest (JStr ''agentforce_send_message'')
                (JObj [(''clientId'', JStr ''c1''), (''message'', JBool True)])))
          [sendFlagInput]) = Exited 0\<close>
proof -
  let ?args = "JObj [(''clientId'', JStr ''c1''), (''message'', JBool True)]"
  let ?request = "toolRequest (JStr ''agentforce_send_message'') ?args"
  let ?env = "parsing sendFlagInput ?request"
  let ?result = "JObj [(''content'', JArr [JObj [(''type'', JStr ''text''),
                          (''text'', JStr ''Message sending failed: connect ECONNREFUSED 127.0.0.1:3000'')]]),
                       (''error'', JObj [(''code'', JStr ''message_sending_error''),
                          (''message'', JStr ''connect ECONNREFUSED 127.0.0.1:3000'')])]"
  have h1: "\<not> list_all isWhiteSpace (concat [sendFlagInput])"
    by (simp add: sendFlagInput_def isWhiteSpace_def)
  have h2: "jsonParse ?env (concat [sendFlagInput]) = Inr ?request"
    by (rule parsing_parse)
  have h3: "truthy (getMember ?request ''tool'')"
    by (rule toolRequest_members)
  have h4: "getMember (getMember ?request ''tool'') ''name'' = JStr ''agentforce_send_message''"
    by (rule toolRequest_members)
  have h5: "''agentforce_send_message'' \<in> set operationNames"
    by (simp add: operationNames_def)
  have h6: "truthy (getMember (getMember ?request ''tool'') ''args'')"
    by (simp add: toolRequest_def)
  have a: "getMember (getMember ?request ''tool'') ''args'' = ?args"
    by (simp add: toolRequest_def)
  have d: "snd (dispatch ?env (JStr ''agentforce_send_message'') ?args) = Returned ?result"
    by (simp add: operation_defs example_defs)
  have p: "posts (fst (dispatch ?env (JStr ''agentforce_send_message'') ?args))
      = [\<lparr>url = ''http://localhost:3000/mcp/call-tool'',
         body = JObj [(''tool'', JObj [(''name'', JStr ''agentforce_send_message''),
                        (''args'', ?args)])],
         headers = [(''x-api-key'', JStr []),
                    (''x-request-id'', JStr ''3f2c1d9e-7a4b-4c6d-8e5f-0a1b2c3d4e5f''),
                    (''Content-Type'', JStr ''application/json'')],
         timeout = 300000\<rparr>]"
    by (simp add: operation_defs example_defs posts_def)
  have h7: "snd (dispatch ?env (JStr ''agentforce_send_message'')
                       (getMember (getMember ?request ''tool'') ''args'')) = Returned ?result"
    using d by (simp only: a)
  have s: \<open>JSON_stringify ?env (JObj [(''result'', ?result)])
      = Some ''{"result":{"content":[{"type":"text","text":"Message sending failed: connect ECONNREFUSED 127.0.0.1:3000"}],"error":{"code":"message_sending_error","message":"connect ECONNREFUSED 127.0.0.1:3000"}}}''\<close>
    by (simp add: stringify_defs)
  have w: "direct_writes (fst (processStdinRequest ?env [sendFlagInput]))
      = [the (JSON_stringify ?env (JObj [(''result'', ?result)]))]"
     and x: "snd (processStdinRequest ?env [sendFlagInput]) = Exited 0"
    using dispatch_returned_run [OF h1 h2 h3 h4 h5 h6 h7] s by (simp_all add: map_Some_single)
  have q: "posts (fst (processStdinRequest ?env [sendFlagInput]))
      = posts (fst (dispatch ?env (JStr ''agentforce_send_message'') ?args))"
    using dispatch_returned_posts [OF h1 h2 h3 h4 h6 h7] by (simp only: a)
  have l: "getMember (JBool True) ''length'' = JUndefined"
    by simp
  show ?thesis
    unfolding q p w x s using l by simp
qed

subsection \<open>C10: falsy fields\<close>

text \<open>
  C10 says that a request whose \<^verbatim>\<open>tool.args\<close> is present but falsy is always
  answered with \<^verbatim>\<open>Missing args field\<close>. As for C4, the template
  \<^verbatim>\<open>`Tool called: ${name}`\<close> is evaluated before \<^verbatim>\<open>args\<close> is tested and
  throws for a name that cannot be converted to a string.

  C10, as amended: the presence checks are truthiness tests. For every parsed request
  whose \<^verbatim>\<open>tool\<close> is \<^verbatim>\<open>null\<close>, \<^verbatim>\<open>false\<close>, \<^verbatim>\<open>0\<close> or the empty
  string, the output carries \<^verbatim>\<open>invalid_request\<close> with the message
  \<^verbatim>\<open>Missing tool field\<close>; for every parsed request with a truthy \<^verbatim>\<open>tool\<close>
  whose \<^verbatim>\<open>tool.args\<close> is one of these four values and whose \<^verbatim>\<open>tool.name\<close>
  can be converted to a string, the output carries \<^verbatim>\<open>invalid_request\<close> with the
  message \<^verbatim>\<open>Missing args field\<close>. In both cases the process exits with code 1,
  although the field exists in the input.
\<close>

theorem falsy_field_responses:
  assumes "trim (concat chunks) \<noteq> []"
      and "jsonParse env (concat chunks) = Inr request"
  shows "(getMember request ''tool'' \<in> {JNull, JBool False, JNum (Finite 0), JStr []} \<longrightarrow>
            map Some (direct_writes (fst (processStdinRequest env chunks)))
              = [JSON_stringify env
                   (errorResponse ''Error: Invalid request format - missing tool field''
                      ''invalid_request'' ''Missing tool field'')]
          \<and> snd (processStdinRequest env chunks) = Exited 1
          \<and> posts (fst (processStdinRequest env chunks)) = [])
       \<and> (truthy (getMember request ''tool'')
            \<and> getMember (getMember request ''tool'') ''args''
                 \<in> {JNull, JBool False, JNum (Finite 0), JStr []}
            \<and> renders env (getMember (getMember request ''tool'') ''name'') \<longrightarrow>
            map Some (direct_writes (fst (processStdinRequest env chunks)))
              = [JSON_stringify env
                   (errorResponse ''Error: Invalid request format - missing args field''
                      ''invalid_request'' ''Missing args field'')]
          \<and> snd (processStdinRequest env chunks) = Exited 1
          \<and> posts (fst (processStdinRequest env chunks)) = [])"
proof (rule conjI; rule impI)
  have nb: "\<not> list_all isWhiteSpace (concat chunks)"
    using assms(1) by (simp add: trim_blank)
  {
    assume "getMember request ''tool'' \<in> {JNull, JBool False, JNum (Finite 0), JStr []}"
    then have "\<not> truthy (getMember request ''tool'')" by auto
    from missing_tool_run [OF nb assms(2) this]
    show "map Some (direct_writes (fst (processStdinRequest env chunks)))
                = [JSON_stringify env
                     (errorResponse ''Error: Invalid request format - missing tool field''
                        ''invalid_request'' ''Missing tool field'')]
            \<and> snd (processStdinRequest env chunks) = Exited 1
            \<and> posts (fst (processStdinRequest env chunks)) = []" .
  next
    assume a: "truthy (getMember request ''tool'')
              \<and> getMember (getMember request ''tool'') ''args''
                   \<in> {JNull, JBool False, JNum (Finite 0), JStr []}
              \<and> renders env (getMember (getMember request ''tool'') ''name'')"
    then have "\<not> truthy (getMember (getMember request ''tool'') ''args'')" by auto
    with a missing_args_run [OF nb assms(2)]
    show "map Some (direct_writes (fst (processStdinRequest env chunks)))
                = [JSON_stringify env
                     (errorResponse ''Error: Invalid request format - missing args field''
                        ''invalid_request'' ''Missing args field'')]
            \<and> snd (processStdinRequest env chunks) = Exited 1
            \<and> posts (fst (processStdinRequest env chunks)) = []" by blast
  }
qed

text \<open>
  A request whose \<^verbatim>\<open>tool\<close> is \<^verbatim>\<open>null\<close>, and a reset request whose
  \<^verbatim>\<open>args\<close> is the empty string.
\<close>

theorem falsy_field_responses_witness:
  "trim (concat [nullToolInput]) \<noteq> []
   \<and> jsonParse (parsing nullToolInput (JObj [(''tool'', JNull)])) (concat [nullToolInput])
       = Inr (JObj [(''tool'', JNull)])
   \<and> getMember (JObj [(''tool'', JNull)]) ''tool'' = JNull
   \<and> map Some (direct_writes (fst (processStdinRequest
          (parsing nullToolInput (JObj [(''tool'', JNull)])) [nullToolInput])))
       = [JSON_stringify (parsing nullToolInput (JObj [(''tool'', JNull)]))
            (errorResponse ''Error: Invalid request format - missing tool field''
               ''invalid_request'' ''Missing tool field'')]
   \<and> snd (processStdinRequest
          (parsing nullToolInput (JObj [(''tool'', JNull)])) [nullToolInput]) = Exited 1
   \<and> trim (concat [emptyArgsInput]) \<noteq> []
   \<and> jsonParse (parsing emptyArgsInput (toolRequest (JStr ''agentforce_reset'') (JStr [])))
        (concat [emptyArgsInput])
       = Inr (toolRequest (JStr ''agentforce_reset'') (JStr []))
   \<and> getMember (getMember (toolRequest (JStr ''agentforce_reset'') (JStr [])) ''tool'') ''args''
       = JStr []
   \<and> map Some (direct_writes (fst (processStdinRequest
          (parsing emptyArgsInput (toolRequest (JStr ''agentforce_reset'') (JStr [])))
          [emptyArgsInput])))
       = [JSON_stringify
            (parsing emptyArgsInput (toolRequest (JStr ''agentforce_reset'') (JStr [])))
            (errorResponse ''Error: Invalid request format - missing args field''
               ''invalid_request'' ''Missing args field'')]
   \<and> snd (processStdinRequest
          (parsing emptyArgsInput (toolRequest (JStr ''agentforce_reset'') (JStr [])))
          [emptyArgsInput]) = Exited 1"
proof -
  let ?r1 = "JObj [(''tool'', JNull)]"
  let ?r2 = "toolRequest (JStr ''agentforce_reset'') (JStr [])"
  have a1: "trim (concat [nullToolInput]) \<noteq> []"
    by (simp add: trim_blank nullToolInput_def isWhiteSpace_def)
  have a2: "jsonParse (parsing nullToolInput ?r1) (concat [nullToolInput]) = Inr ?r1"
    by (rule parsing_parse)
  have a3: "getMember ?r1 ''tool'' = JNull"
    by simp
  have b1: "trim (concat [emptyArgsInput]) \<noteq> []"
    by (simp add: trim_blank emptyArgsInput_def isWhiteSpace_def)
  have b2: "jsonParse (parsing emptyArgsInput ?r2) (concat [emptyArgsInput]) = Inr ?r2"
    by (rule parsing_parse)
  have b3: "truthy (getMember ?r2 ''tool'')"
       "getMember (getMember ?r2 ''tool'') ''args'' = JStr []"
       "renders (parsing emptyArgsInput ?r2) (getMember (getMember ?r2 ''tool'') ''name'')"
    by (simp_all add: renders_def toolRequest_def)
  from falsy_field_responses [OF a1 a2] falsy_field_responses [OF b1 b2] a1 a2 a3 b1 b2 b3
  show ?thesis by simp
qed

text \<open>
  The claim fails for a request whose \<^verbatim>\<open>tool.args\<close> is \<^verbatim>\<open>null\<close> and whose
  name is an array holding an object with a \<^verbatim>\<open>toString\<close> property: the output
  carries the code \<^verbatim>\<open>processing_error\<close>.
\<close>

theorem falsy_args_counterexample:
  \<open>getMember (getMember (toolRequest (JArr [JObj [(''toString'', JNum (Finite 0))]]) JNull) ''tool'')
       ''args'' = JNull
   \<and> direct_writes (fst (processStdinRequest
          (parsing oddNameNullArgsInput
             (toolRequest (JArr [JObj [(''toString'', JNum (Finite 0))]]) JNull))
          [oddNameNullArgsInput]))
     = [''{"result":{"content":[{"type":"text","text":"Error: Cannot convert object to primitive value"}],"error":{"code":"processing_error","message":"Cannot convert object to primitive value"}}}'']
   \<and> snd (processStdinRequest
          (parsing oddNameNullArgsInput
             (toolRequest (JArr [JObj [(''toString'', JNum (Finite 0))]]) JNull))
          [oddNameNullArgsInput]) = Exited 1\<close>
proof -
  let ?request = "toolRequest (JArr [JObj [(''toString'', JNum (Finite 0))]]) JNull"
  let ?env = "parsing oddNameNullArgsInput ?request"
  have h1: "\<not> list_all isWhiteSpace (concat [oddNameNullArgsInput])"
    by (simp add: oddNameNullArgsInput_def isWhiteSpace_def)
  have h2: "jsonParse ?env (concat [oddNameNullArgsInput]) = Inr ?request"
    by (rule parsing_parse)
  have h3: "truthy (getMember ?request ''tool'')"
    by (rule toolRequest_members)
  have h4: "\<not> renders ?env (getMember (getMember ?request ''tool'') ''name'')"
    by (simp add: renders_def toolRequest_def)
  have h5: "getMember (getMember ?request ''tool'') ''args'' = JNull"
    by (simp add: toolRequest_def)
  have c: "fst (conversionFault ?env) = ''Cannot convert object to primitive value''"
    by (simp add: parsing_def exampleEnv_def)
  have s: \<open>JSON_stringify ?env
       (errorResponse (''Error: '' @ ''Cannot convert object to primitive value'')
          ''processing_error'' ''Cannot convert object to primitive value'')
     = Some ''{"result":{"content":[{"type":"text","text":"Error: Cannot convert object to primitive value"}],"error":{"code":"processing_error","message":"Cannot convert object to primitive value"}}}''\<close>
    by (simp add: stringify_defs)
  from name_fault_run [OF h1 h2 h3 h4] s h5
  show ?thesis unfolding c by (simp add: map_Some_single)
qed

end
